theory Spec2Isabelle
  imports Complex_Main
begin

section \<open>Return codes and log output\<close>

text \<open>
  The C functions return an \<open>int\<close>: zero (or a non-negative value) on success, a negative
  \<open>NGL_ERROR_*\<close> code on failure, and every caller only tests \<open>ret < 0\<close>.  The numeric
  values of the codes live in \<open>nodegl.h\<close>; they are kept symbolic here.  \<open>NGL_ERROR_CODE k\<close>
  stands for a raw negative integer that is not written as a named constant (the \<open>-1\<close> of
  \<open>create_fbo\<close>, a negative platform value handed in by the caller).

  \<open>RET_CRASH\<close> marks the places where the C code would dereference a NULL pointer or trip
  an \<open>ngli_assert\<close>: the process stops there.
\<close>

datatype ngl_error =
    NGL_ERROR_INVALID_ARG
  | NGL_ERROR_INVALID_USAGE
  | NGL_ERROR_UNSUPPORTED
  | NGL_ERROR_MEMORY
  | NGL_ERROR_GRAPHICS_UNSUPPORTED
  | NGL_ERROR_EXTERNAL
  | NGL_ERROR_CODE int

datatype ret = RET_OK | RET_ERR ngl_error | RET_CRASH

text \<open>\<open>ret < 0\<close> in the source; a crash also ends the function.\<close>

fun failed :: "ret \<Rightarrow> bool" where
  "failed RET_OK = False"
| "failed (RET_ERR e) = True"
| "failed RET_CRASH = True"

datatype log_level = LOG_DEBUG | LOG_INFO | LOG_WARNING | LOG_ERROR

text \<open>A call returns the messages it passed to \<open>LOG\<close>, in order (format strings as written).\<close>

type_synonym log = "(log_level \<times> string) list"

section \<open>Build configuration\<close>

text \<open>The preprocessor symbols the two source files branch on.\<close>

record build =
  BACKEND_GL :: bool
  BACKEND_GLES :: bool
  BACKEND_VK :: bool
  TARGET_LINUX :: bool
  TARGET_IPHONE :: bool
  TARGET_DARWIN :: bool
  TARGET_ANDROID :: bool
  TARGET_WINDOWS :: bool

section \<open>Public configuration (\<open>struct ngl_config\<close>)\<close>

datatype ngl_backend_id =
    NGL_BACKEND_AUTO
  | NGL_BACKEND_OPENGL
  | NGL_BACKEND_OPENGLES
  | NGL_BACKEND_VULKAN
  | BACKEND_OUT_OF_RANGE int

text \<open>
  The platform field is an \<open>int\<close>: \<open>get_default_platform\<close> stores an error code in it, and
  \<open>ngl_configure\<close> returns a negative platform as the error.  \<open>PLATFORM_NEGATIVE e\<close> is such
  a negative value.
\<close>

datatype ngl_platform =
    NGL_PLATFORM_AUTO
  | NGL_PLATFORM_XLIB
  | NGL_PLATFORM_ANDROID
  | NGL_PLATFORM_MACOS
  | NGL_PLATFORM_IOS
  | NGL_PLATFORM_WINDOWS
  | PLATFORM_OTHER nat
  | PLATFORM_NEGATIVE ngl_error

datatype capture_buffer_type =
    NGL_CAPTURE_BUFFER_TYPE_CPU
  | NGL_CAPTURE_BUFFER_TYPE_COREVIDEO
  | CAPTURE_BUFFER_TYPE_OTHER int

text \<open>\<open>struct ngl_config_gl\<close>, the OpenGL specific sub-configuration.\<close>

record ngl_config_gl =
  external :: bool
  external_framebuffer :: nat

text \<open>
  Flags that C keeps in an \<open>int\<close> and only tests for truth are \<open>bool\<close>; pointers are
  \<open>option\<close> (\<open>None\<close> is NULL); \<open>float\<close> values are only copied by the modelled code and are
  written as \<open>real\<close>.
\<close>

record ngl_config =
  platform :: ngl_platform
  backend :: ngl_backend_id
  backend_config :: "ngl_config_gl option"
  display :: nat
  window :: nat
  swap_interval :: int
  offscreen :: bool
  width :: int
  height :: int
  viewport :: "int \<times> int \<times> int \<times> int"
  samples :: int
  set_surface_pts :: bool
  clear_color :: "real \<times> real \<times> real \<times> real"
  capture_buffer :: "nat option"
  capture_buffer_type :: capture_buffer_type
  hud :: bool

text \<open>A zero-initialised \<open>struct ngl_config\<close> (what \<open>ngli_config_reset\<close> and \<open>calloc\<close> leave).\<close>

definition config_zero :: ngl_config where
  "config_zero = \<lparr> platform = NGL_PLATFORM_AUTO, backend = NGL_BACKEND_AUTO,
     backend_config = None, display = 0, window = 0, swap_interval = 0, offscreen = False,
     width = 0, height = 0, viewport = (0, 0, 0, 0), samples = 0, set_surface_pts = False,
     clear_color = (0, 0, 0, 0), capture_buffer = None,
     capture_buffer_type = NGL_CAPTURE_BUFFER_TYPE_CPU, hud = False \<rparr>"

section \<open>OpenGL backend: data\<close>

datatype gl_feature =
    NGLI_FEATURE_GL_FRAMEBUFFER_OBJECT
  | NGLI_FEATURE_GL_INVALIDATE_SUBDATA
  | NGLI_FEATURE_GL_CLEAR_BUFFER
  | NGLI_FEATURE_GL_DRAW_BUFFERS
  | NGLI_FEATURE_GL_TIMER_QUERY
  | NGLI_FEATURE_GL_EXT_DISJOINT_TIMER_QUERY
  | NGLI_FEATURE_GL_COMPUTE_SHADER_ALL
  | NGLI_FEATURE_GL_DRAW_INSTANCED
  | NGLI_FEATURE_GL_INSTANCED_ARRAY
  | NGLI_FEATURE_GL_SHADER_TEXTURE_LOD
  | NGLI_FEATURE_GL_SOFTWARE
  | NGLI_FEATURE_GL_TEXTURE_3D
  | NGLI_FEATURE_GL_TEXTURE_CUBE_MAP
  | NGLI_FEATURE_GL_TEXTURE_NPOT
  | NGLI_FEATURE_GL_UINT_UNIFORMS
  | NGLI_FEATURE_GL_UNIFORM_BUFFER_OBJECT
  | NGLI_FEATURE_GL_SHADER_STORAGE_BUFFER_OBJECT
  | NGLI_FEATURE_GL_COLOR_BUFFER_FLOAT
  | NGLI_FEATURE_GL_COLOR_BUFFER_HALF_FLOAT

datatype feature =
    NGLI_FEATURE_COMPUTE
  | NGLI_FEATURE_INSTANCED_DRAW
  | NGLI_FEATURE_COLOR_RESOLVE
  | NGLI_FEATURE_SHADER_TEXTURE_LOD
  | NGLI_FEATURE_SOFTWARE
  | NGLI_FEATURE_TEXTURE_3D
  | NGLI_FEATURE_TEXTURE_CUBE_MAP
  | NGLI_FEATURE_TEXTURE_NPOT
  | NGLI_FEATURE_UINT_UNIFORMS
  | NGLI_FEATURE_UNIFORM_BUFFER
  | NGLI_FEATURE_STORAGE_BUFFER
  | NGLI_FEATURE_DEPTH_STENCIL_RESOLVE
  | NGLI_FEATURE_TEXTURE_FLOAT_RENDERABLE
  | NGLI_FEATURE_TEXTURE_HALF_FLOAT_RENDERABLE

text \<open>
  A feature word is the set of its bits; \<open>features & mask\<close> is non-zero when the sets meet and
  equals \<open>mask\<close> when \<open>mask\<close> is a subset.  \<open>NGLI_FEATURE_GL_COMPUTE_SHADER_ALL\<close> is a mask
  of several bits in \<open>glcontext.h\<close>; it is one tag here.
\<close>

record gpu_limits =
  max_color_attachments :: int
  max_draw_buffers :: int
  max_samples :: int
  max_texture_dimension_1d :: int
  max_texture_dimension_2d :: int
  max_texture_dimension_3d :: int
  max_texture_dimension_cube :: int
  max_compute_work_group_count :: "int \<times> int \<times> int"
  max_compute_work_group_invocations :: int
  max_compute_work_group_size :: "int \<times> int \<times> int"
  max_compute_shared_memory_size :: int

text \<open>\<open>struct glcontext\<close>: the fields the two files read.\<close>

record glcontext =
  gl_backend :: ngl_backend_id
  gl_version :: int
  gl_glsl_version :: int
  gl_offscreen :: bool
  gl_width :: int
  gl_height :: int
  gl_samples :: int
  gl_features :: "gl_feature set"
  gl_limits :: gpu_limits

record glcontext_params =
  p_platform :: ngl_platform
  p_backend :: ngl_backend_id
  p_external :: bool
  p_display :: nat
  p_window :: nat
  p_swap_interval :: int
  p_offscreen :: bool
  p_width :: int
  p_height :: int
  p_samples :: int

datatype format =
    NGLI_FORMAT_R8G8B8A8_UNORM
  | NGLI_FORMAT_B8G8R8A8_UNORM
  | NGLI_FORMAT_D16_UNORM
  | NGLI_FORMAT_D24_UNORM_S8_UINT

datatype texture_type = NGLI_TEXTURE_TYPE_2D | NGLI_TEXTURE_TYPE_RECTANGLE

datatype texture_usage = NGLI_TEXTURE_USAGE_COLOR_ATTACHMENT_BIT

record texture_params =
  tp_type :: texture_type
  tp_format :: format
  tp_width :: int
  tp_height :: int
  tp_samples :: int
  tp_usage :: texture_usage

datatype gl_format =
    GL_DEPTH_COMPONENT | GL_DEPTH_COMPONENT16 | GL_DEPTH_COMPONENT24 | GL_DEPTH_COMPONENT32F
  | GL_DEPTH_STENCIL | GL_DEPTH24_STENCIL8 | GL_DEPTH32F_STENCIL8
  | GL_STENCIL_INDEX | GL_STENCIL_INDEX8
  | GL_FORMAT_OTHER nat

datatype gl_target =
    GL_RENDERBUFFER | GL_TEXTURE_RECTANGLE | GL_TEXTURE_2D | GL_TEXTURE_CUBE_MAP
  | GL_TARGET_OTHER nat

text \<open>
  \<open>struct texture\<close> with its OpenGL part (\<open>struct texture_gl\<close>): the parameters it was
  created from and the native format, target and name that \<open>texture_gl.c\<close> chose.
\<close>

record texture =
  tex_params :: texture_params
  tex_gl_format :: gl_format
  tex_gl_target :: gl_target
  tex_gl_id :: nat

datatype load_op = NGLI_LOAD_OP_LOAD | NGLI_LOAD_OP_CLEAR | NGLI_LOAD_OP_DONT_CARE

datatype store_op = NGLI_STORE_OP_STORE | NGLI_STORE_OP_DONT_CARE

record attachment =
  att_attachment :: "texture option"
  att_attachment_layer :: int
  att_resolve_target :: "texture option"
  att_resolve_target_layer :: int
  att_load_op :: load_op
  att_clear_value :: "real \<times> real \<times> real \<times> real"
  att_store_op :: store_op

text \<open>
  \<open>struct rendertarget_params\<close>.  \<open>rp_colors\<close> holds the first \<open>nb_colors\<close> entries of the
  fixed-size \<open>colors\<close> array.
\<close>

record rendertarget_params =
  rp_width :: int
  rp_height :: int
  rp_nb_colors :: int
  rp_colors :: "attachment list"
  rp_depth_stencil :: attachment

datatype gl_attachment_index =
    GL_COLOR_ATTACHMENT0 | GL_DEPTH_ATTACHMENT | GL_STENCIL_ATTACHMENT
  | GL_DEPTH_STENCIL_ATTACHMENT | GL_COLOR | GL_DEPTH | GL_STENCIL
  | GL_COLOR_ATTACHMENT nat | GL_BACK | GL_FRONT_LEFT

datatype clear_bit = GL_COLOR_BUFFER_BIT | GL_DEPTH_BUFFER_BIT | GL_STENCIL_BUFFER_BIT

datatype invalidate_func = invalidate | invalidate_noop

datatype clear_func = clear_buffers | clear_buffer

datatype resolve_func = resolve_no_draw_buffers | resolve_draw_buffers

text \<open>\<open>struct rendertarget\<close> followed by the fields of \<open>struct rendertarget_gl\<close>.\<close>

record rendertarget =
  rt_params :: rendertarget_params
  rt_width :: int
  rt_height :: int
  rt_wrapped :: bool
  rt_id :: nat
  rt_resolve_id :: nat
  rt_draw_buffers :: "gl_attachment_index list"
  rt_clear_flags :: "clear_bit set"
  rt_invalidate_attachments :: "gl_attachment_index list"
  rt_invalidate :: "invalidate_func option"
  rt_clear :: "clear_func option"
  rt_resolve :: "resolve_func option"

datatype capture_func = capture_cpu | capture_corevideo

datatype timer_funcs = TIMER_CORE | TIMER_EXT | TIMER_NOOP

record rendertarget_desc_entry =
  rd_format :: "format option"
  rd_resolve :: bool

record rendertarget_desc =
  rd_samples :: int
  rd_nb_colors :: int
  rd_colors0 :: rendertarget_desc_entry
  rd_depth_stencil :: rendertarget_desc_entry

datatype current_rt_ref = CURRENT_DEFAULT_RT | CURRENT_DEFAULT_RT_LOAD | CURRENT_OTHER_RT nat

text \<open>
  \<open>struct gpu_ctx\<close> (first block) and \<open>struct gpu_ctx_gl\<close> (second block).  The context
  owns its two default render targets, so they are stored by value.
\<close>

record gpu_ctx =
  config :: ngl_config
  version :: int
  language_version :: int
  features :: "feature set"
  limits :: gpu_limits
  glcontext :: "glcontext option"
  glstate_reset_done :: bool
  default_rt :: "rendertarget option"
  default_rt_load :: "rendertarget option"
  default_rt_desc :: rendertarget_desc
  current_rt :: "current_rt_ref option"
  color :: "texture option"
  ms_color :: "texture option"
  depth_stencil :: "texture option"
  capture_func :: "capture_func option"
  capture_cvbuffer :: "nat option"
  capture_cvtexture :: "nat option"
  timer :: "timer_funcs option"
  queries :: "nat \<times> nat"
  gc_viewport :: "int \<times> int \<times> int \<times> int"
  gc_scissor :: "int \<times> int \<times> int \<times> int"

section \<open>Driver and allocator\<close>

text \<open>
  What the code obtains from collaborators that are not part of the two files: the platform
  glue (\<open>glcontext.c\<close>), the texture backend (\<open>texture_gl.c\<close>), memory allocation, CoreVideo
  and the replies of the OpenGL driver.  Each field is the outcome of the call it is named
  after; a theorem that holds for every \<open>driver\<close> holds whatever these collaborators answer.
  Calls that only change the state of the OpenGL server (binding, attaching, clearing,
  blitting) have no counterpart in the model.
\<close>

datatype fb_property =
    GL_FRAMEBUFFER_ATTACHMENT_RED_SIZE | GL_FRAMEBUFFER_ATTACHMENT_GREEN_SIZE
  | GL_FRAMEBUFFER_ATTACHMENT_BLUE_SIZE | GL_FRAMEBUFFER_ATTACHMENT_ALPHA_SIZE
  | GL_FRAMEBUFFER_ATTACHMENT_DEPTH_SIZE | GL_FRAMEBUFFER_ATTACHMENT_STENCIL_SIZE

record driver =
  ngli_glcontext_new :: "glcontext_params \<Rightarrow> glcontext option"
  ngli_glcontext_resize :: "glcontext \<Rightarrow> int \<Rightarrow> int \<Rightarrow> ret \<times> glcontext"
  ngli_glcontext_get_default_framebuffer :: "glcontext \<Rightarrow> nat"
  ngli_texture_create :: "texture_params \<Rightarrow> bool"
  ngli_texture_init :: "texture_params \<Rightarrow> ret \<times> texture"
  ngli_texture_gl_wrap :: "texture_params \<Rightarrow> nat \<Rightarrow> ret \<times> texture"
  ngli_rendertarget_create :: "load_op \<Rightarrow> bool"
  glGenFramebuffers :: "rendertarget_params \<Rightarrow> bool \<Rightarrow> nat"
  glCheckFramebufferStatus_complete :: "rendertarget_params \<Rightarrow> bool \<Rightarrow> bool"
  glGetFramebufferAttachment_type :: "nat \<Rightarrow> gl_attachment_index \<Rightarrow> int"
  glGetFramebufferAttachment_size :: "nat \<Rightarrow> gl_attachment_index \<Rightarrow> fb_property \<Rightarrow> int"
  glGenQueries :: "nat \<times> nat"
  CVPixelBufferGetWidth :: "nat \<Rightarrow> int"
  CVPixelBufferGetHeight :: "nat \<Rightarrow> int"
  CVTextureCacheCreateTextureFromImage :: "nat \<Rightarrow> (nat \<times> nat) option"

section \<open>OpenGL backend: render targets (\<open>rendertarget_gl.c\<close>)\<close>

fun get_gl_attachment_index :: "gl_format \<Rightarrow> gl_attachment_index" where
  "get_gl_attachment_index GL_DEPTH_COMPONENT = GL_DEPTH_ATTACHMENT"
| "get_gl_attachment_index GL_DEPTH_COMPONENT16 = GL_DEPTH_ATTACHMENT"
| "get_gl_attachment_index GL_DEPTH_COMPONENT24 = GL_DEPTH_ATTACHMENT"
| "get_gl_attachment_index GL_DEPTH_COMPONENT32F = GL_DEPTH_ATTACHMENT"
| "get_gl_attachment_index GL_DEPTH_STENCIL = GL_DEPTH_STENCIL_ATTACHMENT"
| "get_gl_attachment_index GL_DEPTH24_STENCIL8 = GL_DEPTH_STENCIL_ATTACHMENT"
| "get_gl_attachment_index GL_DEPTH32F_STENCIL8 = GL_DEPTH_STENCIL_ATTACHMENT"
| "get_gl_attachment_index GL_STENCIL_INDEX = GL_STENCIL_ATTACHMENT"
| "get_gl_attachment_index GL_STENCIL_INDEX8 = GL_STENCIL_ATTACHMENT"
| "get_gl_attachment_index (GL_FORMAT_OTHER n) = GL_COLOR_ATTACHMENT0"

text \<open>The entries \<open>colors[0 .. nb_colors - 1]\<close> the loops of the file run over.\<close>

definition colors_in_use :: "rendertarget_params \<Rightarrow> attachment list" where
  "colors_in_use params = take (nat (rp_nb_colors params)) (rp_colors params)"

text \<open>
  The colour loop of \<open>create_fbo\<close>; \<open>nb\<close> is \<open>nb_color_attachments\<close>.  A failed
  \<open>ngli_assert\<close> is \<open>RET_CRASH\<close>; \<open>goto fail\<close> returns the initial \<open>ret = -1\<close>.
\<close>

fun create_fbo_colors :: "gpu_limits \<Rightarrow> bool \<Rightarrow> attachment list \<Rightarrow> int \<Rightarrow> ret \<times> log" where
  "create_fbo_colors lims resolve [] nb = (RET_OK, [])"
| "create_fbo_colors lims resolve (a # rest) nb =
     (case (if resolve then att_resolve_target a else att_attachment a) of
        None \<Rightarrow> create_fbo_colors lims resolve rest nb
      | Some t \<Rightarrow>
          if get_gl_attachment_index (tex_gl_format t) \<noteq> GL_COLOR_ATTACHMENT0 then (RET_CRASH, [])
          else if nb \<ge> max_color_attachments lims then
            (RET_ERR (NGL_ERROR_CODE (- 1)),
             [(LOG_ERROR, ''could not attach color buffer %d (maximum %d)'')])
          else if tex_gl_target t = GL_RENDERBUFFER \<or> tex_gl_target t = GL_TEXTURE_RECTANGLE
                  \<or> tex_gl_target t = GL_TEXTURE_2D \<or> tex_gl_target t = GL_TEXTURE_CUBE_MAP
          then create_fbo_colors lims resolve rest (nb + 1)
          else (RET_CRASH, []))"

definition create_fbo_depth_stencil :: "bool \<Rightarrow> attachment \<Rightarrow> ret" where
  "create_fbo_depth_stencil resolve a =
     (case (if resolve then att_resolve_target a else att_attachment a) of
        None \<Rightarrow> RET_OK
      | Some t \<Rightarrow>
          if get_gl_attachment_index (tex_gl_format t) = GL_COLOR_ATTACHMENT0 then RET_CRASH
          else if tex_gl_target t = GL_RENDERBUFFER \<or> tex_gl_target t = GL_TEXTURE_2D then RET_OK
          else RET_CRASH)"

definition create_fbo :: "driver \<Rightarrow> glcontext \<Rightarrow> rendertarget_params \<Rightarrow> bool \<Rightarrow> ret \<times> nat option \<times> log" where
  "create_fbo drv gl params resolve =
     (let fbo_id = glGenFramebuffers drv params resolve in
      case create_fbo_colors (gl_limits gl) resolve (colors_in_use params) 0 of (r1, l1) \<Rightarrow>
        if failed r1 then (r1, None, l1)
        else
          let r2 = create_fbo_depth_stencil resolve (rp_depth_stencil params) in
          if failed r2 then (r2, None, l1)
          else if \<not> glCheckFramebufferStatus_complete drv params resolve then
            (RET_ERR (NGL_ERROR_CODE (- 1)), None, l1 @ [(LOG_ERROR, ''framebuffer %u is not complete'')])
          else (RET_OK, Some fbo_id, l1))"

definition require_resolve_fbo :: "rendertarget_params \<Rightarrow> bool" where
  "require_resolve_fbo params = (\<exists>a \<in> set (colors_in_use params). att_resolve_target a \<noteq> None)"

text \<open>What \<open>ngli_rendertarget_gl_create\<close> returns: a zeroed object.\<close>

definition attachment_zero :: attachment where
  "attachment_zero = \<lparr> att_attachment = None, att_attachment_layer = 0,
     att_resolve_target = None, att_resolve_target_layer = 0, att_load_op = NGLI_LOAD_OP_LOAD,
     att_clear_value = (0, 0, 0, 0), att_store_op = NGLI_STORE_OP_STORE \<rparr>"

definition ngli_rendertarget_gl_create :: rendertarget where
  "ngli_rendertarget_gl_create = \<lparr> rt_params = \<lparr> rp_width = 0, rp_height = 0, rp_nb_colors = 0,
       rp_colors = [], rp_depth_stencil = attachment_zero \<rparr>,
     rt_width = 0, rt_height = 0, rt_wrapped = False, rt_id = 0, rt_resolve_id = 0,
     rt_draw_buffers = [], rt_clear_flags = {}, rt_invalidate_attachments = [],
     rt_invalidate = None, rt_clear = None, rt_resolve = None \<rparr>"

text \<open>The clear-flag and invalidate bookkeeping of one colour attachment (index \<open>i\<close>).\<close>

definition color_clear_flags :: "attachment \<Rightarrow> clear_bit set" where
  "color_clear_flags c =
     (if att_load_op c = NGLI_LOAD_OP_DONT_CARE \<or> att_load_op c = NGLI_LOAD_OP_CLEAR
      then {GL_COLOR_BUFFER_BIT} else {})"

definition depth_stencil_clear_flags :: "attachment \<Rightarrow> clear_bit set" where
  "depth_stencil_clear_flags d =
     (if att_load_op d = NGLI_LOAD_OP_DONT_CARE \<or> att_load_op d = NGLI_LOAD_OP_CLEAR
      then {GL_DEPTH_BUFFER_BIT, GL_STENCIL_BUFFER_BIT} else {})"

fun colors_bookkeeping :: "attachment list \<Rightarrow> nat \<Rightarrow> rendertarget \<Rightarrow> rendertarget" where
  "colors_bookkeeping [] i s = s"
| "colors_bookkeeping (c # cs) i s =
     (let s1 = s\<lparr> rt_clear_flags := rt_clear_flags s \<union> color_clear_flags c \<rparr>;
          s2 = (if att_store_op c = NGLI_STORE_OP_DONT_CARE
                then s1\<lparr> rt_invalidate_attachments :=
                            rt_invalidate_attachments s1 @ [GL_COLOR_ATTACHMENT i] \<rparr>
                else s1)
      in colors_bookkeeping cs (Suc i) s2)"

definition select_invalidate :: "glcontext \<Rightarrow> invalidate_func" where
  "select_invalidate gl =
     (if NGLI_FEATURE_GL_INVALIDATE_SUBDATA \<in> gl_features gl then invalidate else invalidate_noop)"

definition select_clear :: "glcontext \<Rightarrow> clear_func" where
  "select_clear gl =
     (if NGLI_FEATURE_GL_CLEAR_BUFFER \<in> gl_features gl then clear_buffers else clear_buffer)"

text \<open>
  \<open>ngli_rendertarget_gl_init\<close> on a freshly created object.  The result is the return code,
  the object as the function leaves it, and the log.
\<close>

definition ngli_rendertarget_gl_init ::
  "driver \<Rightarrow> glcontext \<Rightarrow> rendertarget \<Rightarrow> rendertarget_params \<Rightarrow> ret \<times> rendertarget \<times> log" where
  "ngli_rendertarget_gl_init drv gl s0 params =
     (let s = s0\<lparr> rt_params := params, rt_width := rp_width params, rt_height := rp_height params,
                  rt_wrapped := False \<rparr>
      in
      if require_resolve_fbo params \<and> NGLI_FEATURE_GL_FRAMEBUFFER_OBJECT \<notin> gl_features gl then
        (RET_ERR NGL_ERROR_GRAPHICS_UNSUPPORTED, s,
         [(LOG_ERROR, ''context does not support the framebuffer object feature, resolving MSAA attachments is not supported'')])
      else
        case (if require_resolve_fbo params then create_fbo drv gl params True
              else (RET_OK, None, [])) of (r1, rid, l1) \<Rightarrow>
        if failed r1 then (r1, s, l1)
        else
          let s1 = (case rid of None \<Rightarrow> s | Some i \<Rightarrow> s\<lparr> rt_resolve_id := i \<rparr>) in
          case create_fbo drv gl params False of (r2, fid, l2) \<Rightarrow>
          if failed r2 then (r2, s1, l1 @ l2)
          else
            let s2 = (case fid of None \<Rightarrow> s1 | Some i \<Rightarrow> s1\<lparr> rt_id := i \<rparr>);
                s3 = s2\<lparr> rt_invalidate := Some (select_invalidate gl),
                         rt_clear := Some (select_clear gl),
                         rt_resolve := Some resolve_no_draw_buffers \<rparr>
            in
            if NGLI_FEATURE_GL_DRAW_BUFFERS \<in> gl_features gl
               \<and> rp_nb_colors params > max_draw_buffers (gl_limits gl) then
              (RET_ERR NGL_ERROR_GRAPHICS_UNSUPPORTED, s3,
               l1 @ l2 @ [(LOG_ERROR, ''draw buffer count (%d) exceeds driver limit (%d)'')])
            else
              let s4 = (if NGLI_FEATURE_GL_DRAW_BUFFERS \<in> gl_features gl \<and> rp_nb_colors params > 1
                        then s3\<lparr> rt_draw_buffers :=
                                   map GL_COLOR_ATTACHMENT [0 ..< nat (rp_nb_colors params)],
                                 rt_resolve := Some resolve_draw_buffers \<rparr>
                        else s3);
                  s5 = colors_bookkeeping (colors_in_use params) 0 s4;
                  d = rp_depth_stencil params;
                  s6 = (if att_attachment d \<noteq> None then
                          (let s6a = s5\<lparr> rt_clear_flags :=
                                            rt_clear_flags s5 \<union> depth_stencil_clear_flags d \<rparr>
                           in if att_store_op d = NGLI_STORE_OP_DONT_CARE
                              then s6a\<lparr> rt_invalidate_attachments :=
                                     rt_invalidate_attachments s6a @ [GL_DEPTH_ATTACHMENT, GL_STENCIL_ATTACHMENT] \<rparr>
                              else s6a)
                        else s5)
              in (RET_OK, s6, l1 @ l2))"

text \<open>\<open>ngli_rendertarget_gl_wrap\<close>; its five \<open>ngli_assert\<close>s come first.\<close>

definition ngli_rendertarget_gl_wrap ::
  "glcontext \<Rightarrow> rendertarget \<Rightarrow> rendertarget_params \<Rightarrow> nat \<Rightarrow> ret \<times> rendertarget" where
  "ngli_rendertarget_gl_wrap gl s0 params fbo_id =
     (case rp_colors params of
        [] \<Rightarrow> (RET_CRASH, s0)
      | c0 # _ \<Rightarrow>
        if rp_nb_colors params \<noteq> 1 \<or> att_attachment c0 \<noteq> None
           \<or> att_resolve_target c0 \<noteq> None
           \<or> att_attachment (rp_depth_stencil params) \<noteq> None
           \<or> att_resolve_target (rp_depth_stencil params) \<noteq> None
        then (RET_CRASH, s0)
        else
          let s1 = s0\<lparr> rt_params := params, rt_width := rp_width params,
                       rt_height := rp_height params, rt_wrapped := True, rt_id := fbo_id,
                       rt_invalidate := Some (select_invalidate gl),
                       rt_clear := Some (select_clear gl),
                       rt_resolve := Some resolve_no_draw_buffers \<rparr>;
              s2 = s1\<lparr> rt_clear_flags := rt_clear_flags s1 \<union> color_clear_flags c0 \<rparr>;
              s3 = (if att_store_op c0 = NGLI_STORE_OP_DONT_CARE
                    then s2\<lparr> rt_invalidate_attachments := rt_invalidate_attachments s2
                               @ [if fbo_id \<noteq> 0 then GL_COLOR_ATTACHMENT0 else GL_COLOR] \<rparr>
                    else s2);
              d = rp_depth_stencil params;
              s4 = s3\<lparr> rt_clear_flags := rt_clear_flags s3 \<union> depth_stencil_clear_flags d \<rparr>;
              s5 = (if att_store_op d = NGLI_STORE_OP_DONT_CARE
                    then s4\<lparr> rt_invalidate_attachments := rt_invalidate_attachments s4
                               @ [if fbo_id \<noteq> 0 then GL_DEPTH_ATTACHMENT else GL_DEPTH,
                                  if fbo_id \<noteq> 0 then GL_STENCIL_ATTACHMENT else GL_STENCIL] \<rparr>
                    else s4)
          in (RET_OK, s5))"

section \<open>OpenGL backend: the context (\<open>gpu_ctx_gl.c\<close>)\<close>

text \<open>\<open>const int external = config_gl ? config_gl->external : 0;\<close>\<close>

definition is_external :: "ngl_config \<Rightarrow> bool" where
  "is_external cfg = (case backend_config cfg of None \<Rightarrow> False | Some cgl \<Rightarrow> external cgl)"

definition gl_set_viewport :: "gpu_ctx \<Rightarrow> int \<times> int \<times> int \<times> int \<Rightarrow> gpu_ctx" where
  "gl_set_viewport s vp = s\<lparr> gc_viewport := vp \<rparr>"

definition gl_set_scissor :: "gpu_ctx \<Rightarrow> int \<times> int \<times> int \<times> int \<Rightarrow> gpu_ctx" where
  "gl_set_scissor s sc = s\<lparr> gc_scissor := sc \<rparr>"

text \<open>
  \<open>create_texture\<close>: the texture pointer is written through \<open>texturep\<close> only on success, so
  the result carries the new texture and the caller stores it.
\<close>

definition create_texture :: "driver \<Rightarrow> gpu_ctx \<Rightarrow> format \<Rightarrow> int \<Rightarrow> ret \<times> texture option" where
  "create_texture drv s fmt smp =
     (let params = \<lparr> tp_type = NGLI_TEXTURE_TYPE_2D, tp_format = fmt,
                      tp_width = width (config s), tp_height = height (config s),
                      tp_samples = smp, tp_usage = NGLI_TEXTURE_USAGE_COLOR_ATTACHMENT_BIT \<rparr>
      in if \<not> ngli_texture_create drv params then (RET_ERR NGL_ERROR_MEMORY, None)
         else case ngli_texture_init drv params of (r, t) \<Rightarrow>
           if failed r then (r, None) else (RET_OK, Some t))"

definition default_rt_params ::
  "ngl_config \<Rightarrow> texture option \<Rightarrow> texture option \<Rightarrow> texture option \<Rightarrow> load_op \<Rightarrow> rendertarget_params" where
  "default_rt_params cfg col resolve_col ds lop =
     \<lparr> rp_width = width cfg, rp_height = height cfg, rp_nb_colors = 1,
       rp_colors = [\<lparr> att_attachment = col, att_attachment_layer = 0,
                      att_resolve_target = resolve_col, att_resolve_target_layer = 0,
                      att_load_op = lop, att_clear_value = clear_color cfg,
                      att_store_op = NGLI_STORE_OP_STORE \<rparr>],
       rp_depth_stencil = \<lparr> att_attachment = ds, att_attachment_layer = 0,
                      att_resolve_target = None, att_resolve_target_layer = 0,
                      att_load_op = lop, att_clear_value = (0, 0, 0, 0),
                      att_store_op = NGLI_STORE_OP_STORE \<rparr> \<rparr>"

text \<open>
  \<open>create_rendertarget\<close>.  \<open>ngli_rendertarget_init\<close> is the class dispatch to
  \<open>ngli_rendertarget_gl_init\<close>.  On failure the object is freed and nothing is stored.
\<close>

definition create_rendertarget ::
  "driver \<Rightarrow> gpu_ctx \<Rightarrow> texture option \<Rightarrow> texture option \<Rightarrow> texture option \<Rightarrow> load_op
     \<Rightarrow> ret \<times> rendertarget option \<times> log" where
  "create_rendertarget drv s col resolve_col ds lop =
     (if \<not> ngli_rendertarget_create drv lop then (RET_ERR NGL_ERROR_MEMORY, None, [])
      else
        let cfg = config s;
            params = default_rt_params cfg col resolve_col ds lop
        in case glcontext s of
             None \<Rightarrow> (RET_CRASH, None, [])
           | Some gl \<Rightarrow>
               (case (if col \<noteq> None
                      then ngli_rendertarget_gl_init drv gl ngli_rendertarget_gl_create params
                      else
                        let default_fbo_id = ngli_glcontext_get_default_framebuffer drv gl;
                            fbo_id = (case backend_config cfg of
                                        None \<Rightarrow> default_fbo_id
                                      | Some cgl \<Rightarrow> if external cgl then external_framebuffer cgl
                                                    else default_fbo_id)
                        in case ngli_rendertarget_gl_wrap gl ngli_rendertarget_gl_create params fbo_id
                           of (r, rt) \<Rightarrow> (r, rt, []))
                of (r, rt, l) \<Rightarrow> if failed r then (r, None, l) else (RET_OK, Some rt, l)))"

text \<open>
  \<open>wrap_capture_cvpixelbuffer\<close> (iOS and macOS builds).  The result carries the wrapped texture
  and the CoreVideo texture reference.
\<close>

definition wrap_capture_cvpixelbuffer ::
  "build \<Rightarrow> driver \<Rightarrow> nat \<Rightarrow> ret \<times> (texture \<times> nat) option \<times> log" where
  "wrap_capture_cvpixelbuffer b drv buffer =
     (case CVTextureCacheCreateTextureFromImage drv buffer of
        None \<Rightarrow> (RET_ERR NGL_ERROR_EXTERNAL, None,
                 [(LOG_ERROR, ''could not create CoreVideo texture from CVPixelBuffer: %d'')])
      | Some (cv_texture, name) \<Rightarrow>
          let attachment_params =
                \<lparr> tp_type = (if TARGET_IPHONE b then NGLI_TEXTURE_TYPE_2D else NGLI_TEXTURE_TYPE_RECTANGLE),
                  tp_format = NGLI_FORMAT_B8G8R8A8_UNORM,
                  tp_width = CVPixelBufferGetWidth drv buffer,
                  tp_height = CVPixelBufferGetHeight drv buffer,
                  tp_samples = 0, tp_usage = NGLI_TEXTURE_USAGE_COLOR_ATTACHMENT_BIT \<rparr>
          in if \<not> ngli_texture_create drv attachment_params then (RET_ERR NGL_ERROR_MEMORY, None, [])
             else case ngli_texture_gl_wrap drv attachment_params name of (r, t) \<Rightarrow>
               if failed r then (r, None, []) else (RET_OK, Some (t, cv_texture), []))"

definition reset_capture_cvpixelbuffer :: "gpu_ctx \<Rightarrow> gpu_ctx" where
  "reset_capture_cvpixelbuffer s = s\<lparr> capture_cvbuffer := None, capture_cvtexture := None \<rparr>"

text \<open>
  The part of \<open>offscreen_rendertarget_init\<close> and \<open>update_capture_cvpixelbuffer\<close> that fills
  \<open>s_priv->color\<close> from a CoreVideo buffer, or from a fresh texture when there is none.
\<close>

definition corevideo_color :: "build \<Rightarrow> driver \<Rightarrow> gpu_ctx \<Rightarrow> nat option \<Rightarrow> ret \<times> gpu_ctx \<times> log" where
  "corevideo_color b drv s buf =
     (case buf of
        Some buffer \<Rightarrow>
          (let s1 = s\<lparr> capture_cvbuffer := Some buffer \<rparr> in
           case wrap_capture_cvpixelbuffer b drv buffer of (r, res, l) \<Rightarrow>
             (case res of
                Some (t, cv_texture) \<Rightarrow>
                  if failed r then (r, s1, l)
                  else (RET_OK, s1\<lparr> color := Some t, capture_cvtexture := Some cv_texture \<rparr>, l)
              | None \<Rightarrow> (if failed r then r else RET_CRASH, s1, l)))
      | None \<Rightarrow>
          (case create_texture drv s NGLI_FORMAT_R8G8B8A8_UNORM 0 of (r, t) \<Rightarrow>
             if failed r then (r, s, []) else (RET_OK, s\<lparr> color := t \<rparr>, [])))"

fun capture_func_map :: "capture_buffer_type \<Rightarrow> capture_func option" where
  "capture_func_map NGL_CAPTURE_BUFFER_TYPE_CPU = Some capture_cpu"
| "capture_func_map NGL_CAPTURE_BUFFER_TYPE_COREVIDEO = Some capture_corevideo"
| "capture_func_map (CAPTURE_BUFFER_TYPE_OTHER n) = None"

text \<open>
  The two \<open>create_rendertarget\<close> calls that every initialisation path ends with: the first
  result goes to \<open>default_rt\<close>, the second to \<open>default_rt_load\<close>, and the first failure
  returns.
\<close>

definition create_default_rendertargets ::
  "driver \<Rightarrow> gpu_ctx \<Rightarrow> texture option \<Rightarrow> texture option \<Rightarrow> texture option \<Rightarrow> ret \<times> gpu_ctx \<times> log" where
  "create_default_rendertargets drv s col resolve_col ds =
     (case create_rendertarget drv s col resolve_col ds NGLI_LOAD_OP_CLEAR of (r1, rt1, l1) \<Rightarrow>
        if failed r1 then (r1, s, l1)
        else
          let s1 = s\<lparr> default_rt := rt1 \<rparr> in
          case create_rendertarget drv s1 col resolve_col ds NGLI_LOAD_OP_LOAD of (r2, rt2, l2) \<Rightarrow>
            if failed r2 then (r2, s1, l1 @ l2)
            else (RET_OK, s1\<lparr> default_rt_load := rt2 \<rparr>, l1 @ l2))"

text \<open>
  \<open>offscreen_rendertarget_init\<close> in two steps: the leading block that disables
  multisampling when framebuffer objects are missing, then
  \<open>offscreen_rendertarget_init_targets\<close>, the rest of the function, run on the context that
  block leaves.  \<open>offscreen_color_init\<close> is the \<open>if\<close> chain on the capture buffer type that
  fills \<open>s_priv->color\<close>.
\<close>

definition offscreen_color_init :: "build \<Rightarrow> driver \<Rightarrow> gpu_ctx \<Rightarrow> ret \<times> gpu_ctx \<times> log" where
  "offscreen_color_init b drv s1 =
     (let cfg = config s1 in
        if capture_buffer_type cfg = NGL_CAPTURE_BUFFER_TYPE_COREVIDEO then
          (if TARGET_IPHONE b \<or> TARGET_DARWIN b
           then corevideo_color b drv s1 (capture_buffer cfg)
           else (RET_ERR NGL_ERROR_UNSUPPORTED, s1,
                 [(LOG_ERROR, ''CoreVideo capture is only supported on iOS and macOS'')]))
        else if capture_buffer_type cfg = NGL_CAPTURE_BUFFER_TYPE_CPU then
          (case create_texture drv s1 NGLI_FORMAT_R8G8B8A8_UNORM 0 of (r, t) \<Rightarrow>
             if failed r then (r, s1, []) else (RET_OK, s1\<lparr> color := t \<rparr>, []))
        else (RET_ERR NGL_ERROR_UNSUPPORTED, s1,
              [(LOG_ERROR, ''unsupported capture buffer type: %d'')]))"

definition offscreen_rendertarget_init_targets ::
  "build \<Rightarrow> driver \<Rightarrow> gpu_ctx \<Rightarrow> ret \<times> gpu_ctx \<times> log" where
  "offscreen_rendertarget_init_targets b drv s1 =
     (let cfg = config s1 in
        case offscreen_color_init b drv s1 of (r1, s2, l1) \<Rightarrow>
        if failed r1 then (r1, s2, l1)
        else
          case (if samples cfg \<noteq> 0 then
                  (case create_texture drv s2 NGLI_FORMAT_R8G8B8A8_UNORM (samples cfg) of (r, t) \<Rightarrow>
                     if failed r then (r, s2) else (RET_OK, s2\<lparr> ms_color := t \<rparr>))
                else (RET_OK, s2))
          of (r2, s3) \<Rightarrow>
          if failed r2 then (r2, s3, l1)
          else
            case create_texture drv s3 NGLI_FORMAT_D24_UNORM_S8_UINT (samples cfg) of (r3, t3) \<Rightarrow>
            if failed r3 then (r3, s3, l1)
            else
              let s4 = s3\<lparr> depth_stencil := t3 \<rparr>;
                  col = (if ms_color s4 \<noteq> None then ms_color s4 else color s4);
                  resolve_col = (if ms_color s4 \<noteq> None then color s4 else None)
              in case create_default_rendertargets drv s4 col resolve_col (depth_stencil s4)
                 of (r4, s5, l4) \<Rightarrow>
                   if failed r4 then (r4, s5, l1 @ l4)
                   else (RET_OK, s5\<lparr> capture_func := capture_func_map (capture_buffer_type cfg) \<rparr>,
                         l1 @ l4))"

definition offscreen_rendertarget_init :: "build \<Rightarrow> driver \<Rightarrow> gpu_ctx \<Rightarrow> ret \<times> gpu_ctx \<times> log" where
  "offscreen_rendertarget_init b drv s =
     (case glcontext s of
        None \<Rightarrow> (RET_CRASH, s, [])
      | Some gl \<Rightarrow>
        let clamp = (NGLI_FEATURE_GL_FRAMEBUFFER_OBJECT \<notin> gl_features gl \<and> samples (config s) > 0);
            l0 = (if clamp
                  then [(LOG_WARNING, ''context does not support the framebuffer object feature, multisample anti-aliasing will be disabled'')]
                  else []);
            s1 = (if clamp then s\<lparr> config := (config s)\<lparr> samples := 0 \<rparr> \<rparr> else s)
        in case offscreen_rendertarget_init_targets b drv s1 of (r, s', l) \<Rightarrow> (r, s', l0 @ l))"

definition onscreen_rendertarget_init :: "driver \<Rightarrow> gpu_ctx \<Rightarrow> ret \<times> gpu_ctx \<times> log" where
  "onscreen_rendertarget_init drv s = create_default_rendertargets drv s None None None"

definition rendertarget_reset :: "build \<Rightarrow> gpu_ctx \<Rightarrow> gpu_ctx" where
  "rendertarget_reset b s =
     (let s1 = s\<lparr> default_rt := None, default_rt_load := None, color := None, ms_color := None,
                  depth_stencil := None \<rparr>;
          s2 = (if TARGET_IPHONE b \<or> TARGET_DARWIN b then reset_capture_cvpixelbuffer s1 else s1)
      in s2\<lparr> capture_func := None \<rparr>)"

definition timer_init :: "driver \<Rightarrow> gpu_ctx \<Rightarrow> ret \<times> gpu_ctx" where
  "timer_init drv s =
     (case glcontext s of
        None \<Rightarrow> (RET_CRASH, s)
      | Some gl \<Rightarrow>
          if NGLI_FEATURE_GL_TIMER_QUERY \<in> gl_features gl
          then (RET_OK, s\<lparr> timer := Some TIMER_CORE, queries := glGenQueries drv \<rparr>)
          else if NGLI_FEATURE_GL_EXT_DISJOINT_TIMER_QUERY \<in> gl_features gl
          then (RET_OK, s\<lparr> timer := Some TIMER_EXT, queries := glGenQueries drv \<rparr>)
          else (RET_OK, s\<lparr> timer := Some TIMER_NOOP \<rparr>))"

definition feature_map :: "(feature \<times> gl_feature set) list" where
  "feature_map =
     [(NGLI_FEATURE_COMPUTE, {NGLI_FEATURE_GL_COMPUTE_SHADER_ALL}),
      (NGLI_FEATURE_INSTANCED_DRAW, {NGLI_FEATURE_GL_DRAW_INSTANCED, NGLI_FEATURE_GL_INSTANCED_ARRAY}),
      (NGLI_FEATURE_COLOR_RESOLVE, {NGLI_FEATURE_GL_FRAMEBUFFER_OBJECT}),
      (NGLI_FEATURE_SHADER_TEXTURE_LOD, {NGLI_FEATURE_GL_SHADER_TEXTURE_LOD}),
      (NGLI_FEATURE_SOFTWARE, {NGLI_FEATURE_GL_SOFTWARE}),
      (NGLI_FEATURE_TEXTURE_3D, {NGLI_FEATURE_GL_TEXTURE_3D}),
      (NGLI_FEATURE_TEXTURE_CUBE_MAP, {NGLI_FEATURE_GL_TEXTURE_CUBE_MAP}),
      (NGLI_FEATURE_TEXTURE_NPOT, {NGLI_FEATURE_GL_TEXTURE_NPOT}),
      (NGLI_FEATURE_UINT_UNIFORMS, {NGLI_FEATURE_GL_UINT_UNIFORMS}),
      (NGLI_FEATURE_UNIFORM_BUFFER, {NGLI_FEATURE_GL_UNIFORM_BUFFER_OBJECT}),
      (NGLI_FEATURE_STORAGE_BUFFER, {NGLI_FEATURE_GL_SHADER_STORAGE_BUFFER_OBJECT}),
      (NGLI_FEATURE_DEPTH_STENCIL_RESOLVE, {NGLI_FEATURE_GL_FRAMEBUFFER_OBJECT}),
      (NGLI_FEATURE_TEXTURE_FLOAT_RENDERABLE, {NGLI_FEATURE_GL_COLOR_BUFFER_FLOAT}),
      (NGLI_FEATURE_TEXTURE_HALF_FLOAT_RENDERABLE, {NGLI_FEATURE_GL_COLOR_BUFFER_HALF_FLOAT})]"

definition gpu_ctx_info_init :: "glcontext \<Rightarrow> gpu_ctx \<Rightarrow> gpu_ctx" where
  "gpu_ctx_info_init gl s =
     s\<lparr> version := gl_version gl, language_version := gl_glsl_version gl,
        features := features s \<union> set (map fst (filter (\<lambda>(f, fgl). fgl \<subseteq> gl_features gl) feature_map)),
        limits := gl_limits gl \<rparr>"

text \<open>
  The introspection loop of \<open>ngli_gpu_ctx_gl_wrap_framebuffer\<close> over its \<open>components\<close> table:
  the first missing buffer or zero-sized component fails.
\<close>

fun check_components ::
  "driver \<Rightarrow> nat \<Rightarrow> (gl_attachment_index \<times> fb_property) list \<Rightarrow> ret \<times> log" where
  "check_components drv fbo [] = (RET_OK, [])"
| "check_components drv fbo ((att, prop) # rest) =
     (if glGetFramebufferAttachment_type drv fbo att = 0 then
        (RET_ERR NGL_ERROR_GRAPHICS_UNSUPPORTED,
         [(LOG_ERROR, ''external framebuffer have no %s buffer attached to it'')])
      else if glGetFramebufferAttachment_size drv fbo att prop = 0 then
        (RET_ERR NGL_ERROR_GRAPHICS_UNSUPPORTED,
         [(LOG_ERROR, ''external framebuffer have no %s component'')])
      else check_components drv fbo rest)"

definition components :: "ngl_config \<Rightarrow> nat \<Rightarrow> (gl_attachment_index \<times> fb_property) list" where
  "components cfg fbo =
     (let es = (backend cfg = NGL_BACKEND_OPENGLES);
          default_color_attachment = (if es then GL_BACK else GL_FRONT_LEFT);
          color_attachment = (if fbo \<noteq> 0 then GL_COLOR_ATTACHMENT0 else default_color_attachment);
          depth_attachment = (if fbo \<noteq> 0 then GL_DEPTH_ATTACHMENT else GL_DEPTH);
          stencil_attachment = (if fbo \<noteq> 0 then GL_STENCIL_ATTACHMENT else GL_STENCIL)
      in [(color_attachment, GL_FRAMEBUFFER_ATTACHMENT_RED_SIZE),
          (color_attachment, GL_FRAMEBUFFER_ATTACHMENT_GREEN_SIZE),
          (color_attachment, GL_FRAMEBUFFER_ATTACHMENT_BLUE_SIZE),
          (color_attachment, GL_FRAMEBUFFER_ATTACHMENT_ALPHA_SIZE),
          (depth_attachment, GL_FRAMEBUFFER_ATTACHMENT_DEPTH_SIZE),
          (stencil_attachment, GL_FRAMEBUFFER_ATTACHMENT_STENCIL_SIZE)])"

definition ngli_gpu_ctx_gl_wrap_framebuffer :: "driver \<Rightarrow> gpu_ctx \<Rightarrow> nat \<Rightarrow> ret \<times> gpu_ctx \<times> log" where
  "ngli_gpu_ctx_gl_wrap_framebuffer drv s fbo =
     (let cfg = config s in
      case backend_config cfg of
        None \<Rightarrow> (RET_ERR NGL_ERROR_UNSUPPORTED, s,
                 [(LOG_ERROR, ''wrapping external OpenGL framebuffers is not supported by context'')])
      | Some config_gl \<Rightarrow>
        if \<not> external config_gl then
          (RET_ERR NGL_ERROR_UNSUPPORTED, s,
           [(LOG_ERROR, ''wrapping external OpenGL framebuffers is not supported by context'')])
        else
          (case glcontext s of
             None \<Rightarrow> (RET_CRASH, s, [])
           | Some gl \<Rightarrow>
             (case (if NGLI_FEATURE_GL_FRAMEBUFFER_OBJECT \<in> gl_features gl
                    then check_components drv fbo (components cfg fbo) else (RET_OK, []))
              of (r0, l0) \<Rightarrow>
              if failed r0 then (r0, s, l0)
              else
                let s1 = s\<lparr> default_rt := None, default_rt_load := None \<rparr> in
                case create_default_rendertargets drv s1 None None None of (r1, s2, l1) \<Rightarrow>
                  if failed r1 then (r1, s2, l0 @ l1)
                  else (RET_OK,
                        s2\<lparr> config := (config s2)\<lparr> backend_config :=
                               Some (config_gl\<lparr> external_framebuffer := fbo \<rparr>) \<rparr> \<rparr>,
                        l0 @ l1))))"

text \<open>
  \<open>gl_init\<close>.  The blocks under \<open>DEBUG_GL\<close> and \<open>DEBUG_GPU_CAPTURE\<close> are compiled out.
  \<open>ngli_glstate_reset\<close> only touches the cached OpenGL state, recorded as one flag.
\<close>

definition glcontext_params_of :: "ngl_config \<Rightarrow> glcontext_params" where
  "glcontext_params_of cfg =
     \<lparr> p_platform = platform cfg, p_backend = backend cfg, p_external = is_external cfg,
       p_display = display cfg, p_window = window cfg, p_swap_interval = swap_interval cfg,
       p_offscreen = offscreen cfg, p_width = width cfg, p_height = height cfg,
       p_samples = samples cfg \<rparr>"

definition gl_init_finish :: "glcontext \<Rightarrow> gpu_ctx \<Rightarrow> gpu_ctx" where
  "gl_init_finish gl s =
     (let s1 = gpu_ctx_info_init gl s;
          s2 = s1\<lparr> default_rt_desc :=
                 \<lparr> rd_samples = gl_samples gl, rd_nb_colors = 1,
                   rd_colors0 = \<lparr> rd_format = Some NGLI_FORMAT_R8G8B8A8_UNORM,
                                  rd_resolve = (gl_samples gl > 1) \<rparr>,
                   rd_depth_stencil = \<lparr> rd_format = Some NGLI_FORMAT_D24_UNORM_S8_UINT,
                                        rd_resolve = (gl_samples gl > 1) \<rparr> \<rparr>,
                 glstate_reset_done := True \<rparr>;
          cfg = config s2;
          s3 = (case viewport cfg of (x, y, vw, vh) \<Rightarrow>
                  if vw > 0 \<and> vh > 0 then gl_set_viewport s2 (viewport cfg)
                  else gl_set_viewport s2 (0, 0, width cfg, height cfg))
      in gl_set_scissor s3 (0, 0, width cfg, height cfg))"

definition gl_init :: "build \<Rightarrow> driver \<Rightarrow> gpu_ctx \<Rightarrow> ret \<times> gpu_ctx \<times> log" where
  "gl_init b drv s =
     (let cfg = config s; ext = is_external cfg in
      if ext \<and> (width cfg \<le> 0 \<or> height cfg \<le> 0) then
        (RET_ERR NGL_ERROR_INVALID_ARG, s,
         [(LOG_ERROR, ''could not create external context with invalid dimensions (%dx%d)'')])
      else if ext \<and> capture_buffer cfg \<noteq> None then
        (RET_ERR NGL_ERROR_INVALID_ARG, s,
         [(LOG_ERROR, ''capture_buffer is not supported by external context'')])
      else if \<not> ext \<and> offscreen cfg \<and> (width cfg \<le> 0 \<or> height cfg \<le> 0) then
        (RET_ERR NGL_ERROR_INVALID_ARG, s,
         [(LOG_ERROR, ''could not create offscreen context with invalid dimensions (%dx%d)'')])
      else if \<not> ext \<and> \<not> offscreen cfg \<and> capture_buffer cfg \<noteq> None then
        (RET_ERR NGL_ERROR_INVALID_ARG, s,
         [(LOG_ERROR, ''capture_buffer is not supported by onscreen context'')])
      else
        (case ngli_glcontext_new drv (glcontext_params_of cfg) of
           None \<Rightarrow> (RET_ERR NGL_ERROR_MEMORY, s, [])
         | Some gl \<Rightarrow>
           (let s1 = s\<lparr> glcontext := Some gl \<rparr> in
            case (if ext then
                    (case backend_config cfg of
                       None \<Rightarrow> (RET_CRASH, s1, [])
                     | Some config_gl \<Rightarrow>
                         ngli_gpu_ctx_gl_wrap_framebuffer drv s1 (external_framebuffer config_gl))
                  else if gl_offscreen gl then offscreen_rendertarget_init b drv s1
                  else onscreen_rendertarget_init drv
                         (s1\<lparr> config := cfg\<lparr> width := gl_width gl, height := gl_height gl \<rparr> \<rparr>))
            of (r1, s2, l1) \<Rightarrow>
              if failed r1 then (r1, s2, l1)
              else
                (case timer_init drv s2 of (r2, s3) \<Rightarrow>
                   if failed r2 then (r2, s3, l1)
                   else (RET_OK, gl_init_finish gl s3, l1)))))"

text \<open>
  \<open>gl_resize\<close>.  \<open>vp\<close> is the optional \<open>viewport\<close> argument.  \<open>gl_resize_finish\<close> is the part
  of the function after the three-way branch: both default render targets take the
  configured dimensions, for a context that is not external they also take the current
  default framebuffer id, and viewport and scissor are set.
\<close>

definition resized_rendertarget :: "rendertarget \<Rightarrow> ngl_config \<Rightarrow> nat option \<Rightarrow> rendertarget" where
  "resized_rendertarget rt cfg fbo =
     (case fbo of
        None \<Rightarrow> rt\<lparr> rt_width := width cfg, rt_height := height cfg \<rparr>
      | Some i \<Rightarrow> rt\<lparr> rt_width := width cfg, rt_height := height cfg, rt_id := i \<rparr>)"

definition resize_viewport ::
  "ngl_config \<Rightarrow> (int \<times> int \<times> int \<times> int) option \<Rightarrow> int \<times> int \<times> int \<times> int" where
  "resize_viewport cfg vp =
     (case vp of
        None \<Rightarrow> (0, 0, width cfg, height cfg)
      | Some (x, y, vw, vh) \<Rightarrow>
          if vw > 0 \<and> vh > 0 then (x, y, vw, vh) else (0, 0, width cfg, height cfg))"

definition gl_resize_finish ::
  "driver \<Rightarrow> gpu_ctx \<Rightarrow> bool \<Rightarrow> (int \<times> int \<times> int \<times> int) option \<Rightarrow> ret \<times> gpu_ctx \<times> log" where
  "gl_resize_finish d s ext vp =
     (case default_rt s of
        None \<Rightarrow> (RET_CRASH, s, [])
      | Some rt \<Rightarrow>
        (case default_rt_load s of
           None \<Rightarrow> (RET_CRASH, s, [])
         | Some rt_load \<Rightarrow>
             if \<not> ext \<and> glcontext s = None then (RET_CRASH, s, [])
             else
               let cfg = config s;
                   fbo = (if ext then None
                          else map_option (ngli_glcontext_get_default_framebuffer d) (glcontext s));
                   s1 = s\<lparr> default_rt := Some (resized_rendertarget rt cfg fbo),
                           default_rt_load := Some (resized_rendertarget rt_load cfg fbo) \<rparr>;
                   s2 = gl_set_viewport s1 (resize_viewport cfg vp)
               in (RET_OK, gl_set_scissor s2 (0, 0, width cfg, height cfg), [])))"

definition gl_resize ::
  "driver \<Rightarrow> gpu_ctx \<Rightarrow> int \<Rightarrow> int \<Rightarrow> (int \<times> int \<times> int \<times> int) option \<Rightarrow> ret \<times> gpu_ctx \<times> log" where
  "gl_resize drv s w h vp =
     (let cfg = config s; ext = is_external cfg in
      if ext then
        gl_resize_finish drv (s\<lparr> config := cfg\<lparr> width := w, height := h \<rparr> \<rparr>) ext vp
      else if \<not> offscreen cfg then
        (case glcontext s of
           None \<Rightarrow> (RET_CRASH, s, [])
         | Some gl \<Rightarrow>
           (case ngli_glcontext_resize drv gl w h of (r, gl') \<Rightarrow>
              if failed r then (r, s\<lparr> glcontext := Some gl' \<rparr>, [])
              else gl_resize_finish drv
                     (s\<lparr> glcontext := Some gl',
                         config := cfg\<lparr> width := gl_width gl', height := gl_height gl' \<rparr> \<rparr>)
                     ext vp))
      else
        (RET_ERR NGL_ERROR_UNSUPPORTED, s,
         [(LOG_ERROR, ''resize operation is not supported by offscreen context'')]))"

text \<open>\<open>update_capture_cvpixelbuffer\<close> (iOS and macOS builds).\<close>

definition update_capture_cvpixelbuffer ::
  "build \<Rightarrow> driver \<Rightarrow> gpu_ctx \<Rightarrow> nat option \<Rightarrow> ret \<times> gpu_ctx \<times> log" where
  "update_capture_cvpixelbuffer b drv s buf =
     (let s1 = reset_capture_cvpixelbuffer
                 (s\<lparr> default_rt := None, default_rt_load := None, color := None \<rparr>) in
      case corevideo_color b drv s1 buf of (r1, s2, l1) \<Rightarrow>
        if failed r1 then (r1, s2, l1)
        else
          let col = (if ms_color s2 \<noteq> None then ms_color s2 else color s2);
              resolve_col = (if ms_color s2 \<noteq> None then color s2 else None)
          in case create_default_rendertargets drv s2 col resolve_col (depth_stencil s2)
             of (r2, s3, l2) \<Rightarrow>
               if failed r2 then (r2, s3, l1 @ l2)
               else (RET_OK, s3\<lparr> color := None \<rparr>, l1 @ l2))"

definition gl_set_capture_buffer ::
  "build \<Rightarrow> driver \<Rightarrow> gpu_ctx \<Rightarrow> nat option \<Rightarrow> ret \<times> gpu_ctx \<times> log" where
  "gl_set_capture_buffer b drv s buf =
     (let cfg = config s in
      if is_external cfg then
        (RET_ERR NGL_ERROR_UNSUPPORTED, s,
         [(LOG_ERROR, ''capture_buffer is not supported by external context'')])
      else if \<not> offscreen cfg then
        (RET_ERR NGL_ERROR_UNSUPPORTED, s,
         [(LOG_ERROR, ''capture_buffer is not supported by onscreen context'')])
      else
        (case (if capture_buffer_type cfg = NGL_CAPTURE_BUFFER_TYPE_COREVIDEO then
                 (if TARGET_IPHONE b \<or> TARGET_DARWIN b then update_capture_cvpixelbuffer b drv s buf
                  else (RET_ERR NGL_ERROR_UNSUPPORTED, s, []))
               else (RET_OK, s, []))
         of (r, s1, l) \<Rightarrow>
           if failed r then (r, s1, l)
           else (RET_OK, s1\<lparr> config := (config s1)\<lparr> capture_buffer := buf \<rparr> \<rparr>, l)))"

text \<open>\<open>gl_destroy\<close>: the platform context is freed last and the pointer cleared.\<close>

definition gl_destroy :: "build \<Rightarrow> gpu_ctx \<Rightarrow> gpu_ctx" where
  "gl_destroy b s = (rendertarget_reset b s)\<lparr> glcontext := None \<rparr>"

subsection \<open>Coordinate-system transforms\<close>

datatype cull_mode = NGLI_CULL_MODE_NONE | NGLI_CULL_MODE_FRONT_BIT | NGLI_CULL_MODE_BACK_BIT

fun cull_mode_map :: "cull_mode \<Rightarrow> cull_mode" where
  "cull_mode_map NGLI_CULL_MODE_NONE = NGLI_CULL_MODE_NONE"
| "cull_mode_map NGLI_CULL_MODE_FRONT_BIT = NGLI_CULL_MODE_BACK_BIT"
| "cull_mode_map NGLI_CULL_MODE_BACK_BIT = NGLI_CULL_MODE_FRONT_BIT"

definition gl_transform_cull_mode :: "gpu_ctx \<Rightarrow> cull_mode \<Rightarrow> cull_mode" where
  "gl_transform_cull_mode s cm = (if \<not> offscreen (config s) then cm else cull_mode_map cm)"

text \<open>
  A matrix is the list of its 16 \<open>float\<close>s in storage order.  \<open>ngli_mat4_mul dst m1 m2\<close> of
  \<open>math_utils.c\<close> stores the product of \<open>m1\<close> and \<open>m2\<close> in \<open>dst\<close>; the product is the
  parameter \<open>mat4_mul\<close>.
\<close>

type_synonym mat4 = "real list"

definition projection_flip_matrix :: mat4 where
  "projection_flip_matrix =
     [1, 0, 0, 0,
      0, - 1, 0, 0,
      0, 0, 1, 0,
      0, 0, 0, 1]"

definition uvcoord_flip_matrix :: mat4 where
  "uvcoord_flip_matrix =
     [1, 0, 0, 0,
      0, - 1, 0, 0,
      0, 0, 1, 0,
      0, 1, 0, 1]"

definition gl_transform_projection_matrix :: "(mat4 \<Rightarrow> mat4 \<Rightarrow> mat4) \<Rightarrow> gpu_ctx \<Rightarrow> mat4 \<Rightarrow> mat4" where
  "gl_transform_projection_matrix mat4_mul s dst =
     (if \<not> offscreen (config s) then dst else mat4_mul projection_flip_matrix dst)"

definition gl_get_rendertarget_uvcoord_matrix :: "gpu_ctx \<Rightarrow> mat4 \<Rightarrow> mat4" where
  "gl_get_rendertarget_uvcoord_matrix s dst =
     (if offscreen (config s) then dst else uvcoord_flip_matrix)"

fun gl_get_default_rendertarget :: "gpu_ctx \<Rightarrow> load_op \<Rightarrow> rendertarget option" where
  "gl_get_default_rendertarget s NGLI_LOAD_OP_DONT_CARE = default_rt s"
| "gl_get_default_rendertarget s NGLI_LOAD_OP_CLEAR = default_rt s"
| "gl_get_default_rendertarget s NGLI_LOAD_OP_LOAD = default_rt_load s"

section \<open>The backend class table (\<open>gpu_ctx.c\<close>)\<close>

text \<open>
  \<open>gpu_limits\<close> and \<open>struct gpu_ctx\<close> as \<open>calloc\<close> returns them in \<open>gl_create\<close>.
\<close>

definition limits_zero :: gpu_limits where
  "limits_zero = \<lparr> max_color_attachments = 0, max_draw_buffers = 0, max_samples = 0,
     max_texture_dimension_1d = 0, max_texture_dimension_2d = 0, max_texture_dimension_3d = 0,
     max_texture_dimension_cube = 0, max_compute_work_group_count = (0, 0, 0),
     max_compute_work_group_invocations = 0, max_compute_work_group_size = (0, 0, 0),
     max_compute_shared_memory_size = 0 \<rparr>"

definition gl_create :: gpu_ctx where
  "gl_create = \<lparr> config = config_zero, version = 0, language_version = 0, features = {},
     limits = limits_zero, glcontext = None, glstate_reset_done = False, default_rt = None,
     default_rt_load = None,
     default_rt_desc = \<lparr> rd_samples = 0, rd_nb_colors = 0,
                        rd_colors0 = \<lparr> rd_format = None, rd_resolve = False \<rparr>,
                        rd_depth_stencil = \<lparr> rd_format = None, rd_resolve = False \<rparr> \<rparr>,
     current_rt = None, color = None, ms_color = None, depth_stencil = None,
     capture_func = None, capture_cvbuffer = None, capture_cvtexture = None, timer = None,
     queries = (0, 0), gc_viewport = (0, 0, 0, 0), gc_scissor = (0, 0, 0, 0) \<rparr>"

text \<open>
  \<open>struct gpu_ctx_class\<close>: the entries of \<open>DECLARE_GPU_CTX_CLASS\<close> that the modelled code
  calls through.  \<open>cls_alloc\<close> tells whether the \<open>calloc\<close> of \<open>create\<close> succeeds.
\<close>

record gpu_ctx_class =
  cls_name :: string
  cls_alloc :: "ngl_config \<Rightarrow> bool"
  cls_init :: "gpu_ctx \<Rightarrow> ret \<times> gpu_ctx \<times> log"
  cls_resize :: "gpu_ctx \<Rightarrow> int \<Rightarrow> int \<Rightarrow> (int \<times> int \<times> int \<times> int) option \<Rightarrow> ret \<times> gpu_ctx \<times> log"
  cls_set_capture_buffer :: "gpu_ctx \<Rightarrow> nat option \<Rightarrow> ret \<times> gpu_ctx \<times> log"
  cls_destroy :: "gpu_ctx \<Rightarrow> gpu_ctx"
  cls_transform_projection_matrix :: "gpu_ctx \<Rightarrow> mat4 \<Rightarrow> mat4"

text \<open>
  Everything \<open>api.c\<close> obtains from code outside the two files: the build, the OpenGL driver,
  the Vulkan class, allocation results and the results of the node graph, program cache and
  HUD calls.
\<close>

record env =
  bld :: build
  drv :: driver
  mat4_mul :: "mat4 \<Rightarrow> mat4 \<Rightarrow> mat4"
  gl_alloc :: "ngl_config \<Rightarrow> bool"
  vk_class :: gpu_ctx_class
  ngli_config_copy :: "ngl_config \<Rightarrow> ret"
  ngli_pgcache_init :: ret
  ngli_darray_push :: bool
  ngli_node_attach_ctx_ret :: "nat \<Rightarrow> ret"
  ngli_hud_create :: bool
  ngli_hud_init :: ret
  ngli_calloc :: bool
  ngli_memdup :: "ngl_backend_id \<Rightarrow> bool"

definition gl_class :: "env \<Rightarrow> string \<Rightarrow> gpu_ctx_class" where
  "gl_class e name =
     \<lparr> cls_name = name, cls_alloc = gl_alloc e, cls_init = gl_init (bld e) (drv e),
       cls_resize = gl_resize (drv e),
       cls_set_capture_buffer = gl_set_capture_buffer (bld e) (drv e),
       cls_destroy = gl_destroy (bld e),
       cls_transform_projection_matrix = gl_transform_projection_matrix (mat4_mul e) \<rparr>"

text \<open>
  Modelled from the spec: \<open>gpu_ctx.c\<close> is not part of the two files.  The dispatcher ``selects
  a backend implementation by id''; the OpenGL classes are the ones \<open>DECLARE_GPU_CTX_CLASS\<close>
  declares under \<open>BACKEND_GL\<close> and \<open>BACKEND_GLES\<close>, and a backend that is not compiled in has
  no class.
\<close>

fun backend_class :: "env \<Rightarrow> ngl_backend_id \<Rightarrow> gpu_ctx_class option" where
  "backend_class e NGL_BACKEND_OPENGL =
     (if BACKEND_GL (bld e) then Some (gl_class e ''OpenGL'') else None)"
| "backend_class e NGL_BACKEND_OPENGLES =
     (if BACKEND_GLES (bld e) then Some (gl_class e ''OpenGL ES'') else None)"
| "backend_class e NGL_BACKEND_VULKAN =
     (if BACKEND_VK (bld e) then Some (vk_class e) else None)"
| "backend_class e NGL_BACKEND_AUTO = None"
| "backend_class e (BACKEND_OUT_OF_RANGE k) = None"

text \<open>
  Modelled from the spec: the \<open>ngli_gpu_ctx_*\<close> wrappers of \<open>gpu_ctx.c\<close> (not part of the two
  files).  \<open>create\<close> returns a zeroed context holding a copy of the configuration, or NULL;
  every other wrapper calls the entry of the context's class.
\<close>

definition ngli_gpu_ctx_create :: "env \<Rightarrow> ngl_config \<Rightarrow> gpu_ctx option" where
  "ngli_gpu_ctx_create e cfg =
     (case backend_class e (backend cfg) of
        None \<Rightarrow> None
      | Some cls \<Rightarrow> if cls_alloc cls cfg then Some (gl_create\<lparr> config := cfg \<rparr>) else None)"

definition ngli_gpu_ctx_init :: "env \<Rightarrow> gpu_ctx \<Rightarrow> ret \<times> gpu_ctx \<times> log" where
  "ngli_gpu_ctx_init e s =
     (case backend_class e (backend (config s)) of
        None \<Rightarrow> (RET_CRASH, s, [])
      | Some cls \<Rightarrow> cls_init cls s)"

definition ngli_gpu_ctx_resize ::
  "env \<Rightarrow> gpu_ctx \<Rightarrow> int \<Rightarrow> int \<Rightarrow> (int \<times> int \<times> int \<times> int) option \<Rightarrow> ret \<times> gpu_ctx \<times> log" where
  "ngli_gpu_ctx_resize e s w h vp =
     (case backend_class e (backend (config s)) of
        None \<Rightarrow> (RET_CRASH, s, [])
      | Some cls \<Rightarrow> cls_resize cls s w h vp)"

definition ngli_gpu_ctx_set_capture_buffer ::
  "env \<Rightarrow> gpu_ctx \<Rightarrow> nat option \<Rightarrow> ret \<times> gpu_ctx \<times> log" where
  "ngli_gpu_ctx_set_capture_buffer e s buf =
     (case backend_class e (backend (config s)) of
        None \<Rightarrow> (RET_CRASH, s, [])
      | Some cls \<Rightarrow> cls_set_capture_buffer cls s buf)"

definition ngli_gpu_ctx_transform_projection_matrix :: "env \<Rightarrow> gpu_ctx \<Rightarrow> mat4 \<Rightarrow> mat4" where
  "ngli_gpu_ctx_transform_projection_matrix e s m =
     (case backend_class e (backend (config s)) of
        None \<Rightarrow> m
      | Some cls \<Rightarrow> cls_transform_projection_matrix cls s m)"

section \<open>The dispatcher (\<open>api.c\<close>): data\<close>

text \<open>
  Modelled from the spec: the node graph (\<open>nodes.c\<close>) is not part of the two files.  A scene
  root is ``shared-owned (reference-counted) between the Context and whatever external code
  holds a reference''; attaching binds it to the context and may fail half-way, detaching
  undoes the binding, and dropping the last reference destroys the node.  A node is its
  reference count and whether it is bound to the context; the heap maps node addresses to
  live nodes.
\<close>

record node =
  refcount :: nat
  attached :: bool

type_synonym node_heap = "nat \<rightharpoonup> node"

definition ngli_node_attach_ctx :: "env \<Rightarrow> node_heap \<Rightarrow> nat \<Rightarrow> ret \<times> node_heap" where
  "ngli_node_attach_ctx e h n =
     (case h n of
        None \<Rightarrow> (RET_CRASH, h)
      | Some nd \<Rightarrow> (ngli_node_attach_ctx_ret e n, h(n \<mapsto> nd\<lparr> attached := True \<rparr>)))"

definition ngli_node_detach_ctx :: "node_heap \<Rightarrow> nat \<Rightarrow> node_heap" where
  "ngli_node_detach_ctx h n =
     (case h n of None \<Rightarrow> h | Some nd \<Rightarrow> h(n \<mapsto> nd\<lparr> attached := False \<rparr>))"

definition ngl_node_ref :: "node_heap \<Rightarrow> nat \<Rightarrow> node_heap" where
  "ngl_node_ref h n =
     (case h n of None \<Rightarrow> h | Some nd \<Rightarrow> h(n \<mapsto> nd\<lparr> refcount := refcount nd + 1 \<rparr>))"

definition ngl_node_unrefp :: "node_heap \<Rightarrow> nat \<Rightarrow> node_heap" where
  "ngl_node_unrefp h n =
     (case h n of
        None \<Rightarrow> h
      | Some nd \<Rightarrow> if refcount nd \<le> 1 then h(n := None)
                   else h(n \<mapsto> nd\<lparr> refcount := refcount nd - 1 \<rparr>))"

datatype action = NGLI_ACTION_KEEP_SCENE | NGLI_ACTION_UNREF_SCENE

record hud_t =
  hud_initialized :: bool

text \<open>
  \<open>struct rnode\<close>: whether \<open>ngli_rnode_init\<close> has run since the last reset, whether the graphic
  state holds \<open>NGLI_GRAPHICSTATE_DEFAULTS\<close>, and the render target description.
\<close>

record rnode_t =
  rn_initialized :: bool
  rn_graphicstate_defaults :: bool
  rn_rendertarget_desc :: "rendertarget_desc option"

definition rnode_zero :: rnode_t where
  "rnode_zero = \<lparr> rn_initialized = False, rn_graphicstate_defaults = False,
                  rn_rendertarget_desc = None \<rparr>"

datatype api_impl_id = API_GL | API_VK

text \<open>
  \<open>struct ngl_ctx\<close>: the fields the modelled functions read or write.  \<open>api_impl\<close> names one
  of the two \<open>extern const struct api_impl\<close> objects; \<open>rnode_pos\<close> is true when it points
  to \<open>rnode\<close>.
\<close>

record ngl_ctx =
  ctx_config :: ngl_config
  api_impl :: "api_impl_id option"
  configured :: bool
  gpu_ctx :: "gpu_ctx option"
  scene :: "nat option"
  ctx_hud :: "hud_t option"
  rnode :: rnode_t
  rnode_pos :: bool
  font_atlas :: "texture option"
  pgcache_ready :: bool
  projection_matrix_stack :: "mat4 list"
  modelview_matrix_stack :: "mat4 list"

text \<open>The context together with the node heap its scene pointer refers into.\<close>

record world =
  ctx :: ngl_ctx
  nodes :: node_heap

text \<open>
  \<open>struct api_impl\<close>: the function table of a backend (\<open>api_gl\<close>, \<open>api_vk\<close>).  The two objects
  are defined outside the two files and are parameters of everything below;
  \<open>gl_wrap_framebuffer\<close> may be a NULL pointer.
\<close>

record api_impl_t =
  impl_configure :: "world \<Rightarrow> ngl_config \<Rightarrow> ret \<times> world \<times> log"
  impl_resize :: "world \<Rightarrow> int \<Rightarrow> int \<Rightarrow> (int \<times> int \<times> int \<times> int) option \<Rightarrow> ret \<times> world \<times> log"
  impl_set_capture_buffer :: "world \<Rightarrow> nat option \<Rightarrow> ret \<times> world \<times> log"
  impl_set_scene :: "world \<Rightarrow> nat option \<Rightarrow> ret \<times> world \<times> log"
  impl_prepare_draw :: "world \<Rightarrow> real \<Rightarrow> ret \<times> world \<times> log"
  impl_draw :: "world \<Rightarrow> real \<Rightarrow> ret \<times> world \<times> log"
  impl_reset :: "world \<Rightarrow> action \<Rightarrow> world \<times> log"
  impl_gl_wrap_framebuffer :: "(world \<Rightarrow> nat \<Rightarrow> ret \<times> world \<times> log) option"

type_synonym api_impls = "api_impl_id \<Rightarrow> api_impl_t"

section \<open>The dispatcher (\<open>api.c\<close>): scene and context life cycle\<close>

definition DEFAULT_BACKEND :: "build \<Rightarrow> ngl_backend_id" where
  "DEFAULT_BACKEND b =
     (if TARGET_IPHONE b \<or> TARGET_ANDROID b then NGL_BACKEND_OPENGLES else NGL_BACKEND_OPENGL)"

text \<open>The \<open>api_map\<close> table; an entry that is not compiled in stays zero.\<close>

fun api_map :: "build \<Rightarrow> ngl_backend_id \<Rightarrow> api_impl_id option" where
  "api_map b NGL_BACKEND_OPENGL = (if BACKEND_GL b then Some API_GL else None)"
| "api_map b NGL_BACKEND_OPENGLES = (if BACKEND_GLES b then Some API_GL else None)"
| "api_map b NGL_BACKEND_VULKAN = (if BACKEND_VK b then Some API_VK else None)"
| "api_map b NGL_BACKEND_AUTO = None"
| "api_map b (BACKEND_OUT_OF_RANGE k) = None"

fun ngli_get_backend_string_id :: "ngl_backend_id \<Rightarrow> string option" where
  "ngli_get_backend_string_id NGL_BACKEND_OPENGL = Some ''opengl''"
| "ngli_get_backend_string_id NGL_BACKEND_OPENGLES = Some ''opengles''"
| "ngli_get_backend_string_id NGL_BACKEND_VULKAN = Some ''vulkan''"
| "ngli_get_backend_string_id NGL_BACKEND_AUTO = None"
| "ngli_get_backend_string_id (BACKEND_OUT_OF_RANGE k) = None"

definition get_default_platform :: "build \<Rightarrow> ngl_platform" where
  "get_default_platform b =
     (if TARGET_LINUX b then NGL_PLATFORM_XLIB
      else if TARGET_IPHONE b then NGL_PLATFORM_IOS
      else if TARGET_DARWIN b then NGL_PLATFORM_MACOS
      else if TARGET_ANDROID b then NGL_PLATFORM_ANDROID
      else if TARGET_WINDOWS b then NGL_PLATFORM_WINDOWS
      else PLATFORM_NEGATIVE NGL_ERROR_UNSUPPORTED)"

definition reset_scene :: "world \<Rightarrow> action \<Rightarrow> world" where
  "reset_scene w act =
     (let s = (ctx w)\<lparr> ctx_hud := None \<rparr>;
          w1 = (case scene s of
                  None \<Rightarrow> w\<lparr> ctx := s \<rparr>
                | Some n \<Rightarrow>
                    (let h1 = ngli_node_detach_ctx (nodes w) n in
                     if act = NGLI_ACTION_UNREF_SCENE
                     then \<lparr> ctx = s\<lparr> scene := None \<rparr>, nodes = ngl_node_unrefp h1 n \<rparr>
                     else \<lparr> ctx = s, nodes = h1 \<rparr>))
      in w1\<lparr> ctx := (ctx w1)\<lparr> rnode := rnode_zero \<rparr> \<rparr>)"

text \<open>
  \<open>ngli_ctx_set_scene\<close>.  In the HUD block the inner \<open>int ret\<close> shadows the outer one, so
  the \<open>fail\<close> label returns the outer \<open>ret\<close>: \<open>NGL_ERROR_MEMORY\<close> when the HUD could not be
  created, and the initial \<open>0\<close> when \<open>ngli_hud_init\<close> failed.
\<close>

definition ngli_ctx_set_scene :: "env \<Rightarrow> world \<Rightarrow> nat option \<Rightarrow> ret \<times> world \<times> log" where
  "ngli_ctx_set_scene e w new_scene =
     (case gpu_ctx (ctx w) of
        None \<Rightarrow> (RET_CRASH, w, [])
      | Some g \<Rightarrow>
        (let w1 = reset_scene w NGLI_ACTION_UNREF_SCENE;
             w2 = w1\<lparr> ctx := (ctx w1)\<lparr> rnode := \<lparr> rn_initialized = True,
                                                   rn_graphicstate_defaults = True,
                                                   rn_rendertarget_desc = Some (default_rt_desc g) \<rparr>,
                                       rnode_pos := True \<rparr> \<rparr>
         in
         case (case new_scene of
                 None \<Rightarrow> (RET_OK, w2)
               | Some n \<Rightarrow>
                   (case ngli_node_attach_ctx e (nodes w2) n of (r, h1) \<Rightarrow>
                      if failed r then (r, w2\<lparr> nodes := ngli_node_detach_ctx h1 n \<rparr>)
                      else (RET_OK, \<lparr> ctx = (ctx w2)\<lparr> scene := Some n \<rparr>,
                                      nodes = ngl_node_ref h1 n \<rparr>)))
         of (r1, w3) \<Rightarrow>
           if failed r1 then (r1, w3, [])
           else if hud (ctx_config (ctx w3)) then
             (if \<not> ngli_hud_create e then
                (RET_ERR NGL_ERROR_MEMORY, reset_scene w3 NGLI_ACTION_UNREF_SCENE, [])
              else
                (let w4 = w3\<lparr> ctx := (ctx w3)\<lparr> ctx_hud := Some \<lparr> hud_initialized = False \<rparr> \<rparr> \<rparr> in
                 if failed (ngli_hud_init e) then
                   (RET_OK, reset_scene w4 NGLI_ACTION_UNREF_SCENE, [])
                 else
                   (RET_OK, w4\<lparr> ctx := (ctx w4)\<lparr> ctx_hud := Some \<lparr> hud_initialized = True \<rparr> \<rparr> \<rparr>, [])))
           else (RET_OK, w3, [])))"

text \<open>
  \<open>ngli_gpu_ctx_freep\<close> runs the class's \<open>destroy\<close> and frees the context; what is left in
  \<open>struct ngl_ctx\<close> is the NULL pointer.  The VAAPI and Android resets are platform glue
  without a counterpart here.
\<close>

definition ngli_ctx_reset :: "world \<Rightarrow> action \<Rightarrow> world" where
  "ngli_ctx_reset w act =
     (let w1 = reset_scene w act in
      w1\<lparr> ctx := (ctx w1)\<lparr> font_atlas := None, pgcache_ready := False, gpu_ctx := None,
                           ctx_config := config_zero \<rparr> \<rparr>)"

definition NGLI_MAT4_IDENTITY :: mat4 where
  "NGLI_MAT4_IDENTITY =
     [1, 0, 0, 0,
      0, 1, 0, 0,
      0, 0, 1, 0,
      0, 0, 0, 1]"

definition ngli_ctx_configure :: "env \<Rightarrow> world \<Rightarrow> ngl_config \<Rightarrow> ret \<times> world \<times> log" where
  "ngli_ctx_configure e w cfg =
     (if failed (ngli_config_copy e cfg) then (ngli_config_copy e cfg, w, [])
      else
        let s1 = (ctx w)\<lparr> ctx_config := cfg \<rparr> in
        case ngli_gpu_ctx_create e cfg of
          None \<Rightarrow> (RET_ERR NGL_ERROR_MEMORY,
                   w\<lparr> ctx := s1\<lparr> gpu_ctx := None, ctx_config := config_zero \<rparr> \<rparr>, [])
        | Some g0 \<Rightarrow>
          (case ngli_gpu_ctx_init e g0 of (r1, g1, l1) \<Rightarrow>
             if failed r1 then
               (r1, w\<lparr> ctx := s1\<lparr> gpu_ctx := None, ctx_config := config_zero \<rparr> \<rparr>,
                l1 @ [(LOG_ERROR, ''could not initialize gpu context: %s'')])
             else
               let w2 = w\<lparr> ctx := s1\<lparr> gpu_ctx := Some g1 \<rparr> \<rparr> in
               if failed (ngli_pgcache_init e) then
                 (ngli_pgcache_init e, ngli_ctx_reset w2 NGLI_ACTION_KEEP_SCENE, l1)
               else
                 let matrix = ngli_gpu_ctx_transform_projection_matrix e g1 NGLI_MAT4_IDENTITY;
                     w3 = w2\<lparr> ctx := (ctx w2)\<lparr> pgcache_ready := True,
                                               projection_matrix_stack := [] \<rparr> \<rparr>
                 in
                 if \<not> ngli_darray_push e then
                   (RET_ERR NGL_ERROR_MEMORY, ngli_ctx_reset w3 NGLI_ACTION_KEEP_SCENE, l1)
                 else
                   let w4 = w3\<lparr> ctx := (ctx w3)\<lparr> projection_matrix_stack := [matrix] \<rparr> \<rparr>;
                       old_scene = scene (ctx w4);
                       w5 = w4\<lparr> ctx := (ctx w4)\<lparr> scene := None \<rparr> \<rparr>
                   in case ngli_ctx_set_scene e w5 old_scene of (r2, w6, l2) \<Rightarrow>
                        if failed r2 then
                          (r2, ngli_ctx_reset (w6\<lparr> ctx := (ctx w6)\<lparr> scene := old_scene \<rparr> \<rparr>)
                                  NGLI_ACTION_KEEP_SCENE, l1 @ l2)
                        else
                          (RET_OK,
                           (case old_scene of None \<Rightarrow> w6
                            | Some n \<Rightarrow> w6\<lparr> nodes := ngl_node_unrefp (nodes w6) n \<rparr>),
                           l1 @ l2)))"

definition ngli_ctx_resize ::
  "env \<Rightarrow> world \<Rightarrow> int \<Rightarrow> int \<Rightarrow> (int \<times> int \<times> int \<times> int) option \<Rightarrow> ret \<times> world \<times> log" where
  "ngli_ctx_resize e w wd ht vp =
     (case gpu_ctx (ctx w) of
        None \<Rightarrow> (RET_CRASH, w, [])
      | Some g \<Rightarrow>
          (case ngli_gpu_ctx_resize e g wd ht vp of (r, g1, l) \<Rightarrow>
             (r, w\<lparr> ctx := (ctx w)\<lparr> gpu_ctx := Some g1 \<rparr> \<rparr>, l)))"

definition ngli_ctx_set_capture_buffer :: "env \<Rightarrow> world \<Rightarrow> nat option \<Rightarrow> ret \<times> world \<times> log" where
  "ngli_ctx_set_capture_buffer e w buf =
     (case gpu_ctx (ctx w) of
        None \<Rightarrow> (RET_CRASH, w, [])
      | Some g \<Rightarrow>
          (case ngli_gpu_ctx_set_capture_buffer e g buf of (r, g1, l) \<Rightarrow>
             let w1 = w\<lparr> ctx := (ctx w)\<lparr> gpu_ctx := Some g1 \<rparr> \<rparr> in
             if failed r then (r, ngli_ctx_reset w1 NGLI_ACTION_KEEP_SCENE, l)
             else (RET_OK,
                   w1\<lparr> ctx := (ctx w1)\<lparr> ctx_config := (ctx_config (ctx w1))\<lparr> capture_buffer := buf \<rparr> \<rparr> \<rparr>,
                   l)))"

section \<open>The dispatcher (\<open>api.c\<close>): public entry points\<close>

text \<open>
  \<open>ngl_configure\<close> writes the resolved backend and platform into the caller's
  configuration; the fourth component of the result is that configuration afterwards.
  \<open>ngl_configure_checked\<close> is the function from the NULL test on, that is, everything after
  the leading \<open>if (s->configured)\<close> block.
\<close>

definition ngl_configure_checked ::
  "build \<Rightarrow> api_impls \<Rightarrow> world \<Rightarrow> ngl_config option
     \<Rightarrow> ret \<times> world \<times> log \<times> ngl_config option" where
  "ngl_configure_checked b vt w1 cfg_opt =
     (case cfg_opt of
        None \<Rightarrow> (RET_ERR NGL_ERROR_INVALID_ARG, w1,
                 [(LOG_ERROR, ''context configuration cannot be NULL'')], None)
      | Some cfg \<Rightarrow>
        if backend cfg = NGL_BACKEND_AUTO \<and> backend_config cfg \<noteq> None then
          (RET_ERR NGL_ERROR_INVALID_USAGE, w1,
           [(LOG_ERROR, ''backend specific configuration is not allowed while automatic backend selection is used'')],
           Some cfg)
        else
          let cfg1 = (if backend cfg = NGL_BACKEND_AUTO
                      then cfg\<lparr> backend := DEFAULT_BACKEND b \<rparr> else cfg);
              cfg2 = (if platform cfg1 = NGL_PLATFORM_AUTO
                      then cfg1\<lparr> platform := get_default_platform b \<rparr> else cfg1)
          in
          (case platform cfg2 of
             PLATFORM_NEGATIVE err \<Rightarrow>
               (RET_ERR err, w1,
                [(LOG_ERROR, ''can not determine which platform to use'')], Some cfg2)
           | _ \<Rightarrow>
             (case backend cfg2 of
                BACKEND_OUT_OF_RANGE k \<Rightarrow>
                  (RET_ERR NGL_ERROR_INVALID_ARG, w1,
                   [(LOG_ERROR, ''unknown backend %d'')], Some cfg2)
              | _ \<Rightarrow>
                (let w2 = w1\<lparr> ctx := (ctx w1)\<lparr> api_impl := api_map b (backend cfg2) \<rparr> \<rparr> in
                 case api_map b (backend cfg2) of
                   None \<Rightarrow>
                     (RET_ERR NGL_ERROR_UNSUPPORTED, w2,
                      [(LOG_ERROR, ''backend \"%s\" not available with this build'')],
                      Some cfg2)
                 | Some a \<Rightarrow>
                     (case impl_configure (vt a) w2 cfg2 of (r, w3, l3) \<Rightarrow>
                        if failed r then (r, w3, l3, Some cfg2)
                        else (RET_OK, w3\<lparr> ctx := (ctx w3)\<lparr> configured := True \<rparr> \<rparr>,
                              l3, Some cfg2))))))"

definition ngl_configure ::
  "build \<Rightarrow> api_impls \<Rightarrow> world \<Rightarrow> ngl_config option
     \<Rightarrow> ret \<times> world \<times> log \<times> ngl_config option" where
  "ngl_configure b vt w cfg_opt =
     (if configured (ctx w) then
        (case api_impl (ctx w) of
           None \<Rightarrow> (RET_CRASH, w, [], cfg_opt)
         | Some a \<Rightarrow>
             (case impl_reset (vt a) w NGLI_ACTION_KEEP_SCENE of (w', l) \<Rightarrow>
                (case ngl_configure_checked b vt (w'\<lparr> ctx := (ctx w')\<lparr> configured := False \<rparr> \<rparr>) cfg_opt
                 of (r, w'', l', cfg') \<Rightarrow> (r, w'', l @ l', cfg'))))
      else ngl_configure_checked b vt w cfg_opt)"

definition ngl_resize ::
  "api_impls \<Rightarrow> world \<Rightarrow> int \<Rightarrow> int \<Rightarrow> (int \<times> int \<times> int \<times> int) option \<Rightarrow> ret \<times> world \<times> log" where
  "ngl_resize vt w wd ht vp =
     (if \<not> configured (ctx w) then
        (RET_ERR NGL_ERROR_INVALID_USAGE, w,
         [(LOG_ERROR, ''context must be configured before resizing rendering buffers'')])
      else case api_impl (ctx w) of
             None \<Rightarrow> (RET_CRASH, w, [])
           | Some a \<Rightarrow> impl_resize (vt a) w wd ht vp)"

definition ngl_set_capture_buffer :: "api_impls \<Rightarrow> world \<Rightarrow> nat option \<Rightarrow> ret \<times> world \<times> log" where
  "ngl_set_capture_buffer vt w buf =
     (if \<not> configured (ctx w) then
        (RET_ERR NGL_ERROR_INVALID_USAGE, w,
         [(LOG_ERROR, ''context must be configured before setting a capture buffer'')])
      else case api_impl (ctx w) of
             None \<Rightarrow> (RET_CRASH, w, [])
           | Some a \<Rightarrow>
               (case impl_set_capture_buffer (vt a) w buf of (r, w1, l) \<Rightarrow>
                  if failed r then (r, w1\<lparr> ctx := (ctx w1)\<lparr> configured := False \<rparr> \<rparr>, l)
                  else (r, w1, l)))"

definition ngl_set_scene :: "api_impls \<Rightarrow> world \<Rightarrow> nat option \<Rightarrow> ret \<times> world \<times> log" where
  "ngl_set_scene vt w sc =
     (if \<not> configured (ctx w) then
        (RET_ERR NGL_ERROR_INVALID_USAGE, w,
         [(LOG_ERROR, ''context must be configured before setting a scene'')])
      else case api_impl (ctx w) of
             None \<Rightarrow> (RET_CRASH, w, [])
           | Some a \<Rightarrow> impl_set_scene (vt a) w sc)"

definition ngli_prepare_draw :: "api_impls \<Rightarrow> world \<Rightarrow> real \<Rightarrow> ret \<times> world \<times> log" where
  "ngli_prepare_draw vt w t =
     (if \<not> configured (ctx w) then
        (RET_ERR NGL_ERROR_INVALID_USAGE, w,
         [(LOG_ERROR, ''context must be configured before updating'')])
      else case api_impl (ctx w) of
             None \<Rightarrow> (RET_CRASH, w, [])
           | Some a \<Rightarrow> impl_prepare_draw (vt a) w t)"

definition ngl_draw :: "api_impls \<Rightarrow> world \<Rightarrow> real \<Rightarrow> ret \<times> world \<times> log" where
  "ngl_draw vt w t =
     (if \<not> configured (ctx w) then
        (RET_ERR NGL_ERROR_INVALID_USAGE, w,
         [(LOG_ERROR, ''context must be configured before drawing'')])
      else case api_impl (ctx w) of
             None \<Rightarrow> (RET_CRASH, w, [])
           | Some a \<Rightarrow> impl_draw (vt a) w t)"

definition ngl_gl_wrap_framebuffer :: "api_impls \<Rightarrow> world \<Rightarrow> nat \<Rightarrow> ret \<times> world \<times> log" where
  "ngl_gl_wrap_framebuffer vt w framebuffer =
     (if \<not> configured (ctx w) then
        (RET_ERR NGL_ERROR_INVALID_USAGE, w,
         [(LOG_ERROR, ''context must be configured before wrapping a new external OpenGL framebuffer'')])
      else case api_impl (ctx w) of
             None \<Rightarrow> (RET_CRASH, w, [])
           | Some a \<Rightarrow>
               (case impl_gl_wrap_framebuffer (vt a) of
                  None \<Rightarrow>
                    (RET_ERR NGL_ERROR_UNSUPPORTED, w,
                     [(LOG_ERROR, ''wrapping external OpenGL framebuffer is not supported by context'')])
                | Some wrap \<Rightarrow>
                    (case wrap w framebuffer of (r, w1, l) \<Rightarrow>
                       if failed r then (r, w1\<lparr> ctx := (ctx w1)\<lparr> configured := False \<rparr> \<rparr>, l)
                       else (RET_OK, w1, l))))"

text \<open>The five guarded operations as one call type, and a sequence of such calls.\<close>

datatype api_call =
    Resize int int "(int \<times> int \<times> int \<times> int) option"
  | SetCaptureBuffer "nat option"
  | SetScene "nat option"
  | Draw real
  | WrapExternalFramebuffer nat

fun ngl_call :: "api_impls \<Rightarrow> world \<Rightarrow> api_call \<Rightarrow> ret \<times> world \<times> log" where
  "ngl_call vt w (Resize wd ht vp) = ngl_resize vt w wd ht vp"
| "ngl_call vt w (SetCaptureBuffer buf) = ngl_set_capture_buffer vt w buf"
| "ngl_call vt w (SetScene sc) = ngl_set_scene vt w sc"
| "ngl_call vt w (Draw t) = ngl_draw vt w t"
| "ngl_call vt w (WrapExternalFramebuffer fb) = ngl_gl_wrap_framebuffer vt w fb"

fun ngl_calls :: "api_impls \<Rightarrow> world \<Rightarrow> api_call list \<Rightarrow> ret list \<times> world" where
  "ngl_calls vt w [] = ([], w)"
| "ngl_calls vt w (c # cs) =
     (case ngl_call vt w c of (r, w1, l) \<Rightarrow>
        (case ngl_calls vt w1 cs of (rs, w2) \<Rightarrow> (r # rs, w2)))"

text \<open>
  \<open>ngl_create\<close> when every allocation and the thread start succeed: a zeroed context whose
  two matrix stacks hold the identity.
\<close>

definition ngl_create :: ngl_ctx where
  "ngl_create = \<lparr> ctx_config = config_zero, api_impl = None, configured = False, gpu_ctx = None,
     scene = None, ctx_hud = None, rnode = rnode_zero, rnode_pos = False, font_atlas = None,
     pgcache_ready = False, projection_matrix_stack = [NGLI_MAT4_IDENTITY],
     modelview_matrix_stack = [NGLI_MAT4_IDENTITY] \<rparr>"

text \<open>
  Modelled from the spec: \<open>api_gl\<close> is defined in \<open>api_gl.c\<close>, which is not part of the two
  files.  The entry points ``as called through \<open>ngli_ctx_*\<close> are in fact executed
  synchronously on the calling thread'', so each entry is the \<open>ngli_ctx_*\<close> function of
  \<open>api.c\<close>, and wrapping a framebuffer is \<open>ngli_gpu_ctx_gl_wrap_framebuffer\<close> on the
  context's GPU context.  The two drawing entries are parameters.
\<close>

definition api_gl ::
  "env \<Rightarrow> (world \<Rightarrow> real \<Rightarrow> ret \<times> world \<times> log) \<Rightarrow> (world \<Rightarrow> real \<Rightarrow> ret \<times> world \<times> log) \<Rightarrow> api_impl_t" where
  "api_gl e prepare_draw_impl draw_impl =
     \<lparr> impl_configure = ngli_ctx_configure e,
       impl_resize = ngli_ctx_resize e,
       impl_set_capture_buffer = ngli_ctx_set_capture_buffer e,
       impl_set_scene = ngli_ctx_set_scene e,
       impl_prepare_draw = prepare_draw_impl,
       impl_draw = draw_impl,
       impl_reset = (\<lambda>w act. (ngli_ctx_reset w act, [])),
       impl_gl_wrap_framebuffer = Some (\<lambda>w fb.
          case gpu_ctx (ctx w) of
            None \<Rightarrow> (RET_CRASH, w, [])
          | Some g \<Rightarrow>
              (case ngli_gpu_ctx_gl_wrap_framebuffer (drv e) g fb of (r, g1, l) \<Rightarrow>
                 (r, w\<lparr> ctx := (ctx w)\<lparr> gpu_ctx := Some g1 \<rparr> \<rparr>, l))) \<rparr>"

section \<open>The pairing of the default render targets\<close>

text \<open>
  \<open>with_load_op lop p\<close> is \<open>p\<close> with the load operation of every colour attachment and of
  the depth-stencil attachment set to \<open>lop\<close>.  The default render targets are paired when
  both exist, the parameters of the first carry \<open>NGLI_LOAD_OP_CLEAR\<close>, the parameters of the
  second are those of the first with \<open>NGLI_LOAD_OP_LOAD\<close> instead (so attachments, resolve
  targets, clear values, store operations and sizes are the same), both are wrapped or both
  are owned, and both record the width and height of the context's configuration.
\<close>

definition with_load_op :: "load_op \<Rightarrow> rendertarget_params \<Rightarrow> rendertarget_params" where
  "with_load_op lop p =
     p\<lparr> rp_colors := map (\<lambda>a. a\<lparr> att_load_op := lop \<rparr>) (rp_colors p),
        rp_depth_stencil := (rp_depth_stencil p)\<lparr> att_load_op := lop \<rparr> \<rparr>"

definition default_rendertargets_paired :: "gpu_ctx \<Rightarrow> bool" where
  "default_rendertargets_paired s =
     (case default_rt s of
        None \<Rightarrow> False
      | Some rt \<Rightarrow>
        (case default_rt_load s of
           None \<Rightarrow> False
         | Some rt_load \<Rightarrow>
             with_load_op NGLI_LOAD_OP_CLEAR (rt_params rt) = rt_params rt
             \<and> with_load_op NGLI_LOAD_OP_LOAD (rt_params rt) = rt_params rt_load
             \<and> rp_colors (rt_params rt) \<noteq> []
             \<and> rt_wrapped rt = rt_wrapped rt_load
             \<and> rt_width rt = width (config s) \<and> rt_height rt = height (config s)
             \<and> rt_width rt_load = width (config s) \<and> rt_height rt_load = height (config s)))"

section \<open>The dispatcher (\<open>api.c\<close>): probing the backends\<close>

text \<open>
  The capability ids are the enumerators \<open>load_caps\<close> passes to \<open>get_cap_string_id\<close>; the
  \<open>ngli_assert(0)\<close> after the \<open>switch\<close> is not reachable from them.
\<close>

datatype ngl_cap_id =
    NGL_CAP_BLOCK
  | NGL_CAP_COMPUTE
  | NGL_CAP_DEPTH_STENCIL_RESOLVE
  | NGL_CAP_INSTANCED_DRAW
  | NGL_CAP_MAX_COLOR_ATTACHMENTS
  | NGL_CAP_MAX_COMPUTE_GROUP_COUNT_X
  | NGL_CAP_MAX_COMPUTE_GROUP_COUNT_Y
  | NGL_CAP_MAX_COMPUTE_GROUP_COUNT_Z
  | NGL_CAP_MAX_COMPUTE_GROUP_INVOCATIONS
  | NGL_CAP_MAX_COMPUTE_GROUP_SIZE_X
  | NGL_CAP_MAX_COMPUTE_GROUP_SIZE_Y
  | NGL_CAP_MAX_COMPUTE_GROUP_SIZE_Z
  | NGL_CAP_MAX_COMPUTE_SHARED_MEMORY_SIZE
  | NGL_CAP_MAX_SAMPLES
  | NGL_CAP_MAX_TEXTURE_DIMENSION_1D
  | NGL_CAP_MAX_TEXTURE_DIMENSION_2D
  | NGL_CAP_MAX_TEXTURE_DIMENSION_3D
  | NGL_CAP_MAX_TEXTURE_DIMENSION_CUBE
  | NGL_CAP_NPOT_TEXTURE
  | NGL_CAP_SHADER_TEXTURE_LOD
  | NGL_CAP_TEXTURE_3D
  | NGL_CAP_TEXTURE_CUBE
  | NGL_CAP_UINT_UNIFORMS

fun get_cap_string_id :: "ngl_cap_id \<Rightarrow> string" where
  "get_cap_string_id NGL_CAP_BLOCK = ''block''"
| "get_cap_string_id NGL_CAP_COMPUTE = ''compute''"
| "get_cap_string_id NGL_CAP_DEPTH_STENCIL_RESOLVE = ''depth_stencil_resolve''"
| "get_cap_string_id NGL_CAP_INSTANCED_DRAW = ''instanced_draw''"
| "get_cap_string_id NGL_CAP_MAX_COLOR_ATTACHMENTS = ''max_color_attachments''"
| "get_cap_string_id NGL_CAP_MAX_COMPUTE_GROUP_COUNT_X = ''max_compute_group_count_x''"
| "get_cap_string_id NGL_CAP_MAX_COMPUTE_GROUP_COUNT_Y = ''max_compute_group_count_y''"
| "get_cap_string_id NGL_CAP_MAX_COMPUTE_GROUP_COUNT_Z = ''max_compute_group_count_z''"
| "get_cap_string_id NGL_CAP_MAX_COMPUTE_GROUP_INVOCATIONS = ''max_compute_group_invocations''"
| "get_cap_string_id NGL_CAP_MAX_COMPUTE_GROUP_SIZE_X = ''max_compute_group_size_x''"
| "get_cap_string_id NGL_CAP_MAX_COMPUTE_GROUP_SIZE_Y = ''max_compute_group_size_y''"
| "get_cap_string_id NGL_CAP_MAX_COMPUTE_GROUP_SIZE_Z = ''max_compute_group_size_z''"
| "get_cap_string_id NGL_CAP_MAX_COMPUTE_SHARED_MEMORY_SIZE = ''max_compute_shared_memory_size''"
| "get_cap_string_id NGL_CAP_MAX_SAMPLES = ''max_samples''"
| "get_cap_string_id NGL_CAP_MAX_TEXTURE_DIMENSION_1D = ''max_texture_dimensions_1d''"
| "get_cap_string_id NGL_CAP_MAX_TEXTURE_DIMENSION_2D = ''max_texture_dimensions_2d''"
| "get_cap_string_id NGL_CAP_MAX_TEXTURE_DIMENSION_3D = ''max_texture_dimensions_3d''"
| "get_cap_string_id NGL_CAP_MAX_TEXTURE_DIMENSION_CUBE = ''max_texture_dimensions_cube''"
| "get_cap_string_id NGL_CAP_NPOT_TEXTURE = ''npot_texture''"
| "get_cap_string_id NGL_CAP_SHADER_TEXTURE_LOD = ''shader_texture_lod''"
| "get_cap_string_id NGL_CAP_TEXTURE_3D = ''texture_3d''"
| "get_cap_string_id NGL_CAP_TEXTURE_CUBE = ''texture_cube''"
| "get_cap_string_id NGL_CAP_UINT_UNIFORMS = ''uint_uniforms''"

record ngl_cap =
  cap_id :: ngl_cap_id
  cap_string_id :: string
  cap_value :: int

definition CAP :: "ngl_cap_id \<Rightarrow> int \<Rightarrow> ngl_cap" where
  "CAP c v = \<lparr> cap_id = c, cap_string_id = get_cap_string_id c, cap_value = v \<rparr>"

text \<open>
  \<open>struct ngl_backend\<close>, and the slot \<open>ngli_calloc\<close> returns: the id \<open>0\<close> is
  \<open>NGL_BACKEND_AUTO\<close> and the three pointers are NULL.
\<close>

record ngl_backend =
  be_id :: ngl_backend_id
  be_string_id :: "string option"
  be_name :: "string option"
  be_is_default :: bool
  be_caps :: "ngl_cap list option"
  be_nb_caps :: nat

definition backend_zero :: ngl_backend where
  "backend_zero = \<lparr> be_id = NGL_BACKEND_AUTO, be_string_id = None, be_name = None,
     be_is_default = False, be_caps = None, be_nb_caps = 0 \<rparr>"

definition ANY_FEATURES :: "feature set \<Rightarrow> feature set \<Rightarrow> bool" where
  "ANY_FEATURES fs msk = (fs \<inter> msk \<noteq> {})"

definition ALL_FEATURES :: "feature set \<Rightarrow> feature set \<Rightarrow> bool" where
  "ALL_FEATURES fs msk = (fs \<inter> msk = msk)"

definition load_caps :: "env \<Rightarrow> ngl_backend \<Rightarrow> gpu_ctx \<Rightarrow> ret \<times> ngl_backend" where
  "load_caps e bk g =
     (let has_block = ANY_FEATURES (features g) {NGLI_FEATURE_UNIFORM_BUFFER, NGLI_FEATURE_STORAGE_BUFFER};
          has_compute = ALL_FEATURES (features g) {NGLI_FEATURE_COMPUTE};
          has_ds_resolve = ALL_FEATURES (features g) {NGLI_FEATURE_DEPTH_STENCIL_RESOLVE};
          has_instanced_draw = ALL_FEATURES (features g) {NGLI_FEATURE_INSTANCED_DRAW};
          has_npot_texture = ALL_FEATURES (features g) {NGLI_FEATURE_TEXTURE_NPOT};
          has_shader_texture_lod = ALL_FEATURES (features g) {NGLI_FEATURE_SHADER_TEXTURE_LOD};
          has_texture_3d = ALL_FEATURES (features g) {NGLI_FEATURE_TEXTURE_3D};
          has_texture_cube = ALL_FEATURES (features g) {NGLI_FEATURE_TEXTURE_CUBE_MAP};
          has_uint_uniforms = ALL_FEATURES (features g) {NGLI_FEATURE_UINT_UNIFORMS};
          lims = limits g;
          caps = [
            CAP NGL_CAP_BLOCK (of_bool has_block),
            CAP NGL_CAP_COMPUTE (of_bool has_compute),
            CAP NGL_CAP_DEPTH_STENCIL_RESOLVE (of_bool has_ds_resolve),
            CAP NGL_CAP_INSTANCED_DRAW (of_bool has_instanced_draw),
            CAP NGL_CAP_MAX_COLOR_ATTACHMENTS (max_color_attachments lims),
            CAP NGL_CAP_MAX_COMPUTE_GROUP_COUNT_X (fst (max_compute_work_group_count lims)),
            CAP NGL_CAP_MAX_COMPUTE_GROUP_COUNT_Y (fst (snd (max_compute_work_group_count lims))),
            CAP NGL_CAP_MAX_COMPUTE_GROUP_COUNT_Z (snd (snd (max_compute_work_group_count lims))),
            CAP NGL_CAP_MAX_COMPUTE_GROUP_INVOCATIONS (max_compute_work_group_invocations lims),
            CAP NGL_CAP_MAX_COMPUTE_GROUP_SIZE_X (fst (max_compute_work_group_size lims)),
            CAP NGL_CAP_MAX_COMPUTE_GROUP_SIZE_Y (fst (snd (max_compute_work_group_size lims))),
            CAP NGL_CAP_MAX_COMPUTE_GROUP_SIZE_Z (snd (snd (max_compute_work_group_size lims))),
            CAP NGL_CAP_MAX_COMPUTE_SHARED_MEMORY_SIZE (max_compute_shared_memory_size lims),
            CAP NGL_CAP_MAX_SAMPLES (max_samples lims),
            CAP NGL_CAP_MAX_TEXTURE_DIMENSION_1D (max_texture_dimension_1d lims),
            CAP NGL_CAP_MAX_TEXTURE_DIMENSION_2D (max_texture_dimension_2d lims),
            CAP NGL_CAP_MAX_TEXTURE_DIMENSION_3D (max_texture_dimension_3d lims),
            CAP NGL_CAP_MAX_TEXTURE_DIMENSION_CUBE (max_texture_dimension_cube lims),
            CAP NGL_CAP_NPOT_TEXTURE (of_bool has_npot_texture),
            CAP NGL_CAP_SHADER_TEXTURE_LOD (of_bool has_shader_texture_lod),
            CAP NGL_CAP_TEXTURE_3D (of_bool has_texture_3d),
            CAP NGL_CAP_TEXTURE_CUBE (of_bool has_texture_cube),
            CAP NGL_CAP_UINT_UNIFORMS (of_bool has_uint_uniforms)]
      in
      if ngli_memdup e (be_id bk)
      then (RET_OK, bk\<lparr> be_nb_caps := length caps, be_caps := Some caps \<rparr>)
      else (RET_ERR NGL_ERROR_MEMORY, bk\<lparr> be_nb_caps := length caps, be_caps := None \<rparr>))"

datatype probe_mode = PROBE_MODE_FULL | PROBE_MODE_NO_GRAPHICS

text \<open>
  \<open>backend_probe\<close>.  \<open>gpu_ctx->backend_str\<close> and \<open>gpu_ctx->cls\<close> are what
  \<open>ngli_gpu_ctx_create\<close> found for \<open>config->backend\<close>: the string of
  \<open>ngli_get_backend_string_id\<close> and the class of the backend; a NULL there fails the
  assertion.  \<open>ngli_gpu_ctx_freep\<close> releases the probing context on every path and leaves
  nothing behind.
\<close>

definition backend_probe ::
  "env \<Rightarrow> ngl_backend \<Rightarrow> ngl_config \<Rightarrow> probe_mode \<Rightarrow> ret \<times> ngl_backend \<times> log" where
  "backend_probe e bk cfg md =
     (case ngli_gpu_ctx_create e cfg of
        None \<Rightarrow> (RET_ERR NGL_ERROR_MEMORY, bk, [])
      | Some g \<Rightarrow>
        (case ngli_get_backend_string_id (backend cfg) of
           None \<Rightarrow> (RET_CRASH, bk, [])
         | Some str \<Rightarrow>
           (case backend_class e (backend cfg) of
              None \<Rightarrow> (RET_CRASH, bk, [])
            | Some cls \<Rightarrow>
              (let bk1 = bk\<lparr> be_id := backend cfg, be_string_id := Some str,
                              be_name := Some (cls_name cls) \<rparr>
               in
               if md = PROBE_MODE_NO_GRAPHICS then (RET_OK, bk1, [])
               else
                 (case ngli_gpu_ctx_init e g of (r, g1, l) \<Rightarrow>
                    if failed r then (r, bk1, l)
                    else (case load_caps e bk1 g1 of (r2, bk2) \<Rightarrow> (r2, bk2, l)))))))"

definition backend_ids :: "build \<Rightarrow> ngl_backend_id list" where
  "backend_ids b =
     (if BACKEND_GL b then [NGL_BACKEND_OPENGL] else [])
     @ (if BACKEND_GLES b then [NGL_BACKEND_OPENGLES] else [])
     @ (if BACKEND_VK b then [NGL_BACKEND_VULKAN] else [])"

definition default_config :: ngl_config where
  "default_config = config_zero\<lparr> width := 1, height := 1, offscreen := True \<rparr>"

text \<open>
  The \<open>for\<close> loop of \<open>backends_probe\<close> over the remaining entries of \<open>backend_ids\<close>: \<open>bs\<close> is
  the array \<open>backends\<close>, \<open>nb\<close> is \<open>nb_backends\<close>.  A probe writes into the slot
  \<open>backends[nb_backends]\<close> also when it fails; \<open>nb_backends\<close> is below the number of
  entries already visited, so the slot exists.
\<close>

fun backends_probe_loop ::
  "env \<Rightarrow> ngl_config \<Rightarrow> ngl_platform \<Rightarrow> probe_mode \<Rightarrow> ngl_backend_id list
     \<Rightarrow> ngl_backend list \<Rightarrow> nat \<Rightarrow> log \<Rightarrow> ngl_backend list \<times> nat \<times> log" where
  "backends_probe_loop e uc plat md [] bs nb l = (bs, nb, l)"
| "backends_probe_loop e uc plat md (bid # ids) bs nb l =
     (if backend uc \<noteq> NGL_BACKEND_AUTO \<and> backend uc \<noteq> bid
      then backends_probe_loop e uc plat md ids bs nb l
      else
        (case backend_probe e (bs ! nb) (uc\<lparr> backend := bid, platform := plat \<rparr>) md of
           (r, bk, l1) \<Rightarrow>
             if failed r then backends_probe_loop e uc plat md ids (bs[nb := bk]) nb (l @ l1)
             else backends_probe_loop e uc plat md ids
                    (bs[nb := bk\<lparr> be_is_default := (bid = DEFAULT_BACKEND (bld e)) \<rparr>])
                    (nb + 1) (l @ l1)))"

text \<open>
  \<open>backends_probe\<close>.  The two output parameters \<open>*nb_backendsp\<close> and \<open>*backendsp\<close> are the
  pair \<open>out\<close>; they are written on success only.  With no backend found the array is freed
  and the pointer stored is NULL.
\<close>

type_synonym probe_out = "nat \<times> ngl_backend list option"

definition backends_probe ::
  "env \<Rightarrow> ngl_config option \<Rightarrow> probe_out \<Rightarrow> probe_mode \<Rightarrow> ret \<times> probe_out \<times> log" where
  "backends_probe e user_config out md =
     (let uc = (case user_config of None \<Rightarrow> default_config | Some c \<Rightarrow> c);
          plat = (if platform uc = NGL_PLATFORM_AUTO then get_default_platform (bld e)
                  else platform uc)
      in
      if \<not> ngli_calloc e then (RET_ERR NGL_ERROR_MEMORY, out, [])
      else
        (case backends_probe_loop e uc plat md (backend_ids (bld e))
                (replicate (length (backend_ids (bld e))) backend_zero) 0 [] of
           (bs, nb, l) \<Rightarrow> (RET_OK, (nb, if nb = 0 then None else Some bs), l)))"

definition ngl_backends_probe ::
  "env \<Rightarrow> ngl_config option \<Rightarrow> probe_out \<Rightarrow> ret \<times> probe_out \<times> log" where
  "ngl_backends_probe e user_config out = backends_probe e user_config out PROBE_MODE_FULL"

definition ngl_backends_get ::
  "env \<Rightarrow> ngl_config option \<Rightarrow> probe_out \<Rightarrow> ret \<times> probe_out \<times> log" where
  "ngl_backends_get e user_config out = backends_probe e user_config out PROBE_MODE_NO_GRAPHICS"

section \<open>The backends a probe lists\<close>

text \<open>
  The backends a caller reads from the two output parameters: the first \<open>nb_backends\<close>
  entries of the array.
\<close>

definition listed_backends :: "probe_out \<Rightarrow> ngl_backend list" where
  "listed_backends out = (case snd out of None \<Rightarrow> [] | Some bs \<Rightarrow> take (fst out) bs)"

text \<open>
  The configuration \<open>backends_probe\<close> hands to \<open>backend_probe\<close> for the backend \<open>bid\<close>, and
  whether \<open>bid\<close> is requested by the user's configuration and its probe succeeds.
\<close>

definition probe_config :: "env \<Rightarrow> ngl_config option \<Rightarrow> ngl_backend_id \<Rightarrow> ngl_config" where
  "probe_config e user_config bid =
     (let uc = (case user_config of None \<Rightarrow> default_config | Some c \<Rightarrow> c) in
      uc\<lparr> backend := bid,
          platform := (if platform uc = NGL_PLATFORM_AUTO then get_default_platform (bld e)
                       else platform uc) \<rparr>)"

definition probe_succeeds :: "env \<Rightarrow> ngl_config option \<Rightarrow> probe_mode \<Rightarrow> ngl_backend_id \<Rightarrow> bool" where
  "probe_succeeds e user_config md bid =
     (let uc = (case user_config of None \<Rightarrow> default_config | Some c \<Rightarrow> c) in
      (backend uc = NGL_BACKEND_AUTO \<or> backend uc = bid)
      \<and> \<not> failed (fst (backend_probe e backend_zero (probe_config e user_config bid) md)))"

section \<open>The dispatcher (\<open>api.c\<close>): the command mailbox\<close>


















section \<open>The command mailbox: schedules and invariants\<close>













section \<open>Example values\<close>

text \<open>
  A concrete build, driver and function tables, used to instantiate the theorems below: a
  Linux build with all three backends, a driver that supports framebuffer objects and
  never fails, and a Vulkan table without \<open>gl_wrap_framebuffer\<close>.
\<close>

text \<open>A 4x4 matrix product on the storage order of \<open>NGLI_ALIGNED_MAT\<close> (column-major).\<close>

definition example_mat4_mul :: "mat4 \<Rightarrow> mat4 \<Rightarrow> mat4" where
  "example_mat4_mul a b =
     concat (map (\<lambda>c. map (\<lambda>r. a ! r * b ! (4 * c) + a ! (4 + r) * b ! (4 * c + 1)
                                 + a ! (8 + r) * b ! (4 * c + 2) + a ! (12 + r) * b ! (4 * c + 3))
                          [0, 1, 2, 3])
                 [0, 1, 2, 3])"

definition example_build :: build where
  "example_build = \<lparr> BACKEND_GL = True, BACKEND_GLES = True, BACKEND_VK = True,
     TARGET_LINUX = True, TARGET_IPHONE = False, TARGET_DARWIN = False,
     TARGET_ANDROID = False, TARGET_WINDOWS = False \<rparr>"

definition example_glcontext :: "gl_feature set \<Rightarrow> glcontext_params \<Rightarrow> glcontext" where
  "example_glcontext fs p =
     \<lparr> gl_backend = p_backend p, gl_version = 330, gl_glsl_version = 330,
       gl_offscreen = p_offscreen p,
       gl_width = (if p_offscreen p then p_width p else 640),
       gl_height = (if p_offscreen p then p_height p else 480),
       gl_samples = p_samples p, gl_features = fs,
       gl_limits = limits_zero\<lparr> max_color_attachments := 8, max_draw_buffers := 8 \<rparr> \<rparr>"

definition example_texture :: "texture_params \<Rightarrow> texture" where
  "example_texture p =
     \<lparr> tex_params = p,
       tex_gl_format = (if tp_format p = NGLI_FORMAT_D24_UNORM_S8_UINT then GL_DEPTH24_STENCIL8
                        else GL_FORMAT_OTHER 32856),
       tex_gl_target = (if tp_samples p > 0 then GL_RENDERBUFFER else GL_TEXTURE_2D),
       tex_gl_id = 1 \<rparr>"

definition example_driver :: "gl_feature set \<Rightarrow> driver" where
  "example_driver fs =
     \<lparr> ngli_glcontext_new = (\<lambda>p. Some (example_glcontext fs p)),
       ngli_glcontext_resize = (\<lambda>gl w h. (RET_OK, gl\<lparr> gl_width := w, gl_height := h \<rparr>)),
       ngli_glcontext_get_default_framebuffer = (\<lambda>gl. 0),
       ngli_texture_create = (\<lambda>p. True),
       ngli_texture_init = (\<lambda>p. (RET_OK, example_texture p)),
       ngli_texture_gl_wrap = (\<lambda>p n. (RET_OK, (example_texture p)\<lparr> tex_gl_id := n \<rparr>)),
       ngli_rendertarget_create = (\<lambda>lop. True),
       glGenFramebuffers = (\<lambda>params resolve. if resolve then 2 else 1),
       glCheckFramebufferStatus_complete = (\<lambda>params resolve. True),
       glGetFramebufferAttachment_type = (\<lambda>fbo att. 1),
       glGetFramebufferAttachment_size = (\<lambda>fbo att prop. 8),
       glGenQueries = (1, 2),
       CVPixelBufferGetWidth = (\<lambda>buffer. 0),
       CVPixelBufferGetHeight = (\<lambda>buffer. 0),
       CVTextureCacheCreateTextureFromImage = (\<lambda>buffer. None) \<rparr>"

definition example_api_vk :: api_impl_t where
  "example_api_vk =
     \<lparr> impl_configure = (\<lambda>w cfg. (RET_OK, w, [])),
       impl_resize = (\<lambda>w wd ht vp. (RET_OK, w, [])),
       impl_set_capture_buffer = (\<lambda>w buf. (RET_ERR NGL_ERROR_UNSUPPORTED, w, [])),
       impl_set_scene = (\<lambda>w sc. (RET_OK, w, [])),
       impl_prepare_draw = (\<lambda>w t. (RET_OK, w, [])),
       impl_draw = (\<lambda>w t. (RET_OK, w, [])),
       impl_reset = (\<lambda>w act. (w, [])),
       impl_gl_wrap_framebuffer = None \<rparr>"

definition example_vk_class :: gpu_ctx_class where
  "example_vk_class =
     \<lparr> cls_name = ''Vulkan'', cls_alloc = (\<lambda>cfg. True),
       cls_init = (\<lambda>s. (RET_ERR NGL_ERROR_EXTERNAL, s, [])),
       cls_resize = (\<lambda>s w h vp. (RET_OK, s, [])),
       cls_set_capture_buffer = (\<lambda>s buf. (RET_OK, s, [])),
       cls_destroy = (\<lambda>s. s),
       cls_transform_projection_matrix = (\<lambda>s m. m) \<rparr>"

definition example_env :: "gl_feature set \<Rightarrow> env" where
  "example_env fs =
     \<lparr> bld = example_build, drv = example_driver fs, mat4_mul = example_mat4_mul,
       gl_alloc = (\<lambda>cfg. True), vk_class = example_vk_class,
       ngli_config_copy = (\<lambda>cfg. RET_OK), ngli_pgcache_init = RET_OK,
       ngli_darray_push = True,
       ngli_node_attach_ctx_ret = (\<lambda>n. if n = 2 then RET_ERR NGL_ERROR_MEMORY else RET_OK),
       ngli_hud_create = True, ngli_hud_init = RET_OK, ngli_calloc = True,
       ngli_memdup = (\<lambda>bk. True) \<rparr>"

definition example_impls :: api_impls where
  "example_impls a =
     (case a of
        API_GL \<Rightarrow> api_gl (example_env {NGLI_FEATURE_GL_FRAMEBUFFER_OBJECT})
                    (\<lambda>w t. (RET_OK, w, [])) (\<lambda>w t. (RET_OK, w, []))
      | API_VK \<Rightarrow> example_api_vk)"

definition example_world :: world where
  "example_world = \<lparr> ctx = ngl_create, nodes = Map.empty \<rparr>"

definition example_vk_config :: ngl_config where
  "example_vk_config = config_zero\<lparr> backend := NGL_BACKEND_VULKAN, width := 16, height := 9 \<rparr>"

definition example_vk_world :: world where
  "example_vk_world =
     fst (snd (ngl_configure example_build example_impls example_world (Some example_vk_config)))"

definition example_onscreen_config :: ngl_config where
  "example_onscreen_config = config_zero\<lparr> backend := NGL_BACKEND_OPENGL,
     platform := NGL_PLATFORM_XLIB, width := 640, height := 480 \<rparr>"

definition example_gl_world :: world where
  "example_gl_world =
     \<lparr> ctx = ngl_create\<lparr> ctx_config := example_onscreen_config, api_impl := Some API_GL,
                          configured := True,
                          gpu_ctx := Some (gl_create\<lparr> config := example_onscreen_config \<rparr>),
                          scene := Some 1 \<rparr>,
       nodes = [1 \<mapsto> \<lparr> refcount = 2, attached = True \<rparr>] \<rparr>"

definition example_bad_config :: ngl_config where
  "example_bad_config = config_zero\<lparr> backend_config := Some \<lparr> external = True, external_framebuffer = 3 \<rparr> \<rparr>"

definition example_offscreen_config :: ngl_config where
  "example_offscreen_config = config_zero\<lparr> backend := NGL_BACKEND_OPENGL,
     platform := NGL_PLATFORM_XLIB, width := 16, height := 9, offscreen := True, samples := 4 \<rparr>"

definition example_external_config :: ngl_config where
  "example_external_config = config_zero\<lparr> backend := NGL_BACKEND_OPENGL,
     platform := NGL_PLATFORM_XLIB, width := 320, height := 200,
     backend_config := Some \<lparr> external = True, external_framebuffer = 3 \<rparr> \<rparr>"

definition example_gpu_ctx :: "ngl_config \<Rightarrow> gpu_ctx" where
  "example_gpu_ctx cfg = gl_create\<lparr> config := cfg \<rparr>"

definition example_onscreen_gpu_ctx :: gpu_ctx where
  "example_onscreen_gpu_ctx =
     fst (snd (gl_init example_build (example_driver {NGLI_FEATURE_GL_FRAMEBUFFER_OBJECT})
                 (example_gpu_ctx example_onscreen_config)))"

definition example_no_fbo_gpu_ctx :: gpu_ctx where
  "example_no_fbo_gpu_ctx =
     (example_gpu_ctx example_offscreen_config)
       \<lparr> glcontext := Some (example_glcontext {} (glcontext_params_of example_offscreen_config)) \<rparr>"

definition example_color_params :: "format \<Rightarrow> texture_params" where
  "example_color_params fmt = \<lparr> tp_type = NGLI_TEXTURE_TYPE_2D, tp_format = fmt, tp_width = 16,
     tp_height = 9, tp_samples = 0, tp_usage = NGLI_TEXTURE_USAGE_COLOR_ATTACHMENT_BIT \<rparr>"

text \<open>
  An environment whose Vulkan class initialises, and a configuration the OpenGL classes
  refuse (an offscreen context of size 0x0).
\<close>

definition example_probe_env :: env where
  "example_probe_env =
     (example_env {NGLI_FEATURE_GL_FRAMEBUFFER_OBJECT})
       \<lparr> vk_class := example_vk_class\<lparr> cls_init := (\<lambda>s. (RET_OK, s, [])) \<rparr> \<rparr>"

definition example_probe_config :: ngl_config where
  "example_probe_config = config_zero\<lparr> offscreen := True \<rparr>"

text \<open>The configured example context with a second node that cannot be attached.\<close>

definition example_scene_world :: world where
  "example_scene_world =
     example_gl_world\<lparr> nodes := (nodes example_gl_world)(2 \<mapsto> \<lparr> refcount = 1, attached = False \<rparr>) \<rparr>"

text \<open>
  The same context when nobody but the context holds a reference to its scene (node 1).
\<close>

definition example_last_ref_world :: world where
  "example_last_ref_world =
     example_scene_world\<lparr> nodes := (nodes example_scene_world)(1 \<mapsto> \<lparr> refcount = 1, attached = True \<rparr>) \<rparr>"






section \<open>Properties\<close>

subsection \<open>Calls on an unconfigured context\<close>

lemma unconfigured_call:
  "\<not> configured (ctx w) \<Longrightarrow>
     \<exists>msg. ngl_call vt w c = (RET_ERR NGL_ERROR_INVALID_USAGE, w, [(LOG_ERROR, msg)])"
  by (cases c) (simp_all add: ngl_resize_def ngl_set_capture_buffer_def ngl_set_scene_def
      ngl_draw_def ngl_gl_wrap_framebuffer_def)

lemma unconfigured_calls:
  "\<not> configured (ctx w) \<Longrightarrow>
     ngl_calls vt w cs = (replicate (length cs) (RET_ERR NGL_ERROR_INVALID_USAGE), w)"
proof (induction cs)
  case Nil
  show ?case by simp
next
  case (Cons c cs)
  from unconfigured_call[OF Cons.prems, of vt c] obtain msg where
    "ngl_call vt w c = (RET_ERR NGL_ERROR_INVALID_USAGE, w, [(LOG_ERROR, msg)])" by blast
  with Cons show ?case by simp
qed

text \<open>
  C1.  Each of resize, set_capture_buffer, set_scene, draw and wrap_external_framebuffer,
  called on a context whose \<open>configured\<close> flag is unset, returns
  \<open>NGL_ERROR_INVALID_USAGE\<close>, logs one error, and returns the world (the context with all its
  fields, and the node heap) exactly as it was; the backend's function table is not consulted.
\<close>

theorem C1_unconfigured_calls_rejected:
  assumes "\<not> configured (ctx w)"
  shows "ngl_resize vt w wd ht vp =
           (RET_ERR NGL_ERROR_INVALID_USAGE, w,
            [(LOG_ERROR, ''context must be configured before resizing rendering buffers'')])
       \<and> ngl_set_capture_buffer vt w buf =
           (RET_ERR NGL_ERROR_INVALID_USAGE, w,
            [(LOG_ERROR, ''context must be configured before setting a capture buffer'')])
       \<and> ngl_set_scene vt w sc =
           (RET_ERR NGL_ERROR_INVALID_USAGE, w,
            [(LOG_ERROR, ''context must be configured before setting a scene'')])
       \<and> ngl_draw vt w t =
           (RET_ERR NGL_ERROR_INVALID_USAGE, w,
            [(LOG_ERROR, ''context must be configured before drawing'')])
       \<and> ngl_gl_wrap_framebuffer vt w fb =
           (RET_ERR NGL_ERROR_INVALID_USAGE, w,
            [(LOG_ERROR, ''context must be configured before wrapping a new external OpenGL framebuffer'')])"
  using assms
  by (simp add: ngl_resize_def ngl_set_capture_buffer_def ngl_set_scene_def ngl_draw_def
      ngl_gl_wrap_framebuffer_def)

theorem C1_unconfigured_calls_rejected_witness:
  "\<not> configured (ctx example_world)
   \<and> fst (ngl_resize example_impls example_world 800 600 None) = RET_ERR NGL_ERROR_INVALID_USAGE
   \<and> fst (snd (ngl_resize example_impls example_world 800 600 None)) = example_world
   \<and> fst (snd (ngl_set_capture_buffer example_impls example_world (Some 4096))) = example_world
   \<and> fst (snd (ngl_set_scene example_impls example_world (Some 1))) = example_world
   \<and> fst (snd (ngl_draw example_impls example_world 0)) = example_world
   \<and> fst (snd (ngl_gl_wrap_framebuffer example_impls example_world 7)) = example_world"
proof -
  have h: "\<not> configured (ctx example_world)"
    by (simp add: example_world_def ngl_create_def)
  show ?thesis
    using h C1_unconfigured_calls_rejected[OF h, of example_impls 800 600 None "Some 4096" "Some 1" 0 7]
    by simp
qed

subsection \<open>Failure of set_capture_buffer and wrap_external_framebuffer\<close>

lemma example_vk_world_eq:
  "example_vk_world = \<lparr> ctx = ngl_create\<lparr> api_impl := Some API_VK, configured := True \<rparr>, nodes = Map.empty \<rparr>"
  by (simp add: example_vk_world_def ngl_configure_def ngl_configure_checked_def example_world_def
      ngl_create_def example_vk_config_def config_zero_def example_build_def example_impls_def
      example_api_vk_def get_default_platform_def Let_def)

text \<open>
  C9, as stated, fails: on a context configured for a backend whose function table has no
  \<open>gl_wrap_framebuffer\<close> entry, wrap_external_framebuffer fails with
  \<open>NGL_ERROR_UNSUPPORTED\<close> and the context stays configured.
\<close>

theorem C9_wrap_failure_keeps_configured_counterexample:
  "fst (ngl_configure example_build example_impls example_world (Some example_vk_config)) = RET_OK
   \<and> configured (ctx example_vk_world)
   \<and> failed (fst (ngl_gl_wrap_framebuffer example_impls example_vk_world 7))
   \<and> configured (ctx (fst (snd (ngl_gl_wrap_framebuffer example_impls example_vk_world 7))))"
  apply (simp add: example_vk_world_eq)
  apply (simp add: ngl_configure_def ngl_configure_checked_def example_world_def
      ngl_create_def example_vk_config_def config_zero_def example_build_def example_impls_def
      example_api_vk_def get_default_platform_def Let_def ngl_gl_wrap_framebuffer_def)
  done

text \<open>
  C9, amended.  On a configured context: when the backend's set_capture_buffer entry fails,
  or when the backend's \<open>gl_wrap_framebuffer\<close> entry is called and fails, the public call
  returns that error with the \<open>configured\<close> flag cleared, and every later sequence of
  guarded calls returns \<open>NGL_ERROR_INVALID_USAGE\<close> for each call and leaves the world as it
  is.  When the backend has no \<open>gl_wrap_framebuffer\<close> entry, wrap_external_framebuffer
  returns \<open>NGL_ERROR_UNSUPPORTED\<close> and changes nothing: the context stays configured.
\<close>

theorem C9_failure_clears_configured:
  assumes "configured (ctx w)" and "api_impl (ctx w) = Some a"
  shows "(impl_set_capture_buffer (vt a) w buf = (r, w1, l) \<and> failed r \<longrightarrow>
            ngl_set_capture_buffer vt w buf = (r, w1\<lparr> ctx := (ctx w1)\<lparr> configured := False \<rparr> \<rparr>, l)
            \<and> (\<forall>cs. ngl_calls vt (w1\<lparr> ctx := (ctx w1)\<lparr> configured := False \<rparr> \<rparr>) cs
                   = (replicate (length cs) (RET_ERR NGL_ERROR_INVALID_USAGE),
                      w1\<lparr> ctx := (ctx w1)\<lparr> configured := False \<rparr> \<rparr>)))
       \<and> (impl_gl_wrap_framebuffer (vt a) = Some wrap \<and> wrap w fb = (r, w1, l) \<and> failed r \<longrightarrow>
            ngl_gl_wrap_framebuffer vt w fb = (r, w1\<lparr> ctx := (ctx w1)\<lparr> configured := False \<rparr> \<rparr>, l)
            \<and> (\<forall>cs. ngl_calls vt (w1\<lparr> ctx := (ctx w1)\<lparr> configured := False \<rparr> \<rparr>) cs
                   = (replicate (length cs) (RET_ERR NGL_ERROR_INVALID_USAGE),
                      w1\<lparr> ctx := (ctx w1)\<lparr> configured := False \<rparr> \<rparr>)))
       \<and> (impl_gl_wrap_framebuffer (vt a) = None \<longrightarrow>
            ngl_gl_wrap_framebuffer vt w fb =
              (RET_ERR NGL_ERROR_UNSUPPORTED, w,
               [(LOG_ERROR, ''wrapping external OpenGL framebuffer is not supported by context'')]))"
  using assms
  by (auto simp: ngl_set_capture_buffer_def ngl_gl_wrap_framebuffer_def unconfigured_calls)

lemma ex_gl_scb:
  "impl_set_capture_buffer (example_impls API_GL) example_gl_world (Some 4096) =
     (RET_ERR NGL_ERROR_UNSUPPORTED,
      \<lparr> ctx = ngl_create\<lparr> api_impl := Some API_GL, configured := True, scene := Some 1 \<rparr>,
        nodes = [1 \<mapsto> \<lparr> refcount = 2, attached = False \<rparr>] \<rparr>,
      [(LOG_ERROR, ''capture_buffer is not supported by onscreen context'')])"
  by (simp add: example_impls_def api_gl_def ngli_ctx_set_capture_buffer_def example_gl_world_def
      ngl_create_def ngli_gpu_ctx_set_capture_buffer_def gl_create_def example_onscreen_config_def
      config_zero_def example_env_def example_build_def gl_class_def gl_set_capture_buffer_def
      is_external_def ngli_ctx_reset_def reset_scene_def ngli_node_detach_ctx_def Let_def rnode_zero_def)


lemma ex_gl_wrap:
  "impl_gl_wrap_framebuffer (example_impls API_GL) = Some wrap \<Longrightarrow>
   wrap example_gl_world 7 =
     (RET_ERR NGL_ERROR_UNSUPPORTED, example_gl_world,
      [(LOG_ERROR, ''wrapping external OpenGL framebuffers is not supported by context'')])"
  by (auto simp add: example_impls_def api_gl_def example_gl_world_def
      ngl_create_def ngli_gpu_ctx_gl_wrap_framebuffer_def gl_create_def example_onscreen_config_def
      config_zero_def example_env_def Let_def)

theorem C9_failure_clears_configured_witness:
  "configured (ctx example_gl_world) \<and> api_impl (ctx example_gl_world) = Some API_GL
   \<and> failed (fst (impl_set_capture_buffer (example_impls API_GL) example_gl_world (Some 4096)))
   \<and> fst (ngl_set_capture_buffer example_impls example_gl_world (Some 4096)) = RET_ERR NGL_ERROR_UNSUPPORTED
   \<and> \<not> configured (ctx (fst (snd (ngl_set_capture_buffer example_impls example_gl_world (Some 4096)))))
   \<and> fst (ngl_calls example_impls
             (fst (snd (ngl_set_capture_buffer example_impls example_gl_world (Some 4096))))
             [Draw 0, Resize 800 600 None, SetScene None])
       = [RET_ERR NGL_ERROR_INVALID_USAGE, RET_ERR NGL_ERROR_INVALID_USAGE, RET_ERR NGL_ERROR_INVALID_USAGE]
   \<and> fst (ngl_gl_wrap_framebuffer example_impls example_gl_world 7) = RET_ERR NGL_ERROR_UNSUPPORTED
   \<and> \<not> configured (ctx (fst (snd (ngl_gl_wrap_framebuffer example_impls example_gl_world 7))))
   \<and> configured (ctx example_vk_world) \<and> impl_gl_wrap_framebuffer (example_impls API_VK) = None
   \<and> fst (snd (ngl_gl_wrap_framebuffer example_impls example_vk_world 7)) = example_vk_world"
proof -
  have c: "configured (ctx example_gl_world)" and a: "api_impl (ctx example_gl_world) = Some API_GL"
    by (simp_all add: example_gl_world_def ngl_create_def)
  obtain wrap where w: "impl_gl_wrap_framebuffer (example_impls API_GL) = Some wrap"
    by (simp add: example_impls_def api_gl_def)
  have c2: "configured (ctx example_vk_world)" and a2: "api_impl (ctx example_vk_world) = Some API_VK"
    by (simp_all add: example_vk_world_eq)
  have n: "impl_gl_wrap_framebuffer (example_impls API_VK) = None"
    by (simp add: example_impls_def example_api_vk_def)
  obtain w1 l1 where s1: "impl_set_capture_buffer (example_impls API_GL) example_gl_world (Some 4096)
      = (RET_ERR NGL_ERROR_UNSUPPORTED, w1, l1)"
    using ex_gl_scb by blast
  have f: "failed (RET_ERR NGL_ERROR_UNSUPPORTED)" by simp
  note t1 = C9_failure_clears_configured[OF c a, of example_impls "Some 4096"
      "RET_ERR NGL_ERROR_UNSUPPORTED" w1 l1 wrap 7]
  from t1 s1 f have r1: "ngl_set_capture_buffer example_impls example_gl_world (Some 4096)
      = (RET_ERR NGL_ERROR_UNSUPPORTED, w1\<lparr> ctx := (ctx w1)\<lparr> configured := False \<rparr> \<rparr>, l1)"
    and q1: "\<forall>cs. ngl_calls example_impls (w1\<lparr> ctx := (ctx w1)\<lparr> configured := False \<rparr> \<rparr>) cs
         = (replicate (length cs) (RET_ERR NGL_ERROR_INVALID_USAGE),
            w1\<lparr> ctx := (ctx w1)\<lparr> configured := False \<rparr> \<rparr>)"
    by blast+
  have k1: "fst (ngl_calls example_impls
             (fst (snd (ngl_set_capture_buffer example_impls example_gl_world (Some 4096))))
             [Draw 0, Resize 800 600 None, SetScene None])
       = [RET_ERR NGL_ERROR_INVALID_USAGE, RET_ERR NGL_ERROR_INVALID_USAGE, RET_ERR NGL_ERROR_INVALID_USAGE]"
    unfolding r1 using q1[rule_format, of "[Draw 0, Resize 800 600 None, SetScene None]"]
    by (simp add: numeral_3_eq_3 del: ngl_calls.simps)
  have s2: "wrap example_gl_world 7 = (RET_ERR NGL_ERROR_UNSUPPORTED, example_gl_world,
      [(LOG_ERROR, ''wrapping external OpenGL framebuffers is not supported by context'')])"
    by (rule ex_gl_wrap[OF w])
  note t2 = C9_failure_clears_configured[OF c a, of example_impls None
      "RET_ERR NGL_ERROR_UNSUPPORTED" example_gl_world _ wrap 7]
  from t2 w s2 f have r2: "ngl_gl_wrap_framebuffer example_impls example_gl_world 7
      = (RET_ERR NGL_ERROR_UNSUPPORTED,
         example_gl_world\<lparr> ctx := (ctx example_gl_world)\<lparr> configured := False \<rparr> \<rparr>,
         [(LOG_ERROR, ''wrapping external OpenGL framebuffers is not supported by context'')])"
    by blast
  note t3 = C9_failure_clears_configured[OF c2 a2, of example_impls None RET_OK example_vk_world "[]" wrap 7]
  from t3 n have r3: "ngl_gl_wrap_framebuffer example_impls example_vk_world 7 =
              (RET_ERR NGL_ERROR_UNSUPPORTED, example_vk_world,
               [(LOG_ERROR, ''wrapping external OpenGL framebuffer is not supported by context'')])"
    by blast
  show ?thesis
    unfolding r1 r2 r3 using c a c2 n s1 k1[unfolded r1] by simp
qed


subsection \<open>Reconfiguring a configured context\<close>

lemma ngli_ctx_reset_keep_scene:
  "gpu_ctx (ctx (ngli_ctx_reset w NGLI_ACTION_KEEP_SCENE)) = None
   \<and> scene (ctx (ngli_ctx_reset w NGLI_ACTION_KEEP_SCENE)) = scene (ctx w)
   \<and> ctx_config (ctx (ngli_ctx_reset w NGLI_ACTION_KEEP_SCENE)) = config_zero
   \<and> nodes (ngli_ctx_reset w NGLI_ACTION_KEEP_SCENE) =
       (case scene (ctx w) of None \<Rightarrow> nodes w | Some n \<Rightarrow> ngli_node_detach_ctx (nodes w) n)"
  by (simp add: ngli_ctx_reset_def reset_scene_def Let_def split: option.splits)

lemma checked_out_of_range:
  assumes "backend cfg = BACKEND_OUT_OF_RANGE k"
  shows "failed (fst (ngl_configure_checked b vt w0 (Some cfg)))
      \<and> fst (snd (ngl_configure_checked b vt w0 (Some cfg))) = w0"
proof (cases "platform cfg = NGL_PLATFORM_AUTO")
  case True
  then show ?thesis using assms
    by (cases "get_default_platform b") (simp_all add: ngl_configure_checked_def)
next
  case False
  then show ?thesis using assms
    by (cases "platform cfg") (simp_all add: ngl_configure_checked_def)
qed

text \<open>
  C10.  \<open>ngl_configure\<close> on a configured context first calls the backend's \<open>reset\<close> with
  \<open>NGLI_ACTION_KEEP_SCENE\<close> and clears \<open>configured\<close>, and only then looks at the new
  configuration: for every argument the result is that of configuring the reset,
  unconfigured context.  So a NULL configuration, a backend sub-configuration with automatic
  backend selection, or an unknown backend id returns an error and leaves the reset,
  unconfigured context behind.  When \<open>reset\<close> is \<open>ngli_ctx_reset\<close>, the GPU context is gone
  (NULL), the scene pointer is kept and the scene is detached.
\<close>

theorem C10_reconfigure_resets_first:
  assumes "configured (ctx w)" and "api_impl (ctx w) = Some a"
    and "impl_reset (vt a) w NGLI_ACTION_KEEP_SCENE = (w', l)"
  shows "(\<forall>cfg_opt. ngl_configure b vt w cfg_opt =
            (case ngl_configure_checked b vt (w'\<lparr> ctx := (ctx w')\<lparr> configured := False \<rparr> \<rparr>) cfg_opt
             of (r, w'', l', cfg') \<Rightarrow> (r, w'', l @ l', cfg')))
       \<and> ngl_configure b vt w None =
            (RET_ERR NGL_ERROR_INVALID_ARG, w'\<lparr> ctx := (ctx w')\<lparr> configured := False \<rparr> \<rparr>,
             l @ [(LOG_ERROR, ''context configuration cannot be NULL'')], None)
       \<and> (backend cfg = NGL_BACKEND_AUTO \<and> backend_config cfg \<noteq> None \<longrightarrow>
            ngl_configure b vt w (Some cfg) =
              (RET_ERR NGL_ERROR_INVALID_USAGE, w'\<lparr> ctx := (ctx w')\<lparr> configured := False \<rparr> \<rparr>,
               l @ [(LOG_ERROR, ''backend specific configuration is not allowed while automatic backend selection is used'')],
               Some cfg))
       \<and> (backend cfg = BACKEND_OUT_OF_RANGE k \<longrightarrow>
            failed (fst (ngl_configure b vt w (Some cfg)))
            \<and> fst (snd (ngl_configure b vt w (Some cfg))) = w'\<lparr> ctx := (ctx w')\<lparr> configured := False \<rparr> \<rparr>)
       \<and> (w' = ngli_ctx_reset w NGLI_ACTION_KEEP_SCENE \<longrightarrow>
            gpu_ctx (ctx w') = None \<and> scene (ctx w') = scene (ctx w)
            \<and> nodes w' = (case scene (ctx w) of None \<Rightarrow> nodes w
                           | Some n \<Rightarrow> ngli_node_detach_ctx (nodes w) n))"
proof -
  have g: "\<And>cfg_opt. ngl_configure b vt w cfg_opt =
            (case ngl_configure_checked b vt (w'\<lparr> ctx := (ctx w')\<lparr> configured := False \<rparr> \<rparr>) cfg_opt
             of (r, w'', l', cfg') \<Rightarrow> (r, w'', l @ l', cfg'))"
    using assms by (simp add: ngl_configure_def)
  have c1: "ngl_configure b vt w None =
            (RET_ERR NGL_ERROR_INVALID_ARG, w'\<lparr> ctx := (ctx w')\<lparr> configured := False \<rparr> \<rparr>,
             l @ [(LOG_ERROR, ''context configuration cannot be NULL'')], None)"
    by (simp add: g ngl_configure_checked_def)
  have c2: "backend cfg = NGL_BACKEND_AUTO \<and> backend_config cfg \<noteq> None \<longrightarrow>
            ngl_configure b vt w (Some cfg) =
              (RET_ERR NGL_ERROR_INVALID_USAGE, w'\<lparr> ctx := (ctx w')\<lparr> configured := False \<rparr> \<rparr>,
               l @ [(LOG_ERROR, ''backend specific configuration is not allowed while automatic backend selection is used'')],
               Some cfg)"
    by (simp add: g ngl_configure_checked_def)
  have c3: "backend cfg = BACKEND_OUT_OF_RANGE k \<longrightarrow>
            failed (fst (ngl_configure b vt w (Some cfg)))
            \<and> fst (snd (ngl_configure b vt w (Some cfg))) = w'\<lparr> ctx := (ctx w')\<lparr> configured := False \<rparr> \<rparr>"
    using checked_out_of_range[of cfg k b vt "w'\<lparr> ctx := (ctx w')\<lparr> configured := False \<rparr> \<rparr>"]
    by (simp add: g case_prod_beta)
  have c4: "w' = ngli_ctx_reset w NGLI_ACTION_KEEP_SCENE \<longrightarrow>
            gpu_ctx (ctx w') = None \<and> scene (ctx w') = scene (ctx w)
            \<and> nodes w' = (case scene (ctx w) of None \<Rightarrow> nodes w
                           | Some n \<Rightarrow> ngli_node_detach_ctx (nodes w) n)"
    using ngli_ctx_reset_keep_scene[of w] by simp
  from g have c0: "\<forall>cfg_opt. ngl_configure b vt w cfg_opt =
            (case ngl_configure_checked b vt (w'\<lparr> ctx := (ctx w')\<lparr> configured := False \<rparr> \<rparr>) cfg_opt
             of (r, w'', l', cfg') \<Rightarrow> (r, w'', l @ l', cfg'))"
    by blast
  show ?thesis
    using c0 c1 c2 c3 c4 by (intro conjI)
qed

lemma ex_gl_reset:
  "impl_reset (example_impls API_GL) example_gl_world NGLI_ACTION_KEEP_SCENE =
     (ngli_ctx_reset example_gl_world NGLI_ACTION_KEEP_SCENE, [])"
  by (simp add: example_impls_def api_gl_def)

theorem C10_reconfigure_resets_first_witness:
  "configured (ctx example_gl_world) \<and> api_impl (ctx example_gl_world) = Some API_GL
   \<and> gpu_ctx (ctx example_gl_world) \<noteq> None
   \<and> fst (ngl_configure example_build example_impls example_gl_world None) = RET_ERR NGL_ERROR_INVALID_ARG
   \<and> fst (ngl_configure example_build example_impls example_gl_world (Some example_bad_config))
        = RET_ERR NGL_ERROR_INVALID_USAGE
   \<and> \<not> configured (ctx (fst (snd (ngl_configure example_build example_impls example_gl_world None))))
   \<and> gpu_ctx (ctx (fst (snd (ngl_configure example_build example_impls example_gl_world None)))) = None
   \<and> scene (ctx (fst (snd (ngl_configure example_build example_impls example_gl_world None)))) = Some 1
   \<and> nodes (fst (snd (ngl_configure example_build example_impls example_gl_world None))) 1
        = Some \<lparr> refcount = 2, attached = False \<rparr>"
proof -
  have c: "configured (ctx example_gl_world)" and a: "api_impl (ctx example_gl_world) = Some API_GL"
    and g: "gpu_ctx (ctx example_gl_world) \<noteq> None" and sc: "scene (ctx example_gl_world) = Some 1"
    and nd: "nodes example_gl_world = [1 \<mapsto> \<lparr> refcount = 2, attached = True \<rparr>]"
    by (simp_all add: example_gl_world_def ngl_create_def)
  have bad: "backend example_bad_config = NGL_BACKEND_AUTO \<and> backend_config example_bad_config \<noteq> None"
    by (simp add: example_bad_config_def config_zero_def)
  note t = C10_reconfigure_resets_first[where vt = example_impls and a = API_GL
      and b = example_build and cfg = example_bad_config and k = 0, OF c a ex_gl_reset]
  note t1 = t[THEN conjunct2, THEN conjunct1]
  note t2 = t[THEN conjunct2, THEN conjunct2, THEN conjunct1, rule_format, OF bad]
  note t4 = t[THEN conjunct2, THEN conjunct2, THEN conjunct2, THEN conjunct2, rule_format, OF refl]
  have n1: "nodes (ngli_ctx_reset example_gl_world NGLI_ACTION_KEEP_SCENE) 1
      = Some \<lparr> refcount = 2, attached = False \<rparr>"
    using t4 sc nd by (simp add: ngli_node_detach_ctx_def)
  show ?thesis
    unfolding t1 t2 using c a g t4 sc n1 by simp
qed

subsection \<open>Operations a mode does not support\<close>

lemma world_gpu_ctx_same: "gpu_ctx (ctx w) = Some s \<Longrightarrow> w\<lparr> ctx := (ctx w)\<lparr> gpu_ctx := Some s \<rparr> \<rparr> = w"
  by (cases w) auto

text \<open>
  C3.  \<open>gl_resize\<close> on an offscreen context that is not external, and
  \<open>gl_set_capture_buffer\<close> on an external or an onscreen context, return
  \<open>NGL_ERROR_UNSUPPORTED\<close> with the GPU context exactly as it was, whatever the driver would
  answer: the platform resize is not called and no capture resource is touched.  Through
  \<open>ngli_ctx_resize\<close> the context is returned unchanged as well; \<open>ngli_ctx_set_capture_buffer\<close>
  passes the error on after resetting the context.
\<close>

theorem C3_mode_exclusivity:
  "(\<not> is_external (config s) \<and> offscreen (config s) \<longrightarrow>
      gl_resize d s w h vp =
        (RET_ERR NGL_ERROR_UNSUPPORTED, s,
         [(LOG_ERROR, ''resize operation is not supported by offscreen context'')]))
   \<and> (is_external (config s) \<longrightarrow>
      gl_set_capture_buffer b d s buf =
        (RET_ERR NGL_ERROR_UNSUPPORTED, s,
         [(LOG_ERROR, ''capture_buffer is not supported by external context'')]))
   \<and> (\<not> is_external (config s) \<and> \<not> offscreen (config s) \<longrightarrow>
      gl_set_capture_buffer b d s buf =
        (RET_ERR NGL_ERROR_UNSUPPORTED, s,
         [(LOG_ERROR, ''capture_buffer is not supported by onscreen context'')]))
   \<and> (gpu_ctx (ctx wd) = Some s \<and> backend_class e (backend (config s)) = Some (gl_class e name) \<longrightarrow>
        (\<not> is_external (config s) \<and> offscreen (config s) \<longrightarrow>
           ngli_ctx_resize e wd w h vp =
             (RET_ERR NGL_ERROR_UNSUPPORTED, wd,
              [(LOG_ERROR, ''resize operation is not supported by offscreen context'')]))
        \<and> (is_external (config s) \<or> \<not> offscreen (config s) \<longrightarrow>
             fst (ngli_ctx_set_capture_buffer e wd buf) = RET_ERR NGL_ERROR_UNSUPPORTED
             \<and> fst (snd (ngli_ctx_set_capture_buffer e wd buf)) = ngli_ctx_reset wd NGLI_ACTION_KEEP_SCENE))"
proof -
  have r: "\<not> is_external (config s) \<and> offscreen (config s) \<longrightarrow>
      gl_resize d s w h vp =
        (RET_ERR NGL_ERROR_UNSUPPORTED, s,
         [(LOG_ERROR, ''resize operation is not supported by offscreen context'')])" for d
    by (simp add: gl_resize_def)
  have c1: "is_external (config s) \<longrightarrow>
      gl_set_capture_buffer b d s buf =
        (RET_ERR NGL_ERROR_UNSUPPORTED, s,
         [(LOG_ERROR, ''capture_buffer is not supported by external context'')])" for b d
    by (simp add: gl_set_capture_buffer_def)
  have c2: "\<not> is_external (config s) \<and> \<not> offscreen (config s) \<longrightarrow>
      gl_set_capture_buffer b d s buf =
        (RET_ERR NGL_ERROR_UNSUPPORTED, s,
         [(LOG_ERROR, ''capture_buffer is not supported by onscreen context'')])" for b d
    by (simp add: gl_set_capture_buffer_def)
  have a: "gpu_ctx (ctx wd) = Some s \<and> backend_class e (backend (config s)) = Some (gl_class e name) \<longrightarrow>
        (\<not> is_external (config s) \<and> offscreen (config s) \<longrightarrow>
           ngli_ctx_resize e wd w h vp =
             (RET_ERR NGL_ERROR_UNSUPPORTED, wd,
              [(LOG_ERROR, ''resize operation is not supported by offscreen context'')]))
        \<and> (is_external (config s) \<or> \<not> offscreen (config s) \<longrightarrow>
             fst (ngli_ctx_set_capture_buffer e wd buf) = RET_ERR NGL_ERROR_UNSUPPORTED
             \<and> fst (snd (ngli_ctx_set_capture_buffer e wd buf)) = ngli_ctx_reset wd NGLI_ACTION_KEEP_SCENE)"
    using r[of "drv e"] c1[of "bld e" "drv e"] c2[of "bld e" "drv e"]
    by (auto simp: ngli_ctx_resize_def ngli_ctx_set_capture_buffer_def ngli_gpu_ctx_resize_def
        ngli_gpu_ctx_set_capture_buffer_def gl_class_def world_gpu_ctx_same)
  show ?thesis using r c1 c2 a by (intro conjI)
qed

lemma example_modes:
  "\<not> is_external (config (example_gpu_ctx example_offscreen_config))"
  "offscreen (config (example_gpu_ctx example_offscreen_config))"
  "is_external (config (example_gpu_ctx example_external_config))"
  "\<not> is_external (config (example_gpu_ctx example_onscreen_config))"
  "\<not> offscreen (config (example_gpu_ctx example_onscreen_config))"
  by (simp_all add: example_gpu_ctx_def gl_create_def example_offscreen_config_def
      example_external_config_def example_onscreen_config_def config_zero_def is_external_def)

theorem C3_mode_exclusivity_witness:
  "\<not> is_external (config (example_gpu_ctx example_offscreen_config))
   \<and> offscreen (config (example_gpu_ctx example_offscreen_config))
   \<and> gl_resize (example_driver {}) (example_gpu_ctx example_offscreen_config) 800 600 None =
        (RET_ERR NGL_ERROR_UNSUPPORTED, example_gpu_ctx example_offscreen_config,
         [(LOG_ERROR, ''resize operation is not supported by offscreen context'')])
   \<and> is_external (config (example_gpu_ctx example_external_config))
   \<and> gl_set_capture_buffer example_build (example_driver {}) (example_gpu_ctx example_external_config) (Some 4096) =
        (RET_ERR NGL_ERROR_UNSUPPORTED, example_gpu_ctx example_external_config,
         [(LOG_ERROR, ''capture_buffer is not supported by external context'')])
   \<and> \<not> offscreen (config (example_gpu_ctx example_onscreen_config))
   \<and> gl_set_capture_buffer example_build (example_driver {}) (example_gpu_ctx example_onscreen_config) (Some 4096) =
        (RET_ERR NGL_ERROR_UNSUPPORTED, example_gpu_ctx example_onscreen_config,
         [(LOG_ERROR, ''capture_buffer is not supported by onscreen context'')])
   \<and> gpu_ctx (ctx example_gl_world) = Some (example_gpu_ctx example_onscreen_config)
   \<and> fst (ngli_ctx_set_capture_buffer (example_env {}) example_gl_world (Some 4096))
        = RET_ERR NGL_ERROR_UNSUPPORTED"
proof -
  note m = example_modes
  have g: "gpu_ctx (ctx example_gl_world) = Some (example_gpu_ctx example_onscreen_config)"
    by (simp add: example_gl_world_def example_gpu_ctx_def)
  have k: "backend_class (example_env {}) (backend (config (example_gpu_ctx example_onscreen_config)))
      = Some (gl_class (example_env {}) ''OpenGL'')"
    by (simp add: example_gpu_ctx_def example_onscreen_config_def config_zero_def example_env_def
        example_build_def)
  note t1 = C3_mode_exclusivity[of "example_gpu_ctx example_offscreen_config" "example_driver {}"
      800 600 None example_build "Some 4096" example_gl_world "example_env {}" "''OpenGL''"]
  note t2 = C3_mode_exclusivity[of "example_gpu_ctx example_external_config" "example_driver {}"
      800 600 None example_build "Some 4096" example_gl_world "example_env {}" "''OpenGL''"]
  note t3 = C3_mode_exclusivity[of "example_gpu_ctx example_onscreen_config" "example_driver {}"
      800 600 None example_build "Some 4096" example_gl_world "example_env {}" "''OpenGL''"]
  from t1 m have a1: "gl_resize (example_driver {}) (example_gpu_ctx example_offscreen_config) 800 600 None =
        (RET_ERR NGL_ERROR_UNSUPPORTED, example_gpu_ctx example_offscreen_config,
         [(LOG_ERROR, ''resize operation is not supported by offscreen context'')])"
    by blast
  from t2 m have a2: "gl_set_capture_buffer example_build (example_driver {}) (example_gpu_ctx example_external_config) (Some 4096) =
        (RET_ERR NGL_ERROR_UNSUPPORTED, example_gpu_ctx example_external_config,
         [(LOG_ERROR, ''capture_buffer is not supported by external context'')])"
    by blast
  from t3 m have a3: "gl_set_capture_buffer example_build (example_driver {}) (example_gpu_ctx example_onscreen_config) (Some 4096) =
        (RET_ERR NGL_ERROR_UNSUPPORTED, example_gpu_ctx example_onscreen_config,
         [(LOG_ERROR, ''capture_buffer is not supported by onscreen context'')])"
    by blast
  from t3 m g k have a4: "fst (ngli_ctx_set_capture_buffer (example_env {}) example_gl_world (Some 4096))
        = RET_ERR NGL_ERROR_UNSUPPORTED"
    by blast
  show ?thesis using m a1 a2 a3 a4 g by (intro conjI)
qed

subsection \<open>Coordinate-system transforms\<close>

text \<open>
  C6.  With the offscreen flag set, the cull mode transform swaps front and back and keeps
  none, and the projection transform is the product of the constant matrix
  \<open>diag(1, -1, 1, 1)\<close> with the argument.  With the flag clear, both transforms return their
  argument and the render target UV matrix is the constant Y-flip.  Two contexts that agree
  on the offscreen flag give the same three transforms.
\<close>

theorem C6_transforms:
  "(offscreen (config s) \<longrightarrow>
      gl_transform_cull_mode s NGLI_CULL_MODE_FRONT_BIT = NGLI_CULL_MODE_BACK_BIT
      \<and> gl_transform_cull_mode s NGLI_CULL_MODE_BACK_BIT = NGLI_CULL_MODE_FRONT_BIT
      \<and> gl_transform_cull_mode s NGLI_CULL_MODE_NONE = NGLI_CULL_MODE_NONE
      \<and> gl_transform_projection_matrix mul s m = mul projection_flip_matrix m)
   \<and> (\<not> offscreen (config s) \<longrightarrow>
      gl_transform_cull_mode s cm = cm
      \<and> gl_transform_projection_matrix mul s m = m
      \<and> gl_get_rendertarget_uvcoord_matrix s m = uvcoord_flip_matrix)
   \<and> projection_flip_matrix = [1, 0, 0, 0,  0, - 1, 0, 0,  0, 0, 1, 0,  0, 0, 0, 1]
   \<and> uvcoord_flip_matrix = [1, 0, 0, 0,  0, - 1, 0, 0,  0, 0, 1, 0,  0, 1, 0, 1]
   \<and> (offscreen (config s) = offscreen (config s') \<longrightarrow>
        gl_transform_cull_mode s cm = gl_transform_cull_mode s' cm
        \<and> gl_transform_projection_matrix mul s m = gl_transform_projection_matrix mul s' m
        \<and> gl_get_rendertarget_uvcoord_matrix s m = gl_get_rendertarget_uvcoord_matrix s' m)"
  by (simp add: gl_transform_cull_mode_def gl_transform_projection_matrix_def
      gl_get_rendertarget_uvcoord_matrix_def projection_flip_matrix_def uvcoord_flip_matrix_def)


theorem C6_transforms_witness:
  "offscreen (config (example_gpu_ctx example_offscreen_config))
   \<and> gl_transform_cull_mode (example_gpu_ctx example_offscreen_config) NGLI_CULL_MODE_FRONT_BIT
        = NGLI_CULL_MODE_BACK_BIT
   \<and> gl_transform_projection_matrix (example_mat4_mul)
        (example_gpu_ctx example_offscreen_config) [1, 2, 3, 4, 5, 6, 7, 8, 9, 10, 11, 12, 13, 14, 15, 16]
        = [1, - 2, 3, 4, 5, - 6, 7, 8, 9, - 10, 11, 12, 13, - 14, 15, 16]
   \<and> \<not> offscreen (config (example_gpu_ctx example_onscreen_config))
   \<and> gl_transform_cull_mode (example_gpu_ctx example_onscreen_config) NGLI_CULL_MODE_FRONT_BIT
        = NGLI_CULL_MODE_FRONT_BIT
   \<and> gl_get_rendertarget_uvcoord_matrix (example_gpu_ctx example_onscreen_config) NGLI_MAT4_IDENTITY
        = [1, 0, 0, 0, 0, - 1, 0, 0, 0, 0, 1, 0, 0, 1, 0, 1]
   \<and> gl_transform_cull_mode (example_gpu_ctx example_onscreen_config) NGLI_CULL_MODE_BACK_BIT
        = gl_transform_cull_mode (example_gpu_ctx example_external_config) NGLI_CULL_MODE_BACK_BIT"
proof -
  have o: "offscreen (config (example_gpu_ctx example_offscreen_config))"
    and n: "\<not> offscreen (config (example_gpu_ctx example_onscreen_config))"
    and e: "offscreen (config (example_gpu_ctx example_onscreen_config))
            = offscreen (config (example_gpu_ctx example_external_config))"
    by (simp_all add: example_gpu_ctx_def example_offscreen_config_def example_onscreen_config_def
        example_external_config_def config_zero_def)
  note t1 = C6_transforms[where s = "example_gpu_ctx example_offscreen_config"
      and mul = "example_mat4_mul"
      and m = "[1, 2, 3, 4, 5, 6, 7, 8, 9, 10, 11, 12, 13, 14, 15, 16]"
      and cm = NGLI_CULL_MODE_FRONT_BIT and s' = "example_gpu_ctx example_offscreen_config"]
  note t2 = C6_transforms[where s = "example_gpu_ctx example_onscreen_config"
      and mul = "example_mat4_mul" and m = NGLI_MAT4_IDENTITY
      and cm = NGLI_CULL_MODE_FRONT_BIT and s' = "example_gpu_ctx example_external_config"]
  note t3 = C6_transforms[where s = "example_gpu_ctx example_onscreen_config"
      and mul = "example_mat4_mul" and m = NGLI_MAT4_IDENTITY
      and cm = NGLI_CULL_MODE_BACK_BIT and s' = "example_gpu_ctx example_external_config"]
  from t1 o have a1: "gl_transform_cull_mode (example_gpu_ctx example_offscreen_config) NGLI_CULL_MODE_FRONT_BIT
        = NGLI_CULL_MODE_BACK_BIT"
    and a2: "gl_transform_projection_matrix (example_mat4_mul)
        (example_gpu_ctx example_offscreen_config) [1, 2, 3, 4, 5, 6, 7, 8, 9, 10, 11, 12, 13, 14, 15, 16]
        = example_mat4_mul projection_flip_matrix [1, 2, 3, 4, 5, 6, 7, 8, 9, 10, 11, 12, 13, 14, 15, 16]"
    by blast+
  from t2 n have a3: "gl_transform_cull_mode (example_gpu_ctx example_onscreen_config) NGLI_CULL_MODE_FRONT_BIT
        = NGLI_CULL_MODE_FRONT_BIT"
    and a4: "gl_get_rendertarget_uvcoord_matrix (example_gpu_ctx example_onscreen_config) NGLI_MAT4_IDENTITY
        = uvcoord_flip_matrix"
    by blast+
  from t3 e have a5: "gl_transform_cull_mode (example_gpu_ctx example_onscreen_config) NGLI_CULL_MODE_BACK_BIT
        = gl_transform_cull_mode (example_gpu_ctx example_external_config) NGLI_CULL_MODE_BACK_BIT"
    by blast
  have p: "example_mat4_mul projection_flip_matrix [1, 2, 3, 4, 5, 6, 7, 8, 9, 10, 11, 12, 13, 14, 15, 16]
      = [1, - 2, 3, 4, 5, - 6, 7, 8, 9, - 10, 11, 12, 13, - 14, 15, (16::real)]"
    by (simp add: projection_flip_matrix_def example_mat4_mul_def)
  show ?thesis
    unfolding a1 a2 a3 a4 p using o n a5 by (simp add: uvcoord_flip_matrix_def)
qed

subsection \<open>The two default render targets\<close>

lemma failed_iff: "failed r \<longleftrightarrow> r \<noteq> RET_OK"
  by (cases r) simp_all

lemma colors_bookkeeping_frame:
  "rt_params (colors_bookkeeping cs i s) = rt_params s
   \<and> rt_width (colors_bookkeeping cs i s) = rt_width s
   \<and> rt_height (colors_bookkeeping cs i s) = rt_height s
   \<and> rt_wrapped (colors_bookkeeping cs i s) = rt_wrapped s"
  by (induction cs arbitrary: i s) (simp_all add: Let_def)

lemma rt_gl_init_ok:
  assumes "ngli_rendertarget_gl_init d gl s0 params = (RET_OK, rt, l)"
  shows "rt_params rt = params \<and> rt_width rt = rp_width params \<and> rt_height rt = rp_height params
         \<and> \<not> rt_wrapped rt"
  using assms
  by (auto simp: ngli_rendertarget_gl_init_def Let_def colors_bookkeeping_frame
      split: if_splits prod.splits option.splits)

lemma rt_gl_wrap_ok:
  assumes "ngli_rendertarget_gl_wrap gl s0 params fbo = (RET_OK, rt)"
  shows "rt_params rt = params \<and> rt_width rt = rp_width params \<and> rt_height rt = rp_height params
         \<and> rt_wrapped rt"
  using assms
  by (auto simp: ngli_rendertarget_gl_wrap_def Let_def split: if_splits list.splits)

lemma create_rendertarget_ok:
  assumes "create_rendertarget d s col rc ds lop = (RET_OK, rto, l)"
  shows "\<exists>rt. rto = Some rt \<and> rt_params rt = default_rt_params (config s) col rc ds lop
           \<and> rt_width rt = width (config s) \<and> rt_height rt = height (config s)
           \<and> rt_wrapped rt = (col = None)"
proof -
  from assms obtain gl where gl: "glcontext s = Some gl"
    by (auto simp: create_rendertarget_def Let_def split: if_splits option.splits)
  show ?thesis
  proof (cases "col = None")
    case True
    obtain r rt where w: "ngli_rendertarget_gl_wrap gl ngli_rendertarget_gl_create
        (default_rt_params (config s) col rc ds lop)
        (let default_fbo_id = ngli_glcontext_get_default_framebuffer d gl
         in case backend_config (config s) of None \<Rightarrow> default_fbo_id
            | Some cgl \<Rightarrow> if external cgl then external_framebuffer cgl else default_fbo_id) = (r, rt)"
      by fastforce
    with assms gl True have "r = RET_OK" "rto = Some rt"
      by (auto simp: create_rendertarget_def Let_def failed_iff split: if_splits)
    with rt_gl_wrap_ok[of gl _ _ _ rt] w True show ?thesis
      by (auto simp: default_rt_params_def)
  next
    case False
    obtain r rt l' where i: "ngli_rendertarget_gl_init d gl ngli_rendertarget_gl_create
        (default_rt_params (config s) col rc ds lop) = (r, rt, l')"
      using prod_cases3 by blast
    with assms gl False have "r = RET_OK" "rto = Some rt"
      by (auto simp: create_rendertarget_def Let_def failed_iff split: if_splits)
    with rt_gl_init_ok[of d gl _ _ rt] i False show ?thesis
      by (auto simp: default_rt_params_def)
  qed
qed


lemma create_default_rendertargets_ok:
  assumes "create_default_rendertargets d s col rc ds = (RET_OK, s', l)"
  shows "\<exists>rt rtl. s' = s\<lparr> default_rt := Some rt, default_rt_load := Some rtl \<rparr>
           \<and> rt_params rt = default_rt_params (config s) col rc ds NGLI_LOAD_OP_CLEAR
           \<and> rt_params rtl = default_rt_params (config s) col rc ds NGLI_LOAD_OP_LOAD
           \<and> rt_width rt = width (config s) \<and> rt_height rt = height (config s)
           \<and> rt_width rtl = width (config s) \<and> rt_height rtl = height (config s)
           \<and> rt_wrapped rt = rt_wrapped rtl"
proof -
  obtain r1 rto1 l1 where c1: "create_rendertarget d s col rc ds NGLI_LOAD_OP_CLEAR = (r1, rto1, l1)"
    using prod_cases3 by blast
  with assms have r1: "r1 = RET_OK"
    by (auto simp: create_default_rendertargets_def Let_def failed_iff split: if_splits)
  obtain r2 rto2 l2 where c2: "create_rendertarget d (s\<lparr> default_rt := rto1 \<rparr>) col rc ds NGLI_LOAD_OP_LOAD
      = (r2, rto2, l2)"
    using prod_cases3 by blast
  with assms c1 r1 have r2: "r2 = RET_OK" and s': "s' = s\<lparr> default_rt := rto1, default_rt_load := rto2 \<rparr>"
    by (auto simp: create_default_rendertargets_def Let_def failed_iff split: if_splits)
  from create_rendertarget_ok[OF c1[unfolded r1]] create_rendertarget_ok[OF c2[unfolded r2]] s'
  show ?thesis by auto
qed

lemma paired_from_params:
  assumes "default_rt s = Some rt" "default_rt_load s = Some rtl"
    "rt_params rt = default_rt_params cfg col rc ds NGLI_LOAD_OP_CLEAR"
    "rt_params rtl = default_rt_params cfg col rc ds NGLI_LOAD_OP_LOAD"
    "rt_width rt = width (config s)" "rt_height rt = height (config s)"
    "rt_width rtl = width (config s)" "rt_height rtl = height (config s)"
    "rt_wrapped rt = rt_wrapped rtl"
  shows "default_rendertargets_paired s"
  using assms by (simp add: default_rendertargets_paired_def default_rt_params_def with_load_op_def)

lemma paired_frame:
  assumes "default_rt s' = default_rt s" "default_rt_load s' = default_rt_load s"
    "width (config s') = width (config s)" "height (config s') = height (config s)"
  shows "default_rendertargets_paired s' = default_rendertargets_paired s"
  using assms by (simp add: default_rendertargets_paired_def split: option.splits)

lemma create_default_rendertargets_paired:
  assumes "create_default_rendertargets d s col rc ds = (RET_OK, s', l)"
  shows "default_rendertargets_paired s' \<and> config s' = config s"
proof -
  from create_default_rendertargets_ok[OF assms] obtain rt rtl where
    h: "s' = s\<lparr> default_rt := Some rt, default_rt_load := Some rtl \<rparr>"
       "rt_params rt = default_rt_params (config s) col rc ds NGLI_LOAD_OP_CLEAR"
       "rt_params rtl = default_rt_params (config s) col rc ds NGLI_LOAD_OP_LOAD"
       "rt_width rt = width (config s)" "rt_height rt = height (config s)"
       "rt_width rtl = width (config s)" "rt_height rtl = height (config s)"
       "rt_wrapped rt = rt_wrapped rtl"
    by blast
  have "default_rendertargets_paired s'"
    by (rule paired_from_params[of s' rt rtl "config s" col rc ds]) (use h in simp_all)
  with h show ?thesis by simp
qed


lemma create_texture_ok:
  "create_texture d s fmt smp = (r, t) \<Longrightarrow> \<not> failed r \<Longrightarrow> r = RET_OK"
  by (auto simp: create_texture_def Let_def failed_iff split: if_splits prod.splits)

lemma corevideo_color_config:
  "corevideo_color b d s buf = (r, s', l) \<Longrightarrow> config s' = config s"
  by (auto simp: corevideo_color_def Let_def split: option.splits prod.splits if_splits)

lemma paired_capture_func:
  "default_rendertargets_paired (s\<lparr> capture_func := x \<rparr>) = default_rendertargets_paired s"
  by (rule paired_frame) simp_all

lemma offscreen_rendertarget_init_targets_paired:
  assumes "offscreen_rendertarget_init_targets b d s = (RET_OK, s', l)"
  shows "default_rendertargets_paired s'"
  using assms
  by (auto simp: offscreen_rendertarget_init_targets_def Let_def failed_iff paired_capture_func
      split: option.splits prod.splits if_splits
      dest!: create_default_rendertargets_paired)

lemma offscreen_color_init_config:
  "config (fst (snd (offscreen_color_init b d s))) = config s"
proof -
  have "config (fst (snd (corevideo_color b d s buf))) = config s" for buf
    using corevideo_color_config[of b d s buf] by (metis prod.collapse)
  then show ?thesis
    by (simp add: offscreen_color_init_def Let_def case_prod_beta)
qed

lemma create_default_rendertargets_config:
  "config (fst (snd (create_default_rendertargets d s col rc ds))) = config s"
  by (simp add: create_default_rendertargets_def Let_def case_prod_beta)

lemma offscreen_targets_config:
  "config (fst (snd (offscreen_rendertarget_init_targets b d s))) = config s"
proof -
  obtain r1 s2 l1 where c: "offscreen_color_init b d s = (r1, s2, l1)" using prod_cases3 by blast
  from offscreen_color_init_config[of b d s] c have c2: "config s2 = config s" by simp
  show ?thesis
    by (simp add: offscreen_rendertarget_init_targets_def Let_def c c2 case_prod_beta
        create_default_rendertargets_config)
qed

lemma offscreen_rendertarget_init_paired:
  assumes "offscreen_rendertarget_init b d s = (RET_OK, s', l)"
  shows "default_rendertargets_paired s'"
  using assms
  by (auto simp: offscreen_rendertarget_init_def Let_def
      split: option.splits prod.splits
      dest!: offscreen_rendertarget_init_targets_paired)

lemma paired_config_update:
  "width c = width (config s) \<Longrightarrow> height c = height (config s) \<Longrightarrow>
     default_rendertargets_paired (s\<lparr> config := c \<rparr>) = default_rendertargets_paired s"
  by (rule paired_frame) simp_all

lemma wrap_framebuffer_paired:
  assumes "ngli_gpu_ctx_gl_wrap_framebuffer d s fbo = (RET_OK, s', l)"
  shows "default_rendertargets_paired s'"
  using assms
  by (auto simp: ngli_gpu_ctx_gl_wrap_framebuffer_def Let_def failed_iff paired_config_update
      split: option.splits prod.splits if_splits
      dest!: create_default_rendertargets_paired)

lemma timer_init_paired:
  "timer_init d s = (r, s') \<Longrightarrow> default_rendertargets_paired s' = default_rendertargets_paired s"
  by (rule paired_frame) (auto simp: timer_init_def split: option.splits if_splits)

lemma gl_init_finish_paired:
  "default_rendertargets_paired (gl_init_finish gl s) = default_rendertargets_paired s"
  by (rule paired_frame)
     (simp_all add: gl_init_finish_def Let_def gpu_ctx_info_init_def gl_set_viewport_def
        gl_set_scissor_def split: prod.splits)

lemma gl_init_paired:
  assumes "gl_init b d s = (RET_OK, s', l)"
  shows "default_rendertargets_paired s'"
  using assms
  by (auto simp: gl_init_def Let_def failed_iff onscreen_rendertarget_init_def gl_init_finish_paired
      split: option.splits prod.splits if_splits
      dest!: wrap_framebuffer_paired offscreen_rendertarget_init_paired
        create_default_rendertargets_paired timer_init_paired)

lemma resized_rendertarget_simps:
  "rt_width (resized_rendertarget rt cfg fbo) = width cfg"
  "rt_height (resized_rendertarget rt cfg fbo) = height cfg"
  "rt_params (resized_rendertarget rt cfg fbo) = rt_params rt"
  "rt_wrapped (resized_rendertarget rt cfg fbo) = rt_wrapped rt"
  by (simp_all add: resized_rendertarget_def split: option.splits)

lemma gl_resize_finish_config:
  "config (fst (snd (gl_resize_finish d s ext vp))) = config s
   \<and> glcontext (fst (snd (gl_resize_finish d s ext vp))) = glcontext s"
  by (simp add: gl_resize_finish_def Let_def gl_set_viewport_def gl_set_scissor_def
        split: option.splits)

lemma gl_resize_finish_rts:
  assumes "fst (gl_resize_finish d s ext vp) = RET_OK"
  shows "\<exists>rt rtl fbo. default_rt s = Some rt \<and> default_rt_load s = Some rtl
        \<and> default_rt (fst (snd (gl_resize_finish d s ext vp)))
             = Some (resized_rendertarget rt (config s) fbo)
        \<and> default_rt_load (fst (snd (gl_resize_finish d s ext vp)))
             = Some (resized_rendertarget rtl (config s) fbo)"
  using assms
  by (cases "default_rt s"; cases "default_rt_load s")
     (auto simp: gl_resize_finish_def Let_def gl_set_viewport_def gl_set_scissor_def
        split: if_splits)

lemma paired_params:
  "default_rendertargets_paired s \<Longrightarrow>
     \<exists>rt rtl. default_rt s = Some rt \<and> default_rt_load s = Some rtl
            \<and> with_load_op NGLI_LOAD_OP_CLEAR (rt_params rt) = rt_params rt
            \<and> with_load_op NGLI_LOAD_OP_LOAD (rt_params rt) = rt_params rtl
            \<and> rp_colors (rt_params rt) \<noteq> [] \<and> rt_wrapped rt = rt_wrapped rtl"
  by (auto simp: default_rendertargets_paired_def split: option.splits)

lemma gl_resize_finish_dims:
  assumes "fst (gl_resize_finish d s ext vp) = RET_OK"
  shows "(\<exists>rt rtl. default_rt (fst (snd (gl_resize_finish d s ext vp))) = Some rt
        \<and> default_rt_load (fst (snd (gl_resize_finish d s ext vp))) = Some rtl
        \<and> rt_width rt = width (config s) \<and> rt_height rt = height (config s)
        \<and> rt_width rtl = width (config s) \<and> rt_height rtl = height (config s))
     \<and> ((\<exists>rt rtl. default_rt s = Some rt \<and> default_rt_load s = Some rtl
            \<and> with_load_op NGLI_LOAD_OP_CLEAR (rt_params rt) = rt_params rt
            \<and> with_load_op NGLI_LOAD_OP_LOAD (rt_params rt) = rt_params rtl
            \<and> rp_colors (rt_params rt) \<noteq> [] \<and> rt_wrapped rt = rt_wrapped rtl)
          \<longrightarrow> default_rendertargets_paired (fst (snd (gl_resize_finish d s ext vp))))"
proof -
  from gl_resize_finish_rts[OF assms] obtain rt rtl fbo where
    a: "default_rt s = Some rt" "default_rt_load s = Some rtl"
       "default_rt (fst (snd (gl_resize_finish d s ext vp))) = Some (resized_rendertarget rt (config s) fbo)"
       "default_rt_load (fst (snd (gl_resize_finish d s ext vp))) = Some (resized_rendertarget rtl (config s) fbo)"
    by blast
  have c: "config (fst (snd (gl_resize_finish d s ext vp))) = config s"
    using gl_resize_finish_config[of d s ext vp] by simp
  show ?thesis
    using a by (simp add: default_rendertargets_paired_def c resized_rendertarget_simps)
qed

lemma gl_resize_ok:
  assumes "fst (gl_resize d s w h vp) = RET_OK"
  shows "(\<exists>rt rtl. default_rt (fst (snd (gl_resize d s w h vp))) = Some rt
        \<and> default_rt_load (fst (snd (gl_resize d s w h vp))) = Some rtl
        \<and> rt_width rt = width (config (fst (snd (gl_resize d s w h vp))))
        \<and> rt_height rt = height (config (fst (snd (gl_resize d s w h vp))))
        \<and> rt_width rtl = width (config (fst (snd (gl_resize d s w h vp))))
        \<and> rt_height rtl = height (config (fst (snd (gl_resize d s w h vp)))))
     \<and> (is_external (config s) \<longrightarrow>
          width (config (fst (snd (gl_resize d s w h vp)))) = w
          \<and> height (config (fst (snd (gl_resize d s w h vp)))) = h)
     \<and> (\<not> is_external (config s) \<longrightarrow>
          (\<exists>gl. glcontext (fst (snd (gl_resize d s w h vp))) = Some gl
                \<and> width (config (fst (snd (gl_resize d s w h vp)))) = gl_width gl
                \<and> height (config (fst (snd (gl_resize d s w h vp)))) = gl_height gl))
     \<and> (default_rendertargets_paired s \<longrightarrow>
          default_rendertargets_paired (fst (snd (gl_resize d s w h vp))))"
proof (cases "is_external (config s)")
  case True
  define s0 where "s0 = s\<lparr> config := (config s)\<lparr> width := w, height := h \<rparr> \<rparr>"
  from True have e: "gl_resize d s w h vp = gl_resize_finish d s0 True vp"
    by (simp add: gl_resize_def Let_def s0_def)
  from assms e have f: "fst (gl_resize_finish d s0 True vp) = RET_OK" by simp
  have c: "config s0 = (config s)\<lparr> width := w, height := h \<rparr>"
    and r: "default_rt s0 = default_rt s" "default_rt_load s0 = default_rt_load s"
    by (simp_all add: s0_def)
  have k: "config (fst (snd (gl_resize_finish d s0 True vp))) = config s0"
    using gl_resize_finish_config[of d s0 True vp] by simp
  from gl_resize_finish_dims[OF f] paired_params[of s] True
  show ?thesis unfolding e k by (auto simp: c r)
next
  case False
  with assms obtain gl where g: "glcontext s = Some gl" and o: "\<not> offscreen (config s)"
    by (cases "glcontext s"; cases "offscreen (config s)") (simp_all add: gl_resize_def Let_def)
  obtain r gl' where n: "ngli_glcontext_resize d gl w h = (r, gl')" by fastforce
  with assms False g o have r: "r = RET_OK"
    by (cases r) (simp_all add: gl_resize_def Let_def)
  define s0 where "s0 = s\<lparr> glcontext := Some gl',
                  config := (config s)\<lparr> width := gl_width gl', height := gl_height gl' \<rparr> \<rparr>"
  from False g o n r have e: "gl_resize d s w h vp = gl_resize_finish d s0 False vp"
    by (simp add: gl_resize_def Let_def s0_def)
  from assms e have f: "fst (gl_resize_finish d s0 False vp) = RET_OK" by simp
  have c: "config s0 = (config s)\<lparr> width := gl_width gl', height := gl_height gl' \<rparr>"
    and rr: "default_rt s0 = default_rt s" "default_rt_load s0 = default_rt_load s"
    and gg: "glcontext s0 = Some gl'"
    by (simp_all add: s0_def)
  have k: "config (fst (snd (gl_resize_finish d s0 False vp))) = config s0"
    "glcontext (fst (snd (gl_resize_finish d s0 False vp))) = glcontext s0"
    using gl_resize_finish_config[of d s0 False vp] by simp_all
  from gl_resize_finish_dims[OF f] paired_params[of s] False
  show ?thesis unfolding e k by (auto simp: c rr gg)
qed

lemma reset_scene_gpu_ctx: "gpu_ctx (ctx (reset_scene w a)) = gpu_ctx (ctx w)"
  by (simp add: reset_scene_def Let_def split: option.splits)

lemma set_scene_gpu_ctx:
  "gpu_ctx (ctx (fst (snd (ngli_ctx_set_scene e w sc)))) = gpu_ctx (ctx w)"
  by (simp add: ngli_ctx_set_scene_def Let_def reset_scene_gpu_ctx
      split: option.splits prod.splits)

lemma ctx_configure_gpu_ctx:
  assumes "fst (ngli_ctx_configure e w cfg) = RET_OK"
  shows "\<exists>g0 g1. ngli_gpu_ctx_create e cfg = Some g0
           \<and> fst (ngli_gpu_ctx_init e g0) = RET_OK
           \<and> g1 = fst (snd (ngli_gpu_ctx_init e g0))
           \<and> gpu_ctx (ctx (fst (snd (ngli_ctx_configure e w cfg)))) = Some g1"
proof -
  from assms obtain g0 where c: "ngli_gpu_ctx_create e cfg = Some g0"
    and cc: "\<not> failed (ngli_config_copy e cfg)"
    by (cases "ngli_gpu_ctx_create e cfg"; cases "failed (ngli_config_copy e cfg)")
       (simp_all add: ngli_ctx_configure_def Let_def)
  obtain r1 g1 l1 where i: "ngli_gpu_ctx_init e g0 = (r1, g1, l1)"
    using prod_cases3 by blast
  from assms c cc i have r1: "r1 = RET_OK"
    by (cases r1) (simp_all add: ngli_ctx_configure_def Let_def)
  define w5 where "w5 = w\<lparr> ctx := (ctx w)\<lparr> ctx_config := cfg, gpu_ctx := Some g1, pgcache_ready := True,
      projection_matrix_stack := [ngli_gpu_ctx_transform_projection_matrix e g1 NGLI_MAT4_IDENTITY],
      scene := None \<rparr> \<rparr>"
  have g5: "gpu_ctx (ctx w5) = Some g1" by (simp add: w5_def)
  obtain r2 w6 l2 where s: "ngli_ctx_set_scene e w5 (scene (ctx w)) = (r2, w6, l2)"
    using prod_cases3 by blast
  from set_scene_gpu_ctx[of e w5 "scene (ctx w)"] s g5 have g6: "gpu_ctx (ctx w6) = Some g1" by simp
  from assms c cc i r1 s g6 have "gpu_ctx (ctx (fst (snd (ngli_ctx_configure e w cfg)))) = Some g1"
    by (auto simp: ngli_ctx_configure_def Let_def w5_def failed_iff split: if_splits option.splits)
  with c i r1 show ?thesis by simp
qed

lemma ctx_configure_paired:
  assumes "fst (ngli_ctx_configure e w cfg) = RET_OK"
    and "backend cfg = NGL_BACKEND_OPENGL \<or> backend cfg = NGL_BACKEND_OPENGLES"
  shows "\<exists>g. gpu_ctx (ctx (fst (snd (ngli_ctx_configure e w cfg)))) = Some g
            \<and> default_rendertargets_paired g"
proof -
  from ctx_configure_gpu_ctx[OF assms(1)] obtain g0 where
    c: "ngli_gpu_ctx_create e cfg = Some g0" and i: "fst (ngli_gpu_ctx_init e g0) = RET_OK"
    and g: "gpu_ctx (ctx (fst (snd (ngli_ctx_configure e w cfg)))) = Some (fst (snd (ngli_gpu_ctx_init e g0)))"
    by blast
  from c assms(2) have b: "backend (config g0) = backend cfg"
    by (auto simp: ngli_gpu_ctx_create_def split: option.splits if_splits)
  from c assms(2) b have "ngli_gpu_ctx_init e g0 = gl_init (bld e) (drv e) g0"
    by (auto simp: ngli_gpu_ctx_create_def ngli_gpu_ctx_init_def gl_class_def split: if_splits)
  with i have "default_rendertargets_paired (fst (snd (ngli_gpu_ctx_init e g0)))"
    using gl_init_paired[of "bld e" "drv e" g0] by (metis prod.collapse)
  with g show ?thesis by simp
qed

lemmas ex_defs = example_gpu_ctx_def gl_create_def example_offscreen_config_def
  example_onscreen_config_def example_external_config_def config_zero_def
  is_external_def example_driver_def glcontext_params_of_def example_glcontext_def
  example_texture_def limits_zero_def example_build_def

lemmas gl_defs = gl_init_def Let_def offscreen_rendertarget_init_def offscreen_rendertarget_init_targets_def offscreen_color_init_def onscreen_rendertarget_init_def
  create_texture_def create_default_rendertargets_def create_rendertarget_def default_rt_params_def
  ngli_rendertarget_gl_init_def ngli_rendertarget_gl_wrap_def require_resolve_fbo_def colors_in_use_def create_fbo_def
  create_fbo_depth_stencil_def ngli_rendertarget_gl_create_def select_invalidate_def
  select_clear_def color_clear_flags_def depth_stencil_clear_flags_def timer_init_def
  ngli_gpu_ctx_gl_wrap_framebuffer_def components_def attachment_zero_def

lemma ex_init_off:
  "fst (gl_init example_build (example_driver {NGLI_FEATURE_GL_FRAMEBUFFER_OBJECT})
         (example_gpu_ctx example_offscreen_config)) = RET_OK"
  by (simp add: ex_defs gl_defs)

lemma ex_init_on:
  "fst (gl_init example_build (example_driver {NGLI_FEATURE_GL_FRAMEBUFFER_OBJECT})
         (example_gpu_ctx example_onscreen_config)) = RET_OK"
  by (simp add: ex_defs gl_defs)

lemma ex_init_ext:
  "fst (gl_init example_build (example_driver {NGLI_FEATURE_GL_FRAMEBUFFER_OBJECT})
         (example_gpu_ctx example_external_config)) = RET_OK"
  by (simp add: ex_defs gl_defs)

text \<open>
  C2.  When \<open>gl_init\<close> succeeds, in external, offscreen or onscreen mode, the context holds
  both default render targets and they are paired: same attachments and parameters except
  for the load operation (\<open>CLEAR\<close> in the first, \<open>LOAD\<close> in the second), and both record the
  width and height of the context's configuration as \<open>gl_init\<close> leaves it.  The same holds
  for the GPU context that a successful \<open>ngli_ctx_configure\<close> with an OpenGL backend stores.
  When \<open>gl_resize\<close> succeeds, both targets record the new configured width and height (the
  requested ones for an external context, the platform context's own ones otherwise), and a
  paired context stays paired.
\<close>

theorem C2_default_rendertargets_paired:
  "(fst (gl_init b d s) = RET_OK \<longrightarrow> default_rendertargets_paired (fst (snd (gl_init b d s))))
   \<and> (fst (ngli_ctx_configure e w cfg) = RET_OK
        \<and> (backend cfg = NGL_BACKEND_OPENGL \<or> backend cfg = NGL_BACKEND_OPENGLES) \<longrightarrow>
        (\<exists>g. gpu_ctx (ctx (fst (snd (ngli_ctx_configure e w cfg)))) = Some g
              \<and> default_rendertargets_paired g))
   \<and> (fst (gl_resize d s wd ht vp) = RET_OK \<longrightarrow>
        (\<exists>rt rtl. default_rt (fst (snd (gl_resize d s wd ht vp))) = Some rt
            \<and> default_rt_load (fst (snd (gl_resize d s wd ht vp))) = Some rtl
            \<and> rt_width rt = width (config (fst (snd (gl_resize d s wd ht vp))))
            \<and> rt_height rt = height (config (fst (snd (gl_resize d s wd ht vp))))
            \<and> rt_width rtl = width (config (fst (snd (gl_resize d s wd ht vp))))
            \<and> rt_height rtl = height (config (fst (snd (gl_resize d s wd ht vp)))))
        \<and> (is_external (config s) \<longrightarrow>
              width (config (fst (snd (gl_resize d s wd ht vp)))) = wd
              \<and> height (config (fst (snd (gl_resize d s wd ht vp)))) = ht)
        \<and> (\<not> is_external (config s) \<longrightarrow>
              (\<exists>gl. glcontext (fst (snd (gl_resize d s wd ht vp))) = Some gl
                    \<and> width (config (fst (snd (gl_resize d s wd ht vp)))) = gl_width gl
                    \<and> height (config (fst (snd (gl_resize d s wd ht vp)))) = gl_height gl))
        \<and> (default_rendertargets_paired s \<longrightarrow>
              default_rendertargets_paired (fst (snd (gl_resize d s wd ht vp)))))"
proof (intro conjI impI)
  assume "fst (gl_init b d s) = RET_OK"
  then show "default_rendertargets_paired (fst (snd (gl_init b d s)))"
    using gl_init_paired[of b d s] by (metis prod.collapse)
next
  assume "fst (ngli_ctx_configure e w cfg) = RET_OK
        \<and> (backend cfg = NGL_BACKEND_OPENGL \<or> backend cfg = NGL_BACKEND_OPENGLES)"
  then show "\<exists>g. gpu_ctx (ctx (fst (snd (ngli_ctx_configure e w cfg)))) = Some g
              \<and> default_rendertargets_paired g"
    using ctx_configure_paired[of e w cfg] by blast
next
  assume a: "fst (gl_resize d s wd ht vp) = RET_OK"
  note r = gl_resize_ok[OF a]
  show "\<exists>rt rtl. default_rt (fst (snd (gl_resize d s wd ht vp))) = Some rt
            \<and> default_rt_load (fst (snd (gl_resize d s wd ht vp))) = Some rtl
            \<and> rt_width rt = width (config (fst (snd (gl_resize d s wd ht vp))))
            \<and> rt_height rt = height (config (fst (snd (gl_resize d s wd ht vp))))
            \<and> rt_width rtl = width (config (fst (snd (gl_resize d s wd ht vp))))
            \<and> rt_height rtl = height (config (fst (snd (gl_resize d s wd ht vp))))"
    using r by blast
  { assume "is_external (config s)"
    with r show "width (config (fst (snd (gl_resize d s wd ht vp)))) = wd" by blast }
  { assume "is_external (config s)"
    with r show "height (config (fst (snd (gl_resize d s wd ht vp)))) = ht" by blast }
  { assume "\<not> is_external (config s)"
    with r show "\<exists>gl. glcontext (fst (snd (gl_resize d s wd ht vp))) = Some gl
                    \<and> width (config (fst (snd (gl_resize d s wd ht vp)))) = gl_width gl
                    \<and> height (config (fst (snd (gl_resize d s wd ht vp)))) = gl_height gl" by blast }
  { assume "default_rendertargets_paired s"
    with r show "default_rendertargets_paired (fst (snd (gl_resize d s wd ht vp)))" by blast }
qed

lemma ex_resize_on:
  "fst (gl_resize (example_driver {NGLI_FEATURE_GL_FRAMEBUFFER_OBJECT}) example_onscreen_gpu_ctx 800 600 None)
     = RET_OK"
  by (simp add: example_onscreen_gpu_ctx_def ex_defs gl_defs gl_resize_def gl_resize_finish_def
      gl_init_finish_def gpu_ctx_info_init_def gl_set_viewport_def gl_set_scissor_def)

lemma ex_resize_on_cfg:
  "width (config (fst (snd (gl_resize (example_driver {NGLI_FEATURE_GL_FRAMEBUFFER_OBJECT})
       example_onscreen_gpu_ctx 800 600 None)))) = 800"
  by (simp add: example_onscreen_gpu_ctx_def ex_defs gl_defs gl_resize_def gl_resize_finish_def
      gl_init_finish_def gpu_ctx_info_init_def gl_set_viewport_def gl_set_scissor_def)

theorem C2_default_rendertargets_paired_witness:
  "fst (gl_init example_build (example_driver {NGLI_FEATURE_GL_FRAMEBUFFER_OBJECT})
          (example_gpu_ctx example_offscreen_config)) = RET_OK
   \<and> default_rendertargets_paired
        (fst (snd (gl_init example_build (example_driver {NGLI_FEATURE_GL_FRAMEBUFFER_OBJECT})
                     (example_gpu_ctx example_offscreen_config))))
   \<and> fst (gl_init example_build (example_driver {NGLI_FEATURE_GL_FRAMEBUFFER_OBJECT})
          (example_gpu_ctx example_external_config)) = RET_OK
   \<and> default_rendertargets_paired
        (fst (snd (gl_init example_build (example_driver {NGLI_FEATURE_GL_FRAMEBUFFER_OBJECT})
                     (example_gpu_ctx example_external_config))))
   \<and> default_rendertargets_paired example_onscreen_gpu_ctx
   \<and> fst (gl_resize (example_driver {NGLI_FEATURE_GL_FRAMEBUFFER_OBJECT}) example_onscreen_gpu_ctx 800 600 None)
        = RET_OK
   \<and> default_rendertargets_paired
        (fst (snd (gl_resize (example_driver {NGLI_FEATURE_GL_FRAMEBUFFER_OBJECT})
                     example_onscreen_gpu_ctx 800 600 None)))
   \<and> width (config (fst (snd (gl_resize (example_driver {NGLI_FEATURE_GL_FRAMEBUFFER_OBJECT})
                     example_onscreen_gpu_ctx 800 600 None)))) = 800"
proof -
  note t1 = C2_default_rendertargets_paired[where b = example_build
      and d = "example_driver {NGLI_FEATURE_GL_FRAMEBUFFER_OBJECT}"
      and s = "example_gpu_ctx example_offscreen_config", THEN conjunct1, rule_format, OF ex_init_off]
  note t2 = C2_default_rendertargets_paired[where b = example_build
      and d = "example_driver {NGLI_FEATURE_GL_FRAMEBUFFER_OBJECT}"
      and s = "example_gpu_ctx example_external_config", THEN conjunct1, rule_format, OF ex_init_ext]
  note t3 = C2_default_rendertargets_paired[where b = example_build
      and d = "example_driver {NGLI_FEATURE_GL_FRAMEBUFFER_OBJECT}"
      and s = "example_gpu_ctx example_onscreen_config", THEN conjunct1, rule_format, OF ex_init_on,
      folded example_onscreen_gpu_ctx_def]
  note t4 = C2_default_rendertargets_paired[where d = "example_driver {NGLI_FEATURE_GL_FRAMEBUFFER_OBJECT}"
      and s = example_onscreen_gpu_ctx and wd = 800 and ht = 600 and vp = None,
      THEN conjunct2, THEN conjunct2, rule_format, OF ex_resize_on]
  from t4 t3 have t5: "default_rendertargets_paired
        (fst (snd (gl_resize (example_driver {NGLI_FEATURE_GL_FRAMEBUFFER_OBJECT})
                     example_onscreen_gpu_ctx 800 600 None)))"
    by blast
  show ?thesis
    using ex_init_off t1 ex_init_ext t2 t3 ex_resize_on t5 ex_resize_on_cfg by (intro conjI)
qed

subsection \<open>Multisampling without framebuffer objects\<close>

text \<open>
  C7.  On a driver without the framebuffer object feature, \<open>offscreen_rendertarget_init\<close>
  with a positive sample count logs one warning and then behaves exactly as it does for the
  same context with \<open>samples = 0\<close>: same return code, same resulting context, same further
  log.  The resulting configuration has \<open>samples = 0\<close>.  With the CPU capture type, and when
  the two texture creations and the two render target initialisations succeed, it returns
  success.
\<close>

theorem C7_samples_clamped:
  assumes "glcontext s = Some gl"
    and "NGLI_FEATURE_GL_FRAMEBUFFER_OBJECT \<notin> gl_features gl"
    and "samples (config s) > 0"
  shows "offscreen_rendertarget_init b d s =
           (case offscreen_rendertarget_init b d (s\<lparr> config := (config s)\<lparr> samples := 0 \<rparr> \<rparr>) of
              (r, s', l) \<Rightarrow>
                (r, s', (LOG_WARNING, ''context does not support the framebuffer object feature, multisample anti-aliasing will be disabled'') # l))
       \<and> samples (config (fst (snd (offscreen_rendertarget_init b d s)))) = 0
       \<and> (capture_buffer_type (config s) = NGL_CAPTURE_BUFFER_TYPE_CPU \<and> ms_color s = None
           \<and> create_texture d (s\<lparr> config := (config s)\<lparr> samples := 0 \<rparr> \<rparr>) NGLI_FORMAT_R8G8B8A8_UNORM 0
                = (RET_OK, Some tc)
           \<and> create_texture d (s\<lparr> config := (config s)\<lparr> samples := 0 \<rparr> \<rparr>) NGLI_FORMAT_D24_UNORM_S8_UINT 0
                = (RET_OK, Some td)
           \<and> ngli_rendertarget_create d NGLI_LOAD_OP_CLEAR \<and> ngli_rendertarget_create d NGLI_LOAD_OP_LOAD
           \<and> fst (ngli_rendertarget_gl_init d gl ngli_rendertarget_gl_create
                    (default_rt_params ((config s)\<lparr> samples := 0 \<rparr>) (Some tc) None (Some td) NGLI_LOAD_OP_CLEAR))
                = RET_OK
           \<and> fst (ngli_rendertarget_gl_init d gl ngli_rendertarget_gl_create
                    (default_rt_params ((config s)\<lparr> samples := 0 \<rparr>) (Some tc) None (Some td) NGLI_LOAD_OP_LOAD))
                = RET_OK
           \<longrightarrow> fst (offscreen_rendertarget_init b d s) = RET_OK)"
proof (intro conjI impI)
  show e: "offscreen_rendertarget_init b d s =
           (case offscreen_rendertarget_init b d (s\<lparr> config := (config s)\<lparr> samples := 0 \<rparr> \<rparr>) of
              (r, s', l) \<Rightarrow>
                (r, s', (LOG_WARNING, ''context does not support the framebuffer object feature, multisample anti-aliasing will be disabled'') # l))"
    using assms by (simp add: offscreen_rendertarget_init_def case_prod_beta Let_def)
  show z: "samples (config (fst (snd (offscreen_rendertarget_init b d s)))) = 0"
    using assms offscreen_targets_config[of b d "s\<lparr> config := (config s)\<lparr> samples := 0 \<rparr> \<rparr>"]
    by (simp add: offscreen_rendertarget_init_def case_prod_beta Let_def)
next
  assume h: "capture_buffer_type (config s) = NGL_CAPTURE_BUFFER_TYPE_CPU \<and> ms_color s = None
           \<and> create_texture d (s\<lparr> config := (config s)\<lparr> samples := 0 \<rparr> \<rparr>) NGLI_FORMAT_R8G8B8A8_UNORM 0
                = (RET_OK, Some tc)
           \<and> create_texture d (s\<lparr> config := (config s)\<lparr> samples := 0 \<rparr> \<rparr>) NGLI_FORMAT_D24_UNORM_S8_UINT 0
                = (RET_OK, Some td)
           \<and> ngli_rendertarget_create d NGLI_LOAD_OP_CLEAR \<and> ngli_rendertarget_create d NGLI_LOAD_OP_LOAD
           \<and> fst (ngli_rendertarget_gl_init d gl ngli_rendertarget_gl_create
                    (default_rt_params ((config s)\<lparr> samples := 0 \<rparr>) (Some tc) None (Some td) NGLI_LOAD_OP_CLEAR))
                = RET_OK
           \<and> fst (ngli_rendertarget_gl_init d gl ngli_rendertarget_gl_create
                    (default_rt_params ((config s)\<lparr> samples := 0 \<rparr>) (Some tc) None (Some td) NGLI_LOAD_OP_LOAD))
                = RET_OK"
  define s1 where "s1 = s\<lparr> config := (config s)\<lparr> samples := 0 \<rparr> \<rparr>"
  define s4 where "s4 = s1\<lparr> color := Some tc, depth_stencil := Some td \<rparr>"
  have t1: "create_texture d s1 NGLI_FORMAT_R8G8B8A8_UNORM 0 = (RET_OK, Some tc)"
    and t2: "create_texture d (s1\<lparr> color := Some tc \<rparr>) NGLI_FORMAT_D24_UNORM_S8_UINT 0 = (RET_OK, Some td)"
    using h by (simp_all add: s1_def create_texture_def)
  have e1: "capture_buffer_type (config s1) = NGL_CAPTURE_BUFFER_TYPE_CPU" "samples (config s1) = 0"
    "ms_color s1 = None"
    using h by (simp_all add: s1_def)
  have g4: "glcontext s4 = Some gl" and c4: "config s4 = (config s)\<lparr> samples := 0 \<rparr>"
    using assms by (simp_all add: s4_def s1_def)
  have cr: "fst (create_rendertarget d s0 (Some tc) None (Some td) lop) = RET_OK"
    if "glcontext s0 = Some gl" "config s0 = (config s)\<lparr> samples := 0 \<rparr>"
      "lop = NGLI_LOAD_OP_CLEAR \<or> lop = NGLI_LOAD_OP_LOAD" for s0 lop
    using that h by (auto simp: create_rendertarget_def Let_def failed_iff case_prod_beta)
  have cd: "fst (create_default_rendertargets d s4 (Some tc) None (Some td)) = RET_OK"
    using cr[of s4 NGLI_LOAD_OP_CLEAR] cr[of "s4\<lparr> default_rt := x \<rparr>" NGLI_LOAD_OP_LOAD for x] g4 c4
    by (simp add: create_default_rendertargets_def Let_def failed_iff case_prod_beta)
  have ci: "offscreen_color_init b d s1 = (RET_OK, s1\<lparr> color := Some tc \<rparr>, [])"
    by (simp add: offscreen_color_init_def Let_def e1 t1)
  have "fst (offscreen_rendertarget_init_targets b d s1) = RET_OK"
    using cd
    by (simp add: offscreen_rendertarget_init_targets_def Let_def ci e1 t2 failed_iff
        case_prod_beta s4_def)
  then show "fst (offscreen_rendertarget_init b d s) = RET_OK"
    using assms by (simp add: offscreen_rendertarget_init_def s1_def case_prod_beta Let_def)
qed

theorem C7_samples_clamped_witness:
  "glcontext example_no_fbo_gpu_ctx
      = Some (example_glcontext {} (glcontext_params_of example_offscreen_config))
   \<and> NGLI_FEATURE_GL_FRAMEBUFFER_OBJECT
        \<notin> gl_features (example_glcontext {} (glcontext_params_of example_offscreen_config))
   \<and> samples (config example_no_fbo_gpu_ctx) = 4
   \<and> fst (offscreen_rendertarget_init example_build (example_driver {}) example_no_fbo_gpu_ctx) = RET_OK
   \<and> samples (config (fst (snd (offscreen_rendertarget_init example_build (example_driver {})
                                  example_no_fbo_gpu_ctx)))) = 0
   \<and> hd (snd (snd (offscreen_rendertarget_init example_build (example_driver {}) example_no_fbo_gpu_ctx)))
        = (LOG_WARNING, ''context does not support the framebuffer object feature, multisample anti-aliasing will be disabled'')"
proof -
  have g: "glcontext example_no_fbo_gpu_ctx
      = Some (example_glcontext {} (glcontext_params_of example_offscreen_config))"
    by (simp add: example_no_fbo_gpu_ctx_def)
  have f: "NGLI_FEATURE_GL_FRAMEBUFFER_OBJECT
        \<notin> gl_features (example_glcontext {} (glcontext_params_of example_offscreen_config))"
    by (simp add: example_glcontext_def)
  have n: "samples (config example_no_fbo_gpu_ctx) = 4"
    by (simp add: example_no_fbo_gpu_ctx_def ex_defs)
  have p: "0 < samples (config example_no_fbo_gpu_ctx)" using n by simp
  note t = C7_samples_clamped[OF g f p, of example_build "example_driver {}"
      "example_texture (example_color_params NGLI_FORMAT_R8G8B8A8_UNORM)"
      "example_texture (example_color_params NGLI_FORMAT_D24_UNORM_S8_UINT)"]
  have h: "capture_buffer_type (config example_no_fbo_gpu_ctx) = NGL_CAPTURE_BUFFER_TYPE_CPU
      \<and> ms_color example_no_fbo_gpu_ctx = None
      \<and> create_texture (example_driver {})
           (example_no_fbo_gpu_ctx\<lparr> config := (config example_no_fbo_gpu_ctx)\<lparr> samples := 0 \<rparr> \<rparr>)
           NGLI_FORMAT_R8G8B8A8_UNORM 0
          = (RET_OK, Some (example_texture (example_color_params NGLI_FORMAT_R8G8B8A8_UNORM)))
      \<and> create_texture (example_driver {})
           (example_no_fbo_gpu_ctx\<lparr> config := (config example_no_fbo_gpu_ctx)\<lparr> samples := 0 \<rparr> \<rparr>)
           NGLI_FORMAT_D24_UNORM_S8_UINT 0
          = (RET_OK, Some (example_texture (example_color_params NGLI_FORMAT_D24_UNORM_S8_UINT)))
      \<and> ngli_rendertarget_create (example_driver {}) NGLI_LOAD_OP_CLEAR
      \<and> ngli_rendertarget_create (example_driver {}) NGLI_LOAD_OP_LOAD
      \<and> fst (ngli_rendertarget_gl_init (example_driver {})
                (example_glcontext {} (glcontext_params_of example_offscreen_config))
                ngli_rendertarget_gl_create
                (default_rt_params ((config example_no_fbo_gpu_ctx)\<lparr> samples := 0 \<rparr>)
                   (Some (example_texture (example_color_params NGLI_FORMAT_R8G8B8A8_UNORM))) None
                   (Some (example_texture (example_color_params NGLI_FORMAT_D24_UNORM_S8_UINT)))
                   NGLI_LOAD_OP_CLEAR)) = RET_OK
      \<and> fst (ngli_rendertarget_gl_init (example_driver {})
                (example_glcontext {} (glcontext_params_of example_offscreen_config))
                ngli_rendertarget_gl_create
                (default_rt_params ((config example_no_fbo_gpu_ctx)\<lparr> samples := 0 \<rparr>)
                   (Some (example_texture (example_color_params NGLI_FORMAT_R8G8B8A8_UNORM))) None
                   (Some (example_texture (example_color_params NGLI_FORMAT_D24_UNORM_S8_UINT)))
                   NGLI_LOAD_OP_LOAD)) = RET_OK"
    by (simp add: example_no_fbo_gpu_ctx_def example_color_params_def ex_defs gl_defs)
  from t h have ok: "fst (offscreen_rendertarget_init example_build (example_driver {}) example_no_fbo_gpu_ctx) = RET_OK"
    by blast
  from t have z: "samples (config (fst (snd (offscreen_rendertarget_init example_build (example_driver {})
                                  example_no_fbo_gpu_ctx)))) = 0"
    by blast
  from t have w: "hd (snd (snd (offscreen_rendertarget_init example_build (example_driver {}) example_no_fbo_gpu_ctx)))
        = (LOG_WARNING, ''context does not support the framebuffer object feature, multisample anti-aliasing will be disabled'')"
    by (simp add: case_prod_beta)
  show ?thesis using g f n ok z w by (intro conjI)
qed

subsection \<open>A scene that cannot be attached\<close>

lemma reset_scene_unref_scene:
  "scene (ctx (reset_scene w NGLI_ACTION_UNREF_SCENE)) = None"
  by (simp add: reset_scene_def Let_def split: option.splits)

lemma reset_scene_unref_nodes:
  "nodes (reset_scene w NGLI_ACTION_UNREF_SCENE) =
     (case scene (ctx w) of None \<Rightarrow> nodes w
      | Some p \<Rightarrow> ngl_node_unrefp (ngli_node_detach_ctx (nodes w) p) p)"
  by (simp add: reset_scene_def Let_def split: option.splits)

lemma reset_scene_frame:
  "configured (ctx (reset_scene w act)) = configured (ctx w)"
  by (simp add: reset_scene_def Let_def split: option.splits)

lemma set_scene_attach_failure:
  assumes g: "gpu_ctx (ctx w) = Some g"
      and live: "nodes (reset_scene w NGLI_ACTION_UNREF_SCENE) n = Some nd"
      and fl: "failed (ngli_node_attach_ctx_ret e n)"
  shows "ngli_ctx_set_scene e w (Some n) =
           (ngli_node_attach_ctx_ret e n,
            (reset_scene w NGLI_ACTION_UNREF_SCENE)
              \<lparr> ctx := (ctx (reset_scene w NGLI_ACTION_UNREF_SCENE))
                   \<lparr> rnode := \<lparr> rn_initialized = True, rn_graphicstate_defaults = True,
                                 rn_rendertarget_desc = Some (default_rt_desc g) \<rparr>,
                      rnode_pos := True \<rparr>,
                 nodes := (nodes (reset_scene w NGLI_ACTION_UNREF_SCENE))
                             (n \<mapsto> nd\<lparr> attached := False \<rparr>) \<rparr>,
            [])"
  using g live fl
  by (simp add: ngli_ctx_set_scene_def Let_def ngli_node_attach_ctx_def ngli_node_detach_ctx_def)

text \<open>
  C4, as stated, fails in its last part: \<open>ngli_ctx_set_scene\<close> releases the previous scene
  (\<open>reset_scene\<close> with \<open>NGLI_ACTION_UNREF_SCENE\<close>) before it attaches the new one, and nothing
  restores it when the attachment fails.  On a context that holds the only reference to its
  scene, a call whose attachment fails returns the error and the previous scene has been
  destroyed, although keeping it was possible.
\<close>

theorem C4_previous_scene_destroyed_counterexample:
  "configured (ctx example_last_ref_world)
   \<and> scene (ctx example_last_ref_world) = Some 1
   \<and> nodes example_last_ref_world 1 = Some \<lparr> refcount = 1, attached = True \<rparr>
   \<and> fst (ngl_set_scene example_impls example_last_ref_world (Some 2)) = RET_ERR NGL_ERROR_MEMORY
   \<and> scene (ctx (fst (snd (ngl_set_scene example_impls example_last_ref_world (Some 2))))) = None
   \<and> nodes (fst (snd (ngl_set_scene example_impls example_last_ref_world (Some 2)))) 1 = None"
  by (simp add: example_last_ref_world_def example_scene_world_def example_gl_world_def
        example_impls_def api_gl_def example_env_def ngl_set_scene_def ngli_ctx_set_scene_def
        reset_scene_def ngli_node_attach_ctx_def ngli_node_detach_ctx_def ngl_node_unrefp_def
        ngl_create_def Let_def)

text \<open>
  C4, amended.  On a configured context whose backend entry is \<open>ngli_ctx_set_scene\<close>, let the
  new scene \<open>n\<close> be a live node that stays live once the context has released its previous
  scene, and let attaching it fail.  Then \<open>ngl_set_scene\<close> returns the error of the
  attachment, the context's scene pointer is NULL (in particular it is not \<open>n\<close>), the
  context stays configured, and \<open>n\<close> is detached and keeps the references of its other
  holders.  The previous scene \<open>p\<close> has been detached and the context's reference to it
  released before the attachment: it is left detached and not destroyed exactly when somebody
  else holds a reference, and it is destroyed when the context held the last one.  No other
  node is touched.
\<close>

theorem C4_set_scene_attach_failure:
  assumes c: "configured (ctx w)"
      and a: "api_impl (ctx w) = Some a"
      and impl: "impl_set_scene (vt a) = ngli_ctx_set_scene e"
      and g: "gpu_ctx (ctx w) = Some g"
      and nd: "nodes w n = Some nd"
      and held: "scene (ctx w) = Some n \<longrightarrow> 1 < refcount nd"
      and fl: "failed (ngli_node_attach_ctx_ret e n)"
  shows "fst (ngl_set_scene vt w (Some n)) = ngli_node_attach_ctx_ret e n
       \<and> scene (ctx (fst (snd (ngl_set_scene vt w (Some n))))) = None
       \<and> configured (ctx (fst (snd (ngl_set_scene vt w (Some n)))))
       \<and> nodes (fst (snd (ngl_set_scene vt w (Some n)))) n =
           Some (nd\<lparr> attached := False,
                     refcount := (if scene (ctx w) = Some n then refcount nd - 1 else refcount nd) \<rparr>)
       \<and> (\<forall>p pd. scene (ctx w) = Some p \<and> nodes w p = Some pd \<longrightarrow>
             nodes (fst (snd (ngl_set_scene vt w (Some n)))) p =
               (if 1 < refcount pd
                then Some (pd\<lparr> attached := False, refcount := refcount pd - 1 \<rparr>)
                else None))
       \<and> (\<forall>q. q \<noteq> n \<and> scene (ctx w) \<noteq> Some q \<longrightarrow>
             nodes (fst (snd (ngl_set_scene vt w (Some n)))) q = nodes w q)"
proof -
  let ?w1 = "reset_scene w NGLI_ACTION_UNREF_SCENE"
  let ?nd1 = "nd\<lparr> refcount := (if scene (ctx w) = Some n then refcount nd - 1 else refcount nd),
                   attached := (if scene (ctx w) = Some n then False else attached nd) \<rparr>"
  have live: "nodes ?w1 n = Some ?nd1"
    using nd held
    by (auto simp add: reset_scene_unref_nodes ngl_node_unrefp_def ngli_node_detach_ctx_def
             split: option.splits)
  have eq: "ngl_set_scene vt w (Some n) = ngli_ctx_set_scene e w (Some n)"
    using c a impl by (simp add: ngl_set_scene_def)
  note r = set_scene_attach_failure[OF g live fl]
  have 1: "fst (ngl_set_scene vt w (Some n)) = ngli_node_attach_ctx_ret e n"
    by (simp add: eq r)
  have 2: "scene (ctx (fst (snd (ngl_set_scene vt w (Some n))))) = None"
    by (simp add: eq r reset_scene_unref_scene)
  have 3: "configured (ctx (fst (snd (ngl_set_scene vt w (Some n)))))"
    using c by (simp add: eq r reset_scene_frame)
  have 4: "nodes (fst (snd (ngl_set_scene vt w (Some n)))) n =
           Some (nd\<lparr> attached := False,
                     refcount := (if scene (ctx w) = Some n then refcount nd - 1 else refcount nd) \<rparr>)"
    by (simp add: eq r)
  have 5: "\<forall>p pd. scene (ctx w) = Some p \<and> nodes w p = Some pd \<longrightarrow>
             nodes (fst (snd (ngl_set_scene vt w (Some n)))) p =
               (if 1 < refcount pd
                then Some (pd\<lparr> attached := False, refcount := refcount pd - 1 \<rparr>)
                else None)"
    using nd held
    by (auto simp add: eq r reset_scene_unref_nodes ngl_node_unrefp_def ngli_node_detach_ctx_def)
  have 6: "\<forall>q. q \<noteq> n \<and> scene (ctx w) \<noteq> Some q \<longrightarrow>
             nodes (fst (snd (ngl_set_scene vt w (Some n)))) q = nodes w q"
    by (auto simp add: eq r reset_scene_unref_nodes ngl_node_unrefp_def ngli_node_detach_ctx_def
             split: option.splits)
  show ?thesis using 1 2 3 4 5 6 by blast
qed

theorem C4_set_scene_attach_failure_witness:
  "fst (ngl_set_scene example_impls example_scene_world (Some 2)) = RET_ERR NGL_ERROR_MEMORY
   \<and> scene (ctx (fst (snd (ngl_set_scene example_impls example_scene_world (Some 2))))) = None
   \<and> configured (ctx (fst (snd (ngl_set_scene example_impls example_scene_world (Some 2)))))
   \<and> nodes (fst (snd (ngl_set_scene example_impls example_scene_world (Some 2)))) 2
       = Some \<lparr> refcount = 1, attached = False \<rparr>
   \<and> nodes (fst (snd (ngl_set_scene example_impls example_scene_world (Some 2)))) 1
       = Some \<lparr> refcount = 1, attached = False \<rparr>"
proof -
  let ?e = "example_env {NGLI_FEATURE_GL_FRAMEBUFFER_OBJECT}"
  have c: "configured (ctx example_scene_world)"
    by (simp add: example_scene_world_def example_gl_world_def)
  have a: "api_impl (ctx example_scene_world) = Some API_GL"
    by (simp add: example_scene_world_def example_gl_world_def)
  have impl: "impl_set_scene (example_impls API_GL) = ngli_ctx_set_scene ?e"
    by (simp add: example_impls_def api_gl_def)
  have g: "gpu_ctx (ctx example_scene_world) = Some (gl_create\<lparr> config := example_onscreen_config \<rparr>)"
    by (simp add: example_scene_world_def example_gl_world_def)
  have nd: "nodes example_scene_world 2 = Some \<lparr> refcount = 1, attached = False \<rparr>"
    by (simp add: example_scene_world_def example_gl_world_def)
  have held: "scene (ctx example_scene_world) = Some 2 \<longrightarrow> 1 < refcount \<lparr> refcount = 1, attached = False \<rparr>"
    by (simp add: example_scene_world_def example_gl_world_def)
  have fl: "failed (ngli_node_attach_ctx_ret ?e 2)"
    by (simp add: example_env_def)
  have sc: "scene (ctx example_scene_world) = Some 1"
    by (simp add: example_scene_world_def example_gl_world_def)
  have n1: "nodes example_scene_world 1 = Some \<lparr> refcount = 2, attached = True \<rparr>"
    by (simp add: example_scene_world_def example_gl_world_def)
  have er: "ngli_node_attach_ctx_ret ?e 2 = RET_ERR NGL_ERROR_MEMORY"
    by (simp add: example_env_def)
  note t = C4_set_scene_attach_failure[where vt = example_impls and a = API_GL, OF c a impl g nd held fl]
  from t have t1: "fst (ngl_set_scene example_impls example_scene_world (Some 2)) = RET_ERR NGL_ERROR_MEMORY"
    using er by simp
  from t have t2: "scene (ctx (fst (snd (ngl_set_scene example_impls example_scene_world (Some 2))))) = None"
    by blast
  from t have t3: "configured (ctx (fst (snd (ngl_set_scene example_impls example_scene_world (Some 2)))))"
    by blast
  from t have t4: "nodes (fst (snd (ngl_set_scene example_impls example_scene_world (Some 2)))) 2
       = Some \<lparr> refcount = 1, attached = False \<rparr>"
    using sc by simp
  from t have "\<forall>p pd. scene (ctx example_scene_world) = Some p \<and> nodes example_scene_world p = Some pd \<longrightarrow>
             nodes (fst (snd (ngl_set_scene example_impls example_scene_world (Some 2)))) p =
               (if 1 < refcount pd
                then Some (pd\<lparr> attached := False, refcount := refcount pd - 1 \<rparr>)
                else None)"
    by blast
  from this[rule_format, of 1 "\<lparr> refcount = 2, attached = True \<rparr>"] sc n1
  have t5: "nodes (fst (snd (ngl_set_scene example_impls example_scene_world (Some 2)))) 1
       = Some \<lparr> refcount = 1, attached = False \<rparr>"
    by simp
  show ?thesis using t1 t2 t3 t4 t5 by blast
qed

subsection \<open>Probing the backends\<close>

lemma backend_probe_ret_slot:
  "fst (backend_probe e bk cfg md) = fst (backend_probe e bk' cfg md)"
  by (simp add: backend_probe_def load_caps_def Let_def case_prod_beta split: option.splits)

lemma backend_probe_id:
  "\<not> failed (fst (backend_probe e bk cfg md)) \<Longrightarrow>
     be_id (fst (snd (backend_probe e bk cfg md))) = backend cfg"
  by (simp add: backend_probe_def load_caps_def Let_def case_prod_beta
           split: option.splits if_splits)

lemma backends_probe_loop_ids:
  "nb + length ids \<le> length bs \<Longrightarrow>
   map be_id (take (fst (snd (backends_probe_loop e uc plat md ids bs nb l)))
                   (fst (backends_probe_loop e uc plat md ids bs nb l)))
     = map be_id (take nb bs)
       @ filter (\<lambda>bid. (backend uc = NGL_BACKEND_AUTO \<or> backend uc = bid)
                      \<and> \<not> failed (fst (backend_probe e backend_zero
                                          (uc\<lparr> backend := bid, platform := plat \<rparr>) md))) ids"
proof (induction ids arbitrary: bs nb l)
  case Nil
  show ?case by simp
next
  case (Cons bid ids)
  let ?cfg = "uc\<lparr> backend := bid, platform := plat \<rparr>"
  let ?p = "backend_probe e (bs ! nb) ?cfg md"
  have nb: "nb < length bs" using Cons.prems by simp
  have slot: "fst ?p = fst (backend_probe e backend_zero ?cfg md)"
    by (rule backend_probe_ret_slot)
  show ?case
  proof (cases "backend uc \<noteq> NGL_BACKEND_AUTO \<and> backend uc \<noteq> bid")
    case True
    have le: "nb + length ids \<le> length bs" using Cons.prems by simp
    have st: "backends_probe_loop e uc plat md (bid # ids) bs nb l
                = backends_probe_loop e uc plat md ids bs nb l"
      using True by simp
    show ?thesis unfolding st using Cons.IH[OF le, of l] True by simp
  next
    case req: False
    show ?thesis
    proof (cases "failed (fst ?p)")
      case True
      let ?bs1 = "bs[nb := fst (snd ?p)]"
      let ?l1 = "l @ snd (snd ?p)"
      have le: "nb + length ids \<le> length ?bs1" using Cons.prems by simp
      have st: "backends_probe_loop e uc plat md (bid # ids) bs nb l
                  = backends_probe_loop e uc plat md ids ?bs1 nb ?l1"
        using req True by (auto simp add: case_prod_beta)
      have fl: "failed (fst (backend_probe e backend_zero ?cfg md))" using True slot by simp
      show ?thesis unfolding st using Cons.IH[OF le, of ?l1] fl by simp
    next
      case ok: False
      let ?bk = "(fst (snd ?p))\<lparr> be_is_default := (bid = DEFAULT_BACKEND (bld e)) \<rparr>"
      let ?bs1 = "bs[nb := ?bk]"
      let ?l1 = "l @ snd (snd ?p)"
      have le: "(nb + 1) + length ids \<le> length ?bs1" using Cons.prems by simp
      have tk: "take (nb + 1) ?bs1 = take nb bs @ [?bk]"
        using nb by (simp add: take_Suc_conv_app_nth)
      have idk: "be_id ?bk = bid" using backend_probe_id[OF ok] by simp
      have st: "backends_probe_loop e uc plat md (bid # ids) bs nb l
                  = backends_probe_loop e uc plat md ids ?bs1 (nb + 1) ?l1"
        using req ok by (auto simp add: case_prod_beta)
      have nfl: "\<not> failed (fst (backend_probe e backend_zero ?cfg md))" using ok slot by simp
      have rq: "backend uc = NGL_BACKEND_AUTO \<or> backend uc = bid" using req by blast
      show ?thesis unfolding st using Cons.IH[OF le, of ?l1] nfl rq tk idk
        by (simp del: backends_probe_loop.simps)
    qed
  qed
qed

lemma backends_probe_ids:
  assumes "ngli_calloc e"
  shows "fst (backends_probe e user_config out md) = RET_OK
       \<and> map be_id (listed_backends (fst (snd (backends_probe e user_config out md))))
           = filter (probe_succeeds e user_config md) (backend_ids (bld e))"
proof -
  let ?uc = "case user_config of None \<Rightarrow> default_config | Some c \<Rightarrow> c"
  let ?plat = "if platform ?uc = NGL_PLATFORM_AUTO then get_default_platform (bld e) else platform ?uc"
  let ?n = "length (backend_ids (bld e))"
  let ?L = "backends_probe_loop e ?uc ?plat md (backend_ids (bld e)) (replicate ?n backend_zero) 0 []"
  have le: "0 + length (backend_ids (bld e)) \<le> length (replicate ?n backend_zero)" by simp
  have ids: "map be_id (take (fst (snd ?L)) (fst ?L))
               = filter (probe_succeeds e user_config md) (backend_ids (bld e))"
  proof -
    have ps: "probe_succeeds e user_config md =
                (\<lambda>bid. (backend ?uc = NGL_BACKEND_AUTO \<or> backend ?uc = bid)
                       \<and> \<not> failed (fst (backend_probe e backend_zero
                                           (?uc\<lparr> backend := bid, platform := ?plat \<rparr>) md)))"
      by (rule ext) (simp add: probe_succeeds_def probe_config_def Let_def)
    have "map be_id (take (fst (snd ?L)) (fst ?L))
            = map be_id (take 0 (replicate ?n backend_zero))
              @ filter (\<lambda>bid. (backend ?uc = NGL_BACKEND_AUTO \<or> backend ?uc = bid)
                       \<and> \<not> failed (fst (backend_probe e backend_zero
                                           (?uc\<lparr> backend := bid, platform := ?plat \<rparr>) md)))
                  (backend_ids (bld e))"
      by (rule backends_probe_loop_ids[OF le])
    then show ?thesis unfolding ps by simp
  qed
  have r: "backends_probe e user_config out md
             = (RET_OK, (fst (snd ?L), if fst (snd ?L) = 0 then None else Some (fst ?L)), snd (snd ?L))"
    using assms by (simp add: backends_probe_def Let_def case_prod_beta)
  have "map be_id (listed_backends (fst (snd (backends_probe e user_config out md))))
          = map be_id (take (fst (snd ?L)) (fst ?L))"
    by (simp add: r listed_backends_def)
  with ids r show ?thesis by simp
qed

lemma probe_full_light:
  "probe_succeeds e user_config PROBE_MODE_FULL bid \<Longrightarrow>
   probe_succeeds e user_config PROBE_MODE_NO_GRAPHICS bid"
  by (auto simp add: probe_succeeds_def backend_probe_def Let_def split: option.splits)

lemma backend_ids_api_map:
  "bid \<in> set (backend_ids b) \<Longrightarrow> api_map b bid \<noteq> None"
  by (auto simp add: backend_ids_def split: if_splits)

text \<open>
  C8.  Whenever the array of result slots can be allocated, both probes return success
  whatever the individual probes answer, and the backends a probe lists are, in the order of
  \<open>backend_ids\<close>, exactly the compiled-in backends that the configuration requests and whose
  own probe succeeds: a failing backend is left out and those after it are still probed.
  So every backend the full probe lists is compiled into the build (and is one
  \<open>ngl_configure\<close> has an implementation for), and is also listed by the probe without
  graphics for the same configuration.
\<close>

theorem C8_probe_backends:
  assumes al: "ngli_calloc e"
  shows "fst (ngl_backends_probe e user_config out) = RET_OK
       \<and> fst (ngl_backends_get e user_config out') = RET_OK
       \<and> map be_id (listed_backends (fst (snd (ngl_backends_probe e user_config out))))
           = filter (probe_succeeds e user_config PROBE_MODE_FULL) (backend_ids (bld e))
       \<and> map be_id (listed_backends (fst (snd (ngl_backends_get e user_config out'))))
           = filter (probe_succeeds e user_config PROBE_MODE_NO_GRAPHICS) (backend_ids (bld e))
       \<and> (\<forall>bk \<in> set (listed_backends (fst (snd (ngl_backends_probe e user_config out)))).
             be_id bk \<in> set (backend_ids (bld e)) \<and> api_map (bld e) (be_id bk) \<noteq> None)
       \<and> (\<forall>bk \<in> set (listed_backends (fst (snd (ngl_backends_probe e user_config out)))).
             be_id bk \<in> be_id ` set (listed_backends (fst (snd (ngl_backends_get e user_config out')))))"
proof -
  let ?full = "listed_backends (fst (snd (ngl_backends_probe e user_config out)))"
  let ?light = "listed_backends (fst (snd (ngl_backends_get e user_config out')))"
  note f = backends_probe_ids[OF al, of user_config out PROBE_MODE_FULL]
  note g = backends_probe_ids[OF al, of user_config out' PROBE_MODE_NO_GRAPHICS]
  have 1: "fst (ngl_backends_probe e user_config out) = RET_OK"
    using f by (simp add: ngl_backends_probe_def)
  have 2: "fst (ngl_backends_get e user_config out') = RET_OK"
    using g by (simp add: ngl_backends_get_def)
  have 3: "map be_id ?full = filter (probe_succeeds e user_config PROBE_MODE_FULL) (backend_ids (bld e))"
    using f by (simp add: ngl_backends_probe_def)
  have 4: "map be_id ?light = filter (probe_succeeds e user_config PROBE_MODE_NO_GRAPHICS) (backend_ids (bld e))"
    using g by (simp add: ngl_backends_get_def)
  have sf: "be_id ` set ?full = {bid \<in> set (backend_ids (bld e)). probe_succeeds e user_config PROBE_MODE_FULL bid}"
    using arg_cong[OF 3, of set] by simp
  have sl: "be_id ` set ?light = {bid \<in> set (backend_ids (bld e)). probe_succeeds e user_config PROBE_MODE_NO_GRAPHICS bid}"
    using arg_cong[OF 4, of set] by simp
  have 5: "\<forall>bk \<in> set ?full. be_id bk \<in> set (backend_ids (bld e)) \<and> api_map (bld e) (be_id bk) \<noteq> None"
  proof
    fix bk assume "bk \<in> set ?full"
    then have "be_id bk \<in> be_id ` set ?full" by (rule imageI)
    then have "be_id bk \<in> set (backend_ids (bld e))" unfolding sf by simp
    then show "be_id bk \<in> set (backend_ids (bld e)) \<and> api_map (bld e) (be_id bk) \<noteq> None"
      using backend_ids_api_map by blast
  qed
  have 6: "\<forall>bk \<in> set ?full. be_id bk \<in> be_id ` set ?light"
  proof
    fix bk assume "bk \<in> set ?full"
    then have "be_id bk \<in> be_id ` set ?full" by (rule imageI)
    then have "be_id bk \<in> set (backend_ids (bld e)) \<and> probe_succeeds e user_config PROBE_MODE_FULL (be_id bk)"
      unfolding sf by simp
    then have "be_id bk \<in> {bid \<in> set (backend_ids (bld e)). probe_succeeds e user_config PROBE_MODE_NO_GRAPHICS bid}"
      using probe_full_light by blast
    then show "be_id bk \<in> be_id ` set ?light" unfolding sl .
  qed
  show ?thesis using 1 2 3 4 5 6 by blast
qed

lemma example_probe_succeeds:
  "probe_succeeds example_probe_env (Some example_probe_config) PROBE_MODE_FULL NGL_BACKEND_OPENGL = False"
  "probe_succeeds example_probe_env (Some example_probe_config) PROBE_MODE_FULL NGL_BACKEND_OPENGLES = False"
  "probe_succeeds example_probe_env (Some example_probe_config) PROBE_MODE_FULL NGL_BACKEND_VULKAN = True"
  "probe_succeeds example_probe_env (Some example_probe_config) PROBE_MODE_NO_GRAPHICS NGL_BACKEND_OPENGL = True"
  "probe_succeeds example_probe_env (Some example_probe_config) PROBE_MODE_NO_GRAPHICS NGL_BACKEND_OPENGLES = True"
  "probe_succeeds example_probe_env (Some example_probe_config) PROBE_MODE_NO_GRAPHICS NGL_BACKEND_VULKAN = True"
  by (simp_all add: probe_succeeds_def probe_config_def backend_probe_def ngli_gpu_ctx_create_def
        ngli_gpu_ctx_init_def gl_class_def gl_init_def is_external_def load_caps_def Let_def
        example_probe_env_def example_probe_config_def example_env_def example_build_def
        example_vk_class_def config_zero_def get_default_platform_def)

theorem C8_probe_backends_witness:
  "fst (ngl_backends_probe example_probe_env (Some example_probe_config) (0, None)) = RET_OK
   \<and> map be_id (listed_backends (fst (snd
         (ngl_backends_probe example_probe_env (Some example_probe_config) (0, None)))))
       = [NGL_BACKEND_VULKAN]
   \<and> map be_id (listed_backends (fst (snd
         (ngl_backends_get example_probe_env (Some example_probe_config) (0, None)))))
       = [NGL_BACKEND_OPENGL, NGL_BACKEND_OPENGLES, NGL_BACKEND_VULKAN]"
proof -
  have al: "ngli_calloc example_probe_env"
    by (simp add: example_probe_env_def example_env_def)
  have ids: "backend_ids (bld example_probe_env)
               = [NGL_BACKEND_OPENGL, NGL_BACKEND_OPENGLES, NGL_BACKEND_VULKAN]"
    by (simp add: backend_ids_def example_probe_env_def example_env_def example_build_def)
  note t = C8_probe_backends[OF al, of "Some example_probe_config" "(0, None)" "(0, None)"]
  have 1: "fst (ngl_backends_probe example_probe_env (Some example_probe_config) (0, None)) = RET_OK"
    using t by blast
  have 2: "map be_id (listed_backends (fst (snd
         (ngl_backends_probe example_probe_env (Some example_probe_config) (0, None)))))
       = [NGL_BACKEND_VULKAN]"
    using t[THEN conjunct2, THEN conjunct2, THEN conjunct1]
    by (simp add: ids example_probe_succeeds)
  have 3: "map be_id (listed_backends (fst (snd
         (ngl_backends_get example_probe_env (Some example_probe_config) (0, None)))))
       = [NGL_BACKEND_OPENGL, NGL_BACKEND_OPENGLES, NGL_BACKEND_VULKAN]"
    using t[THEN conjunct2, THEN conjunct2, THEN conjunct2, THEN conjunct1]
    by (simp add: ids example_probe_succeeds)
  show ?thesis using 1 2 3 by blast
qed

subsection \<open>The command mailbox\<close>



























end
